theory Spec2Isabelle
  imports Complex_Main
begin

section \<open>Conventions of the embedding\<close>

text \<open>
  The development embeds parts of \<^verbatim>\<open>source/thermodynamics.c\<close> of CLASS.

  \<^item> A C \<^verbatim>\<open>double\<close> is modelled as a \<^typ>\<open>real\<close>: arithmetic is exact, there is no
    rounding, no infinity and no NaN. \<^verbatim>\<open>exp\<close>, \<^verbatim>\<open>log\<close>, \<^verbatim>\<open>sqrt\<close>, \<^verbatim>\<open>fabs\<close> are the real
    functions; \<^verbatim>\<open>pow(a,n)\<close> with a literal integer \<open>n\<close> is \<open>a ^ n\<close>, and \<^verbatim>\<open>pow(a,y)\<close> with
    a fractional literal \<open>y\<close> is \<open>a powr y\<close> (the C value for \<open>a \<ge> 0\<close>).
  \<^item> A C \<^verbatim>\<open>int\<close> that holds a size, a count or an array offset is a \<^typ>\<open>nat\<close>; an array
    is a list, read with \<open>!\<close> and written with list update. Reads and writes outside the
    array are undefined in C; theorems carry the hypotheses that keep offsets in range.
  \<^item> A function that returns \<^verbatim>\<open>_SUCCESS_\<close> or \<^verbatim>\<open>_FAILURE_\<close> with a message returns a sum:
    \<open>Inl\<close> holds the message template of the failing \<^verbatim>\<open>class_test\<close> or \<^verbatim>\<open>class_stop\<close>;
    \<^verbatim>\<open>class_call\<close> hands the error of the callee on.
  \<^item> Macros of the headers that the functions use are fields of the record
    \<open>constants\<close>, and the routines of other modules that the functions call
    (\<^verbatim>\<open>array_*\<close>, \<^verbatim>\<open>background_*\<close>, the evolver) are function parameters.
\<close>

type_synonym ErrorMsg = string

record constants =
  YHE_SMALL :: real     \<comment> \<open>\<^verbatim>\<open>_YHE_SMALL_\<close>\<close>
  YHE_BIG :: real       \<comment> \<open>\<^verbatim>\<open>_YHE_BIG_\<close>\<close>
  not4 :: real          \<comment> \<open>\<^verbatim>\<open>_not4_\<close>\<close>
  sigma :: real         \<comment> \<open>\<^verbatim>\<open>_sigma_\<close>\<close>
  Mpc_over_m :: real    \<comment> \<open>\<^verbatim>\<open>_Mpc_over_m_\<close>\<close>
  k_B :: real           \<comment> \<open>\<^verbatim>\<open>_k_B_\<close>\<close>
  c_SI :: real          \<comment> \<open>\<^verbatim>\<open>_c_\<close>\<close>
  m_H :: real           \<comment> \<open>\<^verbatim>\<open>_m_H_\<close>\<close>
  PI :: real            \<comment> \<open>\<^verbatim>\<open>_PI_\<close>\<close>
  MAX_IT :: nat         \<comment> \<open>\<^verbatim>\<open>_MAX_IT_\<close>\<close>
  SPLINE_EST_DERIV :: int  \<comment> \<open>\<^verbatim>\<open>_SPLINE_EST_DERIV_\<close>\<close>

datatype reionization_parametrization =
  reio_none | reio_camb | reio_bins_tanh | reio_half_tanh | reio_many_tanh | reio_inter

datatype reionization_z_or_tau = reio_z | reio_tau

record precision =
  thermo_z_initial :: real
  thermo_z_linear :: real
  reionization_z_start_max :: real
  reionization_sampling :: real
  reionization_start_factor :: real
  reionization_optical_depth_tol :: real
  recfast_z_He_3 :: real
  thermo_rate_smoothing_radius :: nat

record background =
  T_cmb :: real
  a_today :: real
  has_cdm :: bool
  index_bg_H :: nat
  index_bg_H_prime :: nat
  index_bg_a :: nat
  index_bg_rho_b :: nat
  index_bg_rho_g :: nat

record thermo_workspace =
  Nz_reco_lin :: nat
  Nz_reco_log :: nat
  Nz_reio :: nat
  Nz_reco :: nat
  Nz_tot :: nat
  fHe :: real
  Tcmb :: real
  SIunit_H0 :: real
  SIunit_nH0 :: real
  R_g_factor :: real
  x_limit_T :: real

record thermo =
  YHe :: real
  annihilation :: real
  annihilation_variation :: real
  annihilation_z :: real
  annihilation_zmin :: real
  annihilation_zmax :: real
  annihilation_f_halo :: real
  annihilation_z_halo :: real
  decay :: real
  reio_parametrization :: reionization_parametrization
  reio_z_or_tau :: reionization_z_or_tau
  z_reio :: real
  tau_reio :: real
  reionization_width :: real
  helium_fullreio_redshift :: real
  helium_fullreio_width :: real
  many_tanh_num :: nat
  many_tanh_z :: "real list"
  many_tanh_xe :: "real list"
  many_tanh_width :: real
  reio_inter_num :: nat
  reio_inter_z :: "real list"
  reio_inter_xe :: "real list"
  compute_cb2_derivatives :: bool
  compute_damping_scale :: bool
  n_e :: real
  tt_size :: nat
  th_size :: nat
  z_table :: "real list"
  tau_table :: "real list"
  thermodynamics_table :: "real list"
  d2thermodynamics_dz2_table :: "real list"
  index_th_xe :: nat
  index_th_dkappa :: nat
  index_th_ddkappa :: nat
  index_th_dddkappa :: nat
  index_th_exp_m_kappa :: nat
  index_th_g :: nat
  index_th_dg :: nat
  index_th_ddg :: nat
  index_th_Tb :: nat
  index_th_cb2 :: nat
  index_th_tau_d :: nat
  index_th_dcb2 :: nat
  index_th_ddcb2 :: nat
  index_th_rate :: nat
  index_th_r_d :: nat
  inter_normal :: int
  inter_closeby :: int

section \<open>Checks on the input parameters\<close>

text \<open>
  \<^verbatim>\<open>thermodynamics_test_parameters\<close>: the tests in the order of the source, each
  \<^verbatim>\<open>class_test(condition, ...)\<close> failing when its condition holds. The warning printed in
  verbose mode changes no result and is left out.
\<close>

definition thermodynamics_test_parameters ::
  "constants \<Rightarrow> precision \<Rightarrow> background \<Rightarrow> thermo \<Rightarrow> ErrorMsg + unit" where
  "thermodynamics_test_parameters k ppr pba pth =
    (if YHe pth < YHE_SMALL k \<or> YHe pth > YHE_BIG k then
       Inl ''Y_He=%g out of bounds (%g<Y_He<%g)''
     else if annihilation pth < 0 then
       Inl ''annihilation parameter cannot be negative''
     else if annihilation pth > 1 / 10 ^ 4 then
       Inl ''annihilation parameter suspiciously large (%e, while typical bounds are in the range of 1e-7 to 1e-6)''
     else if annihilation_variation pth > 0 then
       Inl ''annihilation variation parameter must be negative (decreasing annihilation rate)''
     else if annihilation_z pth < 0 then
       Inl ''characteristic annihilation redshift cannot be negative''
     else if annihilation_zmin pth < 0 then
       Inl ''characteristic annihilation redshift cannot be negative''
     else if annihilation_zmax pth < 0 then
       Inl ''characteristic annihilation redshift cannot be negative''
     else if annihilation pth > 0 \<and> has_cdm pba = False then
       Inl ''CDM annihilation effects require the presence of CDM!''
     else if annihilation_f_halo pth < 0 then
       Inl ''Parameter for DM annihilation in halos cannot be negative''
     else if annihilation_z_halo pth < 0 then
       Inl ''Parameter for DM annihilation in halos cannot be negative''
     else if decay pth < 0 then
       Inl ''decay parameter cannot be negative''
     else if decay pth > 0 \<and> has_cdm pba = False then
       Inl ''CDM decay effects require the presence of CDM!''
     else if not4 k = 0 then
       Inl ''stop to avoid division by zero''
     else if YHe pth = 1 then
       Inl ''stop to avoid division by zero''
     else if - thermo_z_initial ppr > recfast_z_He_3 ppr then
       Inl ''increase zinitial, as it is after HeliumIII recombination starts.''
     else Inr ())"


section \<open>Concrete structures used to evaluate the functions\<close>

text \<open>
  The values of the macros in \<^verbatim>\<open>thermodynamics.h\<close> and \<^verbatim>\<open>common.h\<close> of CLASS, a background
  structure with the CMB temperature of the reference cosmology, and a thermo structure
  with a table of two rows and thirteen columns (damping scale computed, no derivative of
  the sound speed).
\<close>

definition class_constants :: constants where
  "class_constants =
    \<lparr>YHE_SMALL = 1 / 100, YHE_BIG = 1 / 2, not4 = 39715 / 10000,
     sigma = 66524616 / 10 ^ 36, Mpc_over_m = 3085677581282 * 10 ^ 10,
     k_B = 13806504 / 10 ^ 30, c_SI = 299792458, m_H = 1673575 / 10 ^ 33,
     PI = 31415926535897932384626433832795 / 10 ^ 31, MAX_IT = 10000,
     SPLINE_EST_DERIV = 1\<rparr>"

definition example_background :: background where
  "example_background =
    \<lparr>T_cmb = 27255 / 10000, a_today = 1, has_cdm = True,
     index_bg_H = 0, index_bg_H_prime = 1, index_bg_a = 2,
     index_bg_rho_b = 3, index_bg_rho_g = 4\<rparr>"

definition example_thermo :: thermo where
  "example_thermo =
    \<lparr>YHe = 1 / 4, annihilation = 0, annihilation_variation = 0, annihilation_z = 1000,
     annihilation_zmin = 30, annihilation_zmax = 2500, annihilation_f_halo = 0,
     annihilation_z_halo = 30, decay = 0,
     reio_parametrization = reio_camb, reio_z_or_tau = reio_z,
     z_reio = 8, tau_reio = 0, reionization_width = 1 / 2,
     helium_fullreio_redshift = 7 / 2, helium_fullreio_width = 1 / 2,
     many_tanh_num = 0, many_tanh_z = [], many_tanh_xe = [], many_tanh_width = 1 / 2,
     reio_inter_num = 0, reio_inter_z = [], reio_inter_xe = [],
     compute_cb2_derivatives = False, compute_damping_scale = True,
     n_e = 1 / 5, tt_size = 2, th_size = 13,
     z_table = [0, 100], tau_table = [14000, 300],
     thermodynamics_table =
       [1, 2, 0, 0, 1, 0, 0, 0, 10, 1, 0, 2, 50,
        3, 4, 0, 0, 0, 0, 0, 0, 270, 2, 5, 4, 7],
     d2thermodynamics_dz2_table = replicate 26 0,
     index_th_xe = 0, index_th_dkappa = 1, index_th_ddkappa = 2, index_th_dddkappa = 3,
     index_th_exp_m_kappa = 4, index_th_g = 5, index_th_dg = 6, index_th_ddg = 7,
     index_th_Tb = 8, index_th_cb2 = 9, index_th_tau_d = 10,
     index_th_dcb2 = 0, index_th_ddcb2 = 0, index_th_rate = 11, index_th_r_d = 12,
     inter_normal = 0, inter_closeby = 1\<rparr>"

definition low_z_initial_precision :: precision where
  "low_z_initial_precision =
    \<lparr>thermo_z_initial = 4000, thermo_z_linear = 3000, reionization_z_start_max = 50,
     reionization_sampling = 1 / 4, reionization_start_factor = 8,
     reionization_optical_depth_tol = 1 / 10000, recfast_z_He_3 = 5000,
     thermo_rate_smoothing_radius = 50\<rparr>"

section \<open>The test on the initial redshift\<close>

text \<open>
  C6. The claim: whenever \<open>thermo_z_initial\<close> is not larger than \<open>recfast_z_He_3\<close>, the
  redshift where Helium III recombination starts, the initialization fails at once with
  a domain error. The test of the source compares \<open>- thermo_z_initial\<close> with
  \<open>recfast_z_He_3\<close>: at \<open>thermo_z_initial = 4000\<close> and \<open>recfast_z_He_3 = 5000\<close>, with every
  other parameter in its range, \<^verbatim>\<open>thermodynamics_test_parameters\<close> succeeds.
\<close>

theorem test_parameters_accepts_low_z_initial:
  "thermo_z_initial low_z_initial_precision \<le> recfast_z_He_3 low_z_initial_precision \<and>
   thermodynamics_test_parameters class_constants low_z_initial_precision
     example_background example_thermo = Inr ()"
  by (simp add: thermodynamics_test_parameters_def class_constants_def
      low_z_initial_precision_def example_background_def example_thermo_def)

lemma test_parameters_z_initial_never_fires:
  assumes "0 \<le> thermo_z_initial ppr" and "0 \<le> recfast_z_He_3 ppr"
  shows "thermodynamics_test_parameters k ppr pba pth
           \<noteq> Inl ''increase zinitial, as it is after HeliumIII recombination starts.''"
  using assms by (simp add: thermodynamics_test_parameters_def)


section \<open>The interpolation service\<close>

text \<open>
  The interpolation routines of \<^verbatim>\<open>tools/arrays.c\<close> that \<^verbatim>\<open>thermodynamics_at_z\<close> calls, with
  their arguments in the order of the C prototypes: the abscissas, the number of lines,
  the table (for the splines, also the table of second derivatives), the number of
  columns, the point, the index hint behind \<^verbatim>\<open>int * last_index\<close>, the result vector and
  its size. Each returns an error, or the new index and the result vector.
\<close>

record array_tools =
  array_interpolate_linear ::
    "real list \<Rightarrow> nat \<Rightarrow> real list \<Rightarrow> nat \<Rightarrow> real \<Rightarrow> nat \<Rightarrow> real list \<Rightarrow> nat
       \<Rightarrow> ErrorMsg + (nat \<times> real list)"
  array_interpolate_spline ::
    "real list \<Rightarrow> nat \<Rightarrow> real list \<Rightarrow> real list \<Rightarrow> nat \<Rightarrow> real \<Rightarrow> nat \<Rightarrow> real list \<Rightarrow> nat
       \<Rightarrow> ErrorMsg + (nat \<times> real list)"
  array_interpolate_spline_growing_closeby ::
    "real list \<Rightarrow> nat \<Rightarrow> real list \<Rightarrow> real list \<Rightarrow> nat \<Rightarrow> real \<Rightarrow> nat \<Rightarrow> real list \<Rightarrow> nat
       \<Rightarrow> ErrorMsg + (nat \<times> real list)"

text \<open>
  The first branch of \<^verbatim>\<open>thermodynamics_at_z\<close> (lines 118 to 170): the assignments to
  \<^verbatim>\<open>pvecthermo\<close> in the order of the source. Later assignments read entries written by
  earlier ones (\<^verbatim>\<open>pvecthermo[pth->index_th_dkappa]\<close>, \<^verbatim>\<open>pvecthermo[pth->index_th_cb2]\<close>).
\<close>

definition thermodynamics_at_z_extrapolation ::
  "constants \<Rightarrow> background \<Rightarrow> thermo \<Rightarrow> real \<Rightarrow> real list \<Rightarrow> real list \<Rightarrow> real list" where
  "thermodynamics_at_z_extrapolation k pba pth z pvecback pvecthermo =
    (let last = tt_size pth - 1;
         x0 = thermodynamics_table pth ! (last * th_size pth + index_th_xe pth);
         v1 = pvecthermo[index_th_xe pth := x0];
         v2 = v1[index_th_dkappa pth :=
                 (1 + z) * (1 + z) * n_e pth * x0 * sigma k * Mpc_over_m k];
         v3 = v2[index_th_tau_d pth :=
                 thermodynamics_table pth ! (last * th_size pth + index_th_tau_d pth)
                   * ((1 + z) / (1 + z_table pth ! last)) ^ 2];
         v4 = (if compute_damping_scale pth then
                 v3[index_th_r_d pth :=
                    thermodynamics_table pth ! (last * th_size pth + index_th_r_d pth)
                      * ((1 + z) / (1 + z_table pth ! last)) powr (- (3 / 2))]
               else v3);
         v5 = v4[index_th_ddkappa pth :=
                 - (pvecback ! index_bg_H pba) * 2 / (1 + z) * (v4 ! index_th_dkappa pth)];
         v6 = v5[index_th_dddkappa pth :=
                 ((pvecback ! index_bg_H pba) * (pvecback ! index_bg_H pba) / (1 + z)
                    - pvecback ! index_bg_H_prime pba)
                   * 2 / (1 + z) * (v5 ! index_th_dkappa pth)];
         v7 = v6[index_th_exp_m_kappa pth := 0];
         v8 = v7[index_th_g pth := 0];
         v9 = v8[index_th_dg pth := 0];
         v10 = v9[index_th_ddg pth := 0];
         v11 = v10[index_th_Tb pth := T_cmb pba * (1 + z)];
         v12 = v11[index_th_cb2 pth :=
                   k_B k / (c_SI k * c_SI k * m_H k)
                     * (1 + (1 / not4 k - 1) * YHe pth + x0 * (1 - YHe pth))
                     * T_cmb pba * (1 + z) * 4 / 3];
         v13 = (if compute_cb2_derivatives pth then
                  (let w = v12[index_th_dcb2 pth :=
                               - (pvecback ! index_bg_H pba) * (pvecback ! index_bg_a pba)
                                 * (v12 ! index_th_cb2 pth)]
                   in w[index_th_ddcb2 pth :=
                        - (pvecback ! index_bg_H_prime pba) * (pvecback ! index_bg_a pba)
                          * (w ! index_th_cb2 pth)])
                else v12)
     in v13[index_th_rate pth := v13 ! index_th_dkappa pth])"

text \<open>
  \<^verbatim>\<open>thermodynamics_at_z\<close>. \<open>inter_mode\<close> is the C \<^verbatim>\<open>short\<close>, compared with the two flags of the
  thermo structure; the two tests on it are consecutive \<^verbatim>\<open>if\<close>s, not an \<^verbatim>\<open>if\<close>/\<^verbatim>\<open>else\<close>, so the
  second one runs on what the first one left. The extrapolation branch leaves
  \<^verbatim>\<open>*last_index\<close> as it was.
\<close>

definition thermodynamics_at_z ::
  "array_tools \<Rightarrow> constants \<Rightarrow> background \<Rightarrow> thermo \<Rightarrow> real \<Rightarrow> int \<Rightarrow> nat \<Rightarrow> real list
     \<Rightarrow> real list \<Rightarrow> ErrorMsg + (nat \<times> real list)" where
  "thermodynamics_at_z tools k pba pth z inter_mode last_index pvecback pvecthermo =
    (if z \<ge> z_table pth ! (tt_size pth - 1) then
       Inr (last_index, thermodynamics_at_z_extrapolation k pba pth z pvecback pvecthermo)
     else if (reio_parametrization pth = reio_half_tanh \<and> z < 2 * z_reio pth)
           \<or> (reio_parametrization pth = reio_inter \<and> z < 50) then
       array_interpolate_linear tools (z_table pth) (tt_size pth)
         (thermodynamics_table pth) (th_size pth) z last_index pvecthermo (th_size pth)
     else
       (case (if inter_mode = inter_normal pth then
                array_interpolate_spline tools (z_table pth) (tt_size pth)
                  (thermodynamics_table pth) (d2thermodynamics_dz2_table pth) (th_size pth)
                  z last_index pvecthermo (th_size pth)
              else Inr (last_index, pvecthermo)) of
          Inl e \<Rightarrow> Inl e
        | Inr (li, pv) \<Rightarrow>
            (if inter_mode = inter_closeby pth then
               array_interpolate_spline_growing_closeby tools (z_table pth) (tt_size pth)
                 (thermodynamics_table pth) (d2thermodynamics_dz2_table pth) (th_size pth)
                 z li pv (th_size pth)
             else Inr (li, pv))))"

text \<open>
  The columns of a row that \<^verbatim>\<open>thermodynamics_indices\<close> defines are pairwise different
  offsets below \<open>th_size\<close>; the offsets of the optional columns count only when their
  flag is set.
\<close>

definition th_columns :: "thermo \<Rightarrow> nat list" where
  "th_columns pth =
    [index_th_xe pth, index_th_dkappa pth, index_th_ddkappa pth, index_th_dddkappa pth,
     index_th_exp_m_kappa pth, index_th_g pth, index_th_dg pth, index_th_ddg pth,
     index_th_Tb pth, index_th_cb2 pth, index_th_tau_d pth, index_th_rate pth]
    @ (if compute_cb2_derivatives pth then [index_th_dcb2 pth, index_th_ddcb2 pth] else [])
    @ (if compute_damping_scale pth then [index_th_r_d pth] else [])"

definition th_columns_ok :: "thermo \<Rightarrow> bool" where
  "th_columns_ok pth \<longleftrightarrow>
     distinct (th_columns pth) \<and> list_all (\<lambda>i. i < th_size pth) (th_columns pth)"


text \<open>
  Stand-ins for the three interpolation routines, used to evaluate the dispatch on
  concrete inputs: each returns a row filled with a constant that tells the routines
  apart; the spline routines also show the index hint they were given.
\<close>

definition stub_tools :: array_tools where
  "stub_tools =
    \<lparr>array_interpolate_linear = (\<lambda>xa n a nc x li res rs. Inr (0, replicate rs 1)),
     array_interpolate_spline = (\<lambda>xa n a dda nc x li res rs. Inr (li, replicate rs 2)),
     array_interpolate_spline_growing_closeby =
       (\<lambda>xa n a dda nc x li res rs. Inr (li, replicate rs 3))\<rparr>"

lemma th_columns_okD:
  assumes "th_columns_ok pth"
  shows "distinct (th_columns pth)" and "distinct (rev (th_columns pth))"
    and "list_all (\<lambda>i. i < th_size pth) (th_columns pth)"
  using assms by (simp_all add: th_columns_ok_def)

lemma th_columns_ok_example: "th_columns_ok example_thermo"
  by (simp add: th_columns_ok_def th_columns_def example_thermo_def)

lemma extrapolation_columns:
  fixes k pba pth z pvecback pvecthermo
  assumes "th_columns_ok pth" and "length pvecthermo = th_size pth"
  defines "v \<equiv> thermodynamics_at_z_extrapolation k pba pth z pvecback pvecthermo"
    and "x0 \<equiv> thermodynamics_table pth ! ((tt_size pth - 1) * th_size pth + index_th_xe pth)"
  defines "dk \<equiv> (1 + z) * (1 + z) * n_e pth * x0 * sigma k * Mpc_over_m k"
  shows "v ! index_th_xe pth = x0
    \<and> v ! index_th_dkappa pth = dk
    \<and> v ! index_th_tau_d pth =
        thermodynamics_table pth ! ((tt_size pth - 1) * th_size pth + index_th_tau_d pth)
          * ((1 + z) / (1 + z_table pth ! (tt_size pth - 1))) ^ 2
    \<and> (compute_damping_scale pth \<longrightarrow> v ! index_th_r_d pth =
        thermodynamics_table pth ! ((tt_size pth - 1) * th_size pth + index_th_r_d pth)
          * ((1 + z) / (1 + z_table pth ! (tt_size pth - 1))) powr (- (3 / 2)))
    \<and> v ! index_th_ddkappa pth = - (pvecback ! index_bg_H pba) * 2 / (1 + z) * dk
    \<and> v ! index_th_dddkappa pth =
        ((pvecback ! index_bg_H pba) * (pvecback ! index_bg_H pba) / (1 + z)
           - pvecback ! index_bg_H_prime pba) * 2 / (1 + z) * dk
    \<and> v ! index_th_exp_m_kappa pth = 0
    \<and> v ! index_th_g pth = 0
    \<and> v ! index_th_dg pth = 0
    \<and> v ! index_th_ddg pth = 0
    \<and> v ! index_th_Tb pth = T_cmb pba * (1 + z)
    \<and> v ! index_th_cb2 pth =
        k_B k / (c_SI k * c_SI k * m_H k)
          * (1 + (1 / not4 k - 1) * YHe pth + x0 * (1 - YHe pth))
          * T_cmb pba * (1 + z) * 4 / 3
    \<and> v ! index_th_rate pth = dk"
  unfolding v_def x0_def dk_def
  using th_columns_okD[OF assms(1)] assms(2)
  by (cases "compute_damping_scale pth"; cases "compute_cb2_derivatives pth")
     (simp_all add: thermodynamics_at_z_extrapolation_def Let_def th_columns_def)

lemma at_z_not_below_last:
  assumes "\<not> z < z_table pth ! (tt_size pth - 1)"
  shows "thermodynamics_at_z tools k pba pth z inter_mode last_index pvecback pvecthermo
    = Inr (last_index, thermodynamics_at_z_extrapolation k pba pth z pvecback pvecthermo)"
  using assms by (simp add: thermodynamics_at_z_def)

text \<open>
  C2. For every query redshift above the last tabulated one, \<^verbatim>\<open>thermodynamics_at_z\<close>
  succeeds and returns the asymptotic row: \<open>x_e\<close> of the last table row; \<open>dkappa/dtau =
  (1+z)^2 n_e x_e sigma_T (Mpc/m)\<close>; \<open>tau_d\<close> of the last row times
  \<open>((1+z)/(1+z_last))^2\<close>; when the damping scale is computed, \<open>r_d\<close> of the last row times
  \<open>((1+z)/(1+z_last))^(-3/2)\<close>; \<open>d2kappa/dtau2 = - H 2/(1+z) dkappa/dtau\<close>; \<open>d3kappa/dtau3 =
  (H^2/(1+z) - H') 2/(1+z) dkappa/dtau\<close>; \<open>exp(-kappa) = g = g' = g'' = 0\<close>; \<open>T_b = T_cmb
  (1+z)\<close>; \<open>c_b^2\<close> a factor that does not depend on \<open>z\<close> times \<open>(1+z)\<close>; and the rate equal to
  \<open>dkappa/dtau\<close>. \<open>H\<close> and \<open>H'\<close> are the entries of the background vector of the caller.
\<close>

theorem thermodynamics_at_z_above_table:
  assumes "z_table pth ! (tt_size pth - 1) < z"
    and "th_columns_ok pth" and "length pvecthermo = th_size pth"
  shows "\<exists>v. thermodynamics_at_z tools k pba pth z inter_mode last_index pvecback pvecthermo
             = Inr (last_index, v)
    \<and> (let last = (tt_size pth - 1) * th_size pth;
            z_last = z_table pth ! (tt_size pth - 1);
            H = pvecback ! index_bg_H pba;
            H_prime = pvecback ! index_bg_H_prime pba;
            x_e = v ! index_th_xe pth;
            dkappa = v ! index_th_dkappa pth
        in x_e = thermodynamics_table pth ! (last + index_th_xe pth)
         \<and> dkappa = (1 + z) ^ 2 * n_e pth * x_e * sigma k * Mpc_over_m k
         \<and> v ! index_th_tau_d pth =
             thermodynamics_table pth ! (last + index_th_tau_d pth)
               * ((1 + z) / (1 + z_last)) ^ 2
         \<and> (compute_damping_scale pth \<longrightarrow> v ! index_th_r_d pth =
             thermodynamics_table pth ! (last + index_th_r_d pth)
               * ((1 + z) / (1 + z_last)) powr (- (3 / 2)))
         \<and> v ! index_th_ddkappa pth = - H * 2 / (1 + z) * dkappa
         \<and> v ! index_th_dddkappa pth = (H ^ 2 / (1 + z) - H_prime) * 2 / (1 + z) * dkappa
         \<and> v ! index_th_exp_m_kappa pth = 0
         \<and> v ! index_th_g pth = 0
         \<and> v ! index_th_dg pth = 0
         \<and> v ! index_th_ddg pth = 0
         \<and> v ! index_th_Tb pth = T_cmb pba * (1 + z)
         \<and> v ! index_th_cb2 pth =
             (k_B k / (c_SI k ^ 2 * m_H k)
                * (1 + (1 / not4 k - 1) * YHe pth + x_e * (1 - YHe pth)) * T_cmb pba * 4 / 3)
               * (1 + z)
         \<and> v ! index_th_rate pth = dkappa)"
proof -
  have branch: "thermodynamics_at_z tools k pba pth z inter_mode last_index pvecback pvecthermo
    = Inr (last_index, thermodynamics_at_z_extrapolation k pba pth z pvecback pvecthermo)"
    using assms(1) by (intro at_z_not_below_last) simp
  show ?thesis
    unfolding branch
    using extrapolation_columns[OF assms(2,3), of k pba z pvecback]
    by (intro exI[of _ "thermodynamics_at_z_extrapolation k pba pth z pvecback pvecthermo"])
       (simp add: Let_def power2_eq_square)
qed

theorem thermodynamics_at_z_above_table_witness:
  "z_table example_thermo ! (tt_size example_thermo - 1) < 403
   \<and> th_columns_ok example_thermo
   \<and> length (replicate 13 (0::real)) = th_size example_thermo
   \<and> (\<exists>v. thermodynamics_at_z stub_tools class_constants example_background example_thermo
             403 0 5 [70, 2, 1 / 404] (replicate 13 0) = Inr (5, v)
        \<and> v ! 0 = 3 \<and> v ! 4 = 0 \<and> v ! 5 = 0 \<and> v ! 6 = 0 \<and> v ! 7 = 0
        \<and> v ! 8 = 27255 / 10000 * 404 \<and> v ! 10 = 5 * (404 / 101) ^ 2
        \<and> v ! 12 = 7 * (404 / 101) powr (- (3 / 2))
        \<and> v ! 2 = - 70 * 2 / 404 * v ! 1 \<and> v ! 11 = v ! 1)"
proof -
  have h1: "z_table example_thermo ! (tt_size example_thermo - 1) < 403"
    by (simp add: example_thermo_def)
  have h3: "length (replicate 13 (0::real)) = th_size example_thermo"
    by (simp add: example_thermo_def)
  from thermodynamics_at_z_above_table[OF h1 th_columns_ok_example h3,
      of stub_tools class_constants example_background 0 5 "[70, 2, 1 / 404]"]
  obtain v where
    v: "thermodynamics_at_z stub_tools class_constants example_background example_thermo
          403 0 5 [70, 2, 1 / 404] (replicate 13 0) = Inr (5, v)"
    and cols: "v ! 0 = 3 \<and> v ! 4 = 0 \<and> v ! 5 = 0 \<and> v ! 6 = 0 \<and> v ! 7 = 0
        \<and> v ! 8 = 27255 / 10000 * 404 \<and> v ! 10 = 5 * (404 / 101) ^ 2
        \<and> v ! 12 = 7 * (404 / 101) powr (- (3 / 2))
        \<and> v ! 2 = - 70 * 2 / 404 * v ! 1 \<and> v ! 11 = v ! 1"
    by (auto simp add: Let_def example_thermo_def example_background_def)
  show ?thesis
    using h1 th_columns_ok_example h3 v cols by blast
qed


text \<open>
  C10. At a query redshift equal to the largest tabulated redshift the function takes the
  extrapolation branch, since the test is \<open>z \<ge> z_table[tt_size-1]\<close>: it succeeds without
  calling an interpolation routine, and the \<open>x_e\<close> it returns is the one stored in the last
  row. More generally, for every \<open>z'\<close> that is not strictly below the last grid point the
  result is the extrapolated row, so the interpolation routines are reached only for
  redshifts strictly below it.
\<close>

theorem thermodynamics_at_z_at_last_point:
  assumes "th_columns_ok pth" and "length pvecthermo = th_size pth"
  shows "(\<exists>v. thermodynamics_at_z tools k pba pth (z_table pth ! (tt_size pth - 1))
                inter_mode last_index pvecback pvecthermo = Inr (last_index, v)
           \<and> v = thermodynamics_at_z_extrapolation k pba pth (z_table pth ! (tt_size pth - 1))
                 pvecback pvecthermo
           \<and> v ! index_th_xe pth =
               thermodynamics_table pth ! ((tt_size pth - 1) * th_size pth + index_th_xe pth))
       \<and> (\<not> z' < z_table pth ! (tt_size pth - 1) \<longrightarrow>
            thermodynamics_at_z tools k pba pth z' inter_mode last_index pvecback pvecthermo
              = Inr (last_index, thermodynamics_at_z_extrapolation k pba pth z' pvecback pvecthermo))"
proof (intro conjI impI)
  show "\<exists>v. thermodynamics_at_z tools k pba pth (z_table pth ! (tt_size pth - 1))
                inter_mode last_index pvecback pvecthermo = Inr (last_index, v)
           \<and> v = thermodynamics_at_z_extrapolation k pba pth (z_table pth ! (tt_size pth - 1))
                 pvecback pvecthermo
           \<and> v ! index_th_xe pth =
               thermodynamics_table pth ! ((tt_size pth - 1) * th_size pth + index_th_xe pth)"
    using extrapolation_columns[OF assms, of k pba "z_table pth ! (tt_size pth - 1)" pvecback]
    by (simp add: at_z_not_below_last)
next
  assume "\<not> z' < z_table pth ! (tt_size pth - 1)"
  then show "thermodynamics_at_z tools k pba pth z' inter_mode last_index pvecback pvecthermo
      = Inr (last_index, thermodynamics_at_z_extrapolation k pba pth z' pvecback pvecthermo)"
    by (rule at_z_not_below_last)
qed

theorem thermodynamics_at_z_at_last_point_witness:
  "th_columns_ok example_thermo
   \<and> length (replicate 13 (0::real)) = th_size example_thermo
   \<and> z_table example_thermo ! (tt_size example_thermo - 1) = 100
   \<and> (\<exists>v. thermodynamics_at_z stub_tools class_constants example_background example_thermo
             100 1 5 [70, 2, 1 / 101] (replicate 13 0) = Inr (5, v) \<and> v ! 0 = 3)"
proof -
  have h2: "length (replicate 13 (0::real)) = th_size example_thermo"
    by (simp add: example_thermo_def)
  have zl: "z_table example_thermo ! (tt_size example_thermo - 1) = 100"
    by (simp add: example_thermo_def)
  from thermodynamics_at_z_at_last_point[OF th_columns_ok_example h2,
      of stub_tools class_constants example_background 1 5 "[70, 2, 1 / 101]" 100]
  obtain v where
    "thermodynamics_at_z stub_tools class_constants example_background example_thermo
       (z_table example_thermo ! (tt_size example_thermo - 1)) 1 5 [70, 2, 1 / 101]
       (replicate 13 0) = Inr (5, v)"
    and "v ! index_th_xe example_thermo =
      thermodynamics_table example_thermo
        ! ((tt_size example_thermo - 1) * th_size example_thermo + index_th_xe example_thermo)"
    by blast
  then have "thermodynamics_at_z stub_tools class_constants example_background example_thermo
       100 1 5 [70, 2, 1 / 101] (replicate 13 0) = Inr (5, v) \<and> v ! 0 = 3"
    unfolding zl by (simp add: example_thermo_def)
  then show ?thesis
    using th_columns_ok_example h2 zl by blast
qed

text \<open>
  C3. For a query redshift inside the tabulated range and a cursor mode that is one of
  the two flags of the thermo structure (\<open>inter_normal\<close> and \<open>inter_closeby\<close>, which
  \<^verbatim>\<open>thermodynamics_indices\<close> sets to 0 and 1), the whole row is interpolated linearly
  exactly when the scheme is \<open>half_tanh\<close> and \<open>z < 2 z_reio\<close>, or the scheme is \<open>inter\<close> and
  \<open>z < 50\<close>; in every other case the row comes from the spline routine on the table of
  second derivatives: the plain routine in normal mode, the routine that resumes from the
  index hint of the caller in closeby mode.
\<close>

theorem thermodynamics_at_z_in_table:
  assumes "z < z_table pth ! (tt_size pth - 1)"
    and "inter_normal pth \<noteq> inter_closeby pth"
    and "inter_mode = inter_normal pth \<or> inter_mode = inter_closeby pth"
  shows "thermodynamics_at_z tools k pba pth z inter_mode last_index pvecback pvecthermo =
    (if (reio_parametrization pth = reio_half_tanh \<and> z < 2 * z_reio pth)
        \<or> (reio_parametrization pth = reio_inter \<and> z < 50) then
       array_interpolate_linear tools (z_table pth) (tt_size pth)
         (thermodynamics_table pth) (th_size pth) z last_index pvecthermo (th_size pth)
     else if inter_mode = inter_normal pth then
       array_interpolate_spline tools (z_table pth) (tt_size pth)
         (thermodynamics_table pth) (d2thermodynamics_dz2_table pth) (th_size pth)
         z last_index pvecthermo (th_size pth)
     else
       array_interpolate_spline_growing_closeby tools (z_table pth) (tt_size pth)
         (thermodynamics_table pth) (d2thermodynamics_dz2_table pth) (th_size pth)
         z last_index pvecthermo (th_size pth))"
  using assms
  by (auto simp add: thermodynamics_at_z_def split: sum.splits)

lemma thermodynamics_at_z_other_mode:
  assumes "z < z_table pth ! (tt_size pth - 1)"
    and "\<not> ((reio_parametrization pth = reio_half_tanh \<and> z < 2 * z_reio pth)
        \<or> (reio_parametrization pth = reio_inter \<and> z < 50))"
    and "inter_mode \<noteq> inter_normal pth" and "inter_mode \<noteq> inter_closeby pth"
  shows "thermodynamics_at_z tools k pba pth z inter_mode last_index pvecback pvecthermo
    = Inr (last_index, pvecthermo)"
  using assms by (auto simp add: thermodynamics_at_z_def)

theorem thermodynamics_at_z_in_table_witness:
  "(10::real) < z_table example_thermo ! (tt_size example_thermo - 1)
   \<and> inter_normal example_thermo \<noteq> inter_closeby example_thermo
   \<and> thermodynamics_at_z stub_tools class_constants example_background
        (example_thermo\<lparr>reio_parametrization := reio_half_tanh\<rparr>) 10 0 5 [] (replicate 13 0)
      = Inr (0, replicate 13 1)
   \<and> thermodynamics_at_z stub_tools class_constants example_background
        (example_thermo\<lparr>reio_parametrization := reio_half_tanh\<rparr>) 16 0 5 [] (replicate 13 0)
      = Inr (5, replicate 13 2)
   \<and> thermodynamics_at_z stub_tools class_constants example_background
        example_thermo 10 0 5 [] (replicate 13 0)
      = Inr (5, replicate 13 2)
   \<and> thermodynamics_at_z stub_tools class_constants example_background
        example_thermo 10 1 5 [] (replicate 13 0)
      = Inr (5, replicate 13 3)"
proof -
  have h1: "(10::real) < z_table example_thermo ! (tt_size example_thermo - 1)"
    and h1': "(16::real) < z_table example_thermo ! (tt_size example_thermo - 1)"
    and h2: "inter_normal example_thermo \<noteq> inter_closeby example_thermo"
    by (simp_all add: example_thermo_def)
  have g1: "(10::real) < z_table (example_thermo\<lparr>reio_parametrization := reio_half_tanh\<rparr>)
        ! (tt_size (example_thermo\<lparr>reio_parametrization := reio_half_tanh\<rparr>) - 1)"
    and g1': "(16::real) < z_table (example_thermo\<lparr>reio_parametrization := reio_half_tanh\<rparr>)
        ! (tt_size (example_thermo\<lparr>reio_parametrization := reio_half_tanh\<rparr>) - 1)"
    and g2: "inter_normal (example_thermo\<lparr>reio_parametrization := reio_half_tanh\<rparr>)
        \<noteq> inter_closeby (example_thermo\<lparr>reio_parametrization := reio_half_tanh\<rparr>)"
    by (simp_all add: example_thermo_def)
  have a: "thermodynamics_at_z stub_tools class_constants example_background
        (example_thermo\<lparr>reio_parametrization := reio_half_tanh\<rparr>) 10 0 5 [] (replicate 13 0)
      = Inr (0, replicate 13 1)"
    by (subst thermodynamics_at_z_in_table[OF g1 g2])
       (simp_all add: example_thermo_def stub_tools_def)
  have b: "thermodynamics_at_z stub_tools class_constants example_background
        (example_thermo\<lparr>reio_parametrization := reio_half_tanh\<rparr>) 16 0 5 [] (replicate 13 0)
      = Inr (5, replicate 13 2)"
    by (subst thermodynamics_at_z_in_table[OF g1' g2])
       (simp_all add: example_thermo_def stub_tools_def)
  have c: "thermodynamics_at_z stub_tools class_constants example_background
        example_thermo 10 0 5 [] (replicate 13 0) = Inr (5, replicate 13 2)"
    by (subst thermodynamics_at_z_in_table[OF h1 h2])
       (simp_all add: example_thermo_def stub_tools_def)
  have d: "thermodynamics_at_z stub_tools class_constants example_background
        example_thermo 10 1 5 [] (replicate 13 0) = Inr (5, replicate 13 3)"
    by (subst thermodynamics_at_z_in_table[OF h1 h2])
       (simp_all add: example_thermo_def stub_tools_def)
  show ?thesis using h1 h2 a b c d by blast
qed


section \<open>The matter temperature equation\<close>

text \<open>
  The heating efficiency of lines 2323 to 2326 of \<^verbatim>\<open>thermodynamics_solve_derivs\<close>
  (\<^verbatim>\<open>MIN\<close> is the minimum of its two arguments).
\<close>

definition chi_heat :: "real \<Rightarrow> real" where
  "chi_heat x =
    (if x < 1 then
       min (996857 / 1000000 * (1 - (1 - x powr (300134 / 1000000)) powr (151035 / 100000))) 1
     else 1)"

text \<open>
  The block ``Matter temperature equations'' of \<^verbatim>\<open>thermodynamics_solve_derivs\<close> (lines 2157
  to 2159 and 2303 to 2331): the value assigned to \<^verbatim>\<open>dy[ptv->index_Tmat]\<close>, as a function of
  the quantities the block reads: the background vector, the redshift \<open>z = - mz\<close>, the
  ionization fraction \<open>x\<close> and its derivative \<open>dx\<close> found by the earlier part of the
  function, the matter temperature \<open>Tmat\<close> and the injected \<open>energy_rate\<close>. This value is
  the derivative with respect to \<open>z\<close>; the last loop of the function changes the sign of
  every entry of \<open>dy\<close>, since the evolver integrates in \<open>- z\<close>.
\<close>

definition thermodynamics_solve_derivs_Tmat ::
  "constants \<Rightarrow> background \<Rightarrow> thermo_workspace \<Rightarrow> real list \<Rightarrow> real \<Rightarrow> real \<Rightarrow> real \<Rightarrow> real
     \<Rightarrow> real \<Rightarrow> real" where
  "thermodynamics_solve_derivs_Tmat k pba ptw pvecback z x dx Tmat energy_rate =
    (let Hz = pvecback ! index_bg_H pba * c_SI k / Mpc_over_m k;
         n = SIunit_nH0 ptw * (1 + z) * (1 + z) * (1 + z);
         Trad = Tcmb ptw * (1 + z);
         R_g = R_g_factor ptw * Trad ^ 4;
         timeTh = (1 / R_g) * (1 + x + fHe ptw) / x;
         timeH = 2 / (3 * SIunit_H0 ptw * (1 + z) powr (3 / 2))
     in if timeTh < x_limit_T ptw * timeH then
          (let dHdz = - (pvecback ! index_bg_H_prime pba) / (pvecback ! index_bg_H pba)
                        / a_today pba * c_SI k / Mpc_over_m k;
               eps = Hz * (1 + x + fHe ptw) / (R_g / Trad * x);
               dlneps_dz = dHdz / Hz - ((1 + fHe ptw) / (1 + fHe ptw + x)) * (dx / x)
                             - 3 / (1 + z)
           in Tcmb ptw - eps * dlneps_dz)
        else
          R_g * x / (1 + x + fHe ptw) * (Tmat - Trad) / (Hz * (1 + z)) + 2 * Tmat / (1 + z)
            - 2 / (3 * k_B k) * energy_rate * chi_heat x / n / (1 + fHe ptw + x)
                / (Hz * (1 + z)))"

text \<open>
  The derivative as the specification words it, with the same names for the inputs:
  the Thomson time is \<open>1/(R_g (1+x+f_He)/x T_rad^4)\<close>, the coefficient \<open>R_g\<close> being the
  constant \<open>R_g_factor\<close> of the workspace in the Thomson time and in \<open>eps\<close>, where the powers
  of \<open>T_rad\<close> are written out; \<open>R_full\<close> is what the symbol \<open>R_g\<close> stands for in the full
  equation, where no power of \<open>T_rad\<close> is written.
\<close>

definition dTmat_dz_spec ::
  "constants \<Rightarrow> background \<Rightarrow> thermo_workspace \<Rightarrow> real \<Rightarrow> real list \<Rightarrow> real \<Rightarrow> real \<Rightarrow> real \<Rightarrow> real
     \<Rightarrow> real \<Rightarrow> real" where
  "dTmat_dz_spec k pba ptw R_full pvecback z x dx Tmat energy_rate =
    (let H = pvecback ! index_bg_H pba * c_SI k / Mpc_over_m k;
         dlnH_dz = (- (pvecback ! index_bg_H_prime pba) / (pvecback ! index_bg_H pba)
                        / a_today pba * c_SI k / Mpc_over_m k) / H;
         n = SIunit_nH0 ptw * (1 + z) * (1 + z) * (1 + z);
         T_rad = Tcmb ptw * (1 + z);
         R_g = R_g_factor ptw;
         f_He = fHe ptw;
         t_Th = 1 / (R_g * (1 + x + f_He) / x * T_rad ^ 4);
         t_H = 2 / (3 * SIunit_H0 ptw * (1 + z) powr (3 / 2))
     in if t_Th < x_limit_T ptw * t_H then
          (let eps = H * (1 + x + f_He) / (R_g * T_rad ^ 3 * x);
               dlneps_dz = dlnH_dz - ((1 + f_He) / (1 + x + f_He)) * (dx / x) - 3 / (1 + z)
           in Tcmb ptw - eps * dlneps_dz)
        else
          R_full * x / (1 + x + f_He) * (Tmat - T_rad) / (H * (1 + z)) + 2 * Tmat / (1 + z)
            - (2 / (3 * k_B k)) * energy_rate * chi_heat x / (n * (1 + f_He + x) * H * (1 + z)))"

text \<open>
  A workspace with \<open>f_He = 0.08\<close> and unit coefficients, a background vector with \<open>H = 1\<close>
  and \<open>H' = 0\<close>, used at \<open>z = 0\<close>, \<open>x = 1\<close>, \<open>dx = 0\<close>, \<open>Tmat = 1\<close> and no injected energy: the
  radiation temperature is 1, so every reading of \<open>R_g\<close> gives the same number.
\<close>

definition unit_workspace :: thermo_workspace where
  "unit_workspace =
    \<lparr>Nz_reco_lin = 0, Nz_reco_log = 0, Nz_reio = 0, Nz_reco = 0, Nz_tot = 0,
     fHe = 2 / 25, Tcmb = 1, SIunit_H0 = 2 / 3, SIunit_nH0 = 1, R_g_factor = 1,
     x_limit_T = 1\<rparr>"


text \<open>
  C5 as stated fails. At the inputs above the source finds the Thomson time
  \<open>(1/R_g) (1+x+f_He)/x = 2.08\<close>, not below \<open>x_limit t_H = 1\<close>, and evaluates the full
  equation, which gives 2; the Thomson time of the specification is \<open>1/2.08\<close>, which
  selects the steady-state expansion, whose value is not 2.
\<close>

theorem dTmat_dz_spec_counterexample:
  "thermodynamics_solve_derivs_Tmat class_constants example_background unit_workspace
      [1, 0, 1] 0 1 0 1 0 = 2
   \<and> dTmat_dz_spec class_constants example_background unit_workspace 1
      [1, 0, 1] 0 1 0 1 0 \<noteq> 2"
  by (simp add: thermodynamics_solve_derivs_Tmat_def dTmat_dz_spec_def Let_def chi_heat_def
      class_constants_def example_background_def unit_workspace_def)


text \<open>
  C5, amended. The derivative has two regimes, selected by comparing the Thomson time
  \<open>t_Th = (1+x+f_He) / (x R_g)\<close>, where \<open>R_g = R_g_factor T_rad^4\<close>, with \<open>x_limit\<close> times
  the Hubble time \<open>t_H = 2/(3 H_0 (1+z)^(3/2))\<close>. Below it the derivative is the
  steady-state expansion \<open>T_cmb - eps (d ln eps/dz)\<close> with \<open>eps = H (1+x+f_He) /
  (R_g_factor T_rad^3 x)\<close> and \<open>d ln eps/dz = d ln H/dz - ((1+f_He)/(1+x+f_He)) (dx/x) -
  3/(1+z)\<close>; otherwise it is the full equation \<open>R_g x/(1+x+f_He) (T_mat - T_rad)/(H (1+z))
  + 2 T_mat/(1+z) - (2/(3 k_B)) energy_rate chi_heat(x) / (n (1+f_He+x) H (1+z))\<close>.
\<close>

theorem thermodynamics_solve_derivs_Tmat_regimes:
  "thermodynamics_solve_derivs_Tmat k pba ptw pvecback z x dx Tmat energy_rate =
    (let H = pvecback ! index_bg_H pba * c_SI k / Mpc_over_m k;
         dlnH_dz = (- (pvecback ! index_bg_H_prime pba) / (pvecback ! index_bg_H pba)
                        / a_today pba * c_SI k / Mpc_over_m k) / H;
         n = SIunit_nH0 ptw * (1 + z) ^ 3;
         T_rad = Tcmb ptw * (1 + z);
         f_He = fHe ptw;
         R_g = R_g_factor ptw * T_rad ^ 4;
         t_Th = (1 + x + f_He) / (x * R_g);
         t_H = 2 / (3 * SIunit_H0 ptw * (1 + z) powr (3 / 2))
     in if t_Th < x_limit_T ptw * t_H then
          (let eps = H * (1 + x + f_He) / (R_g_factor ptw * T_rad ^ 3 * x);
               dlneps_dz = dlnH_dz - ((1 + f_He) / (1 + x + f_He)) * (dx / x) - 3 / (1 + z)
           in Tcmb ptw - eps * dlneps_dz)
        else
          R_g * x / (1 + x + f_He) * (Tmat - T_rad) / (H * (1 + z)) + 2 * Tmat / (1 + z)
            - (2 / (3 * k_B k)) * energy_rate * chi_heat x / (n * (1 + f_He + x) * H * (1 + z)))"
proof -
  define Hz where "Hz = pvecback ! index_bg_H pba * c_SI k / Mpc_over_m k"
  define Trad where "Trad = Tcmb ptw * (1 + z)"
  define f where "f = fHe ptw"
  define R where "R = R_g_factor ptw"
  have p3: "SIunit_nH0 ptw * (1 + z) * (1 + z) * (1 + z) = SIunit_nH0 ptw * (1 + z) ^ 3"
    by (simp add: power3_eq_cube)
  have c1: "(1 / (R * Trad ^ 4)) * (1 + x + f) / x = (1 + x + f) / (x * (R * Trad ^ 4))"
    by simp
  have c2: "R * Trad ^ 4 / Trad * x = R * Trad ^ 3 * x"
    by (simp add: power4_eq_xxxx power3_eq_cube)
  have c3: "2 / (3 * k_B k) * energy_rate * chi_heat x / n / (1 + f + x) / (Hz * (1 + z))
      = (2 / (3 * k_B k)) * energy_rate * chi_heat x / (n * (1 + f + x) * Hz * (1 + z))" for n
    by (simp add: mult.assoc)
  have c4: "(1 + f) / (1 + f + x) = (1 + f) / (1 + x + f)"
    by (simp add: add.assoc add.commute)
  show ?thesis
    unfolding thermodynamics_solve_derivs_Tmat_def Let_def
    by (simp only: c4[unfolded f_def] p3 c1[unfolded R_def Trad_def f_def] c2[unfolded R_def Trad_def]
        c3[unfolded Hz_def f_def])
qed



section \<open>Parameters of the reionization function\<close>

text \<open>
  The fields of \<^verbatim>\<open>struct thermo_reionization_parameters\<close> that the schemes \<open>many_tanh\<close> and
  \<open>inter\<close> use: the parameter array, allocated with \<open>reio_num_params\<close> entries by
  \<^verbatim>\<open>thermodynamics_set_parameters_reionization\<close>, and the offsets that
  \<^verbatim>\<open>thermodynamics_indices\<close> defines; \<open>index_reio_redshift\<close> is defined for the schemes \<open>camb\<close>
  and \<open>half_tanh\<close> only and is not used by the two others.
\<close>

record thermo_reionization_parameters =
  reionization_parameters :: "real list"
  reio_num_z :: nat
  index_reio_start :: nat
  index_reio_redshift :: nat
  index_reio_first_z :: nat
  index_reio_first_xe :: nat
  index_reio_step_sharpness :: nat

text \<open>
  The interpretation of one input value \<open>xe_input\<close> (lines 3153 to 3170 and 3263 to 3280,
  the same code up to the message of \<^verbatim>\<open>class_stop\<close>).
\<close>

definition reio_xe_actual :: "constants \<Rightarrow> thermo \<Rightarrow> ErrorMsg \<Rightarrow> real \<Rightarrow> ErrorMsg + real" where
  "reio_xe_actual k pth msg xe_input =
    (if xe_input \<ge> 0 then Inr xe_input
     else if xe_input < - (9 / 10) \<and> xe_input > - (11 / 10) then
       Inr (1 + YHe pth / (not4 k * (1 - YHe pth)))
     else if xe_input < - (19 / 10) \<and> xe_input > - (21 / 10) then
       Inr (1 + 2 * YHe pth / (not4 k * (1 - YHe pth)))
     else Inl msg)"

text \<open>
  The loops that check that the input redshifts grow (lines 3135 to 3142 and 3241 to
  3247): \<^verbatim>\<open>for (bin=1; bin<num; bin++) class_test(z[bin-1]>=z[bin], ...)\<close>.
\<close>

function reio_check_growing :: "ErrorMsg \<Rightarrow> real list \<Rightarrow> nat \<Rightarrow> nat \<Rightarrow> ErrorMsg + unit" where
  "reio_check_growing msg zs num bin =
    (if bin < num then
       (if zs ! (bin - 1) \<ge> zs ! bin then Inl msg
        else reio_check_growing msg zs num (bin + 1))
     else Inr ())"
  by pat_completeness auto
termination
  by (relation "measure (\<lambda>(msg, zs, num, bin). num - bin)") auto

text \<open>
  The loops that copy the input into the parameter array (lines 3148 to 3173 for
  \<open>many_tanh\<close>, 3258 to 3283 for \<open>inter\<close>). The entry \<open>i\<close> of the parameter array takes the
  input of index \<open>i - d\<close>: \<open>d = 1\<close> and \<open>i\<close> from 1 to \<open>reio_num_z - 2\<close> for \<open>many_tanh\<close>, \<open>d = 0\<close>
  and \<open>i\<close> from 0 to \<open>reio_num_z - 1\<close> for \<open>inter\<close>. \<^verbatim>\<open>class_stop\<close> leaves the function at the
  first value that cannot be interpreted.
\<close>

function reio_copy_input ::
  "constants \<Rightarrow> thermo \<Rightarrow> thermo_reionization_parameters \<Rightarrow> ErrorMsg \<Rightarrow> real list \<Rightarrow> real list
     \<Rightarrow> nat \<Rightarrow> nat \<Rightarrow> nat \<Rightarrow> real list \<Rightarrow> ErrorMsg + real list" where
  "reio_copy_input k pth preio msg zs xes d upper i params =
    (if i < upper then
       (let params1 = params[index_reio_first_z preio + i := zs ! (i - d)]
        in case reio_xe_actual k pth msg (xes ! (i - d)) of
             Inl e \<Rightarrow> Inl e
           | Inr xe_actual \<Rightarrow>
               reio_copy_input k pth preio msg zs xes d upper (i + 1)
                 (params1[index_reio_first_xe preio + i := xe_actual]))
     else Inr params)"
  by pat_completeness auto
termination
  by (relation "measure (\<lambda>(k, pth, preio, msg, zs, xes, d, upper, i, params). upper - i)") auto

text \<open>
  Branch (c) of \<^verbatim>\<open>thermodynamics_set_parameters_reionization\<close>, for the scheme
  \<open>reio_many_tanh\<close>, after the test on \<open>reionization_sampling\<close> that opens the function.
\<close>

definition set_parameters_reionization_many_tanh ::
  "constants \<Rightarrow> precision \<Rightarrow> thermo \<Rightarrow> thermo_reionization_parameters
     \<Rightarrow> ErrorMsg + thermo_reionization_parameters" where
  "set_parameters_reionization_many_tanh k ppr pth preio =
    (if reionization_sampling ppr \<le> 0 then
       Inl ''stop to avoid division by zero. Reionization stepsize has to be larger than zero''
     else if many_tanh_num pth < 1 then
       Inl ''current implementation of reio_many_tanh requires at least one jump center''
     else
       case reio_check_growing
              ''value of reionization bin centers z_i expected to be passed in growing order: %e, %e''
              (many_tanh_z pth) (many_tanh_num pth) 1 of
         Inl e \<Rightarrow> Inl e
       | Inr _ \<Rightarrow>
         (case reio_copy_input k pth preio
                 ''Your entry for many_tanh_xe[%d] is %e, this makes no sense (either positive or 0,-1,-2)''
                 (many_tanh_z pth) (many_tanh_xe pth) 1 (reio_num_z preio - 1) 1
                 (reionization_parameters preio) of
            Inl e \<Rightarrow> Inl e
          | Inr p1 \<Rightarrow>
            (let first_z = index_reio_first_z preio;
                 first_xe = index_reio_first_xe preio;
                 num_z = reio_num_z preio;
                 p2 = p1[first_z + num_z - 1 :=
                         p1 ! (first_z + num_z - 2)
                           + reionization_start_factor ppr * many_tanh_width pth];
                 p3 = p2[index_reio_start preio := p2 ! (first_z + num_z - 1)]
             in if p3 ! index_reio_start preio > reionization_z_start_max ppr then
                  Inl ''starting redshift for reionization = %e, reionization_z_start_max = %e, you must change the binning or increase reionization_z_start_max''
                else
                  (let p4 = p3[first_z := p3 ! (first_z + 1)
                                 - reionization_start_factor ppr * many_tanh_width pth];
                       p5 = (if p4 ! first_z < 0 then p4[first_z := 0] else p4);
                       p6 = p5[first_xe := p5 ! (first_xe + 1)]
                   in if many_tanh_width pth \<le> 0 then
                        Inl ''many_tanh_width must be strictly positive, you passed %e''
                      else
                        Inr (preio\<lparr>reionization_parameters :=
                               p6[index_reio_step_sharpness preio := many_tanh_width pth]\<rparr>)))))"

text \<open>
  Branch (d) of the same function, for the scheme \<open>reio_inter\<close>.
\<close>

definition set_parameters_reionization_inter ::
  "constants \<Rightarrow> precision \<Rightarrow> thermo \<Rightarrow> thermo_reionization_parameters
     \<Rightarrow> ErrorMsg + thermo_reionization_parameters" where
  "set_parameters_reionization_inter k ppr pth preio =
    (if reionization_sampling ppr \<le> 0 then
       Inl ''stop to avoid division by zero. Reionization stepsize has to be larger than zero''
     else if reio_inter_num pth < 1 then
       Inl ''current implementation of reio_inter requires at least one point (z,xe)''
     else if reio_inter_z pth ! 0 \<noteq> 0 then
       Inl ''For reio_inter scheme, the first value of reio_inter_z[...]  should always be zero, you passed %e''
     else
       case reio_check_growing
              ''value of reionization bin centers z_i expected to be passed in growing order, unlike: %e, %e''
              (reio_inter_z pth) (reio_inter_num pth) 1 of
         Inl e \<Rightarrow> Inl e
       | Inr _ \<Rightarrow>
         (if reio_inter_xe pth ! (reio_inter_num pth - 1) \<noteq> 0 then
            Inl ''For reio_inter scheme, the last value of reio_inter_xe[...]  should always be zero, you passed %e''
          else
            case reio_copy_input k pth preio
                   ''Your entry for reio_inter_xe[%d] is %e, this makes no sense (either positive or 0,-1,-2)''
                   (reio_inter_z pth) (reio_inter_xe pth) 0 (reio_num_z preio) 0
                   (reionization_parameters preio) of
              Inl e \<Rightarrow> Inl e
            | Inr p1 \<Rightarrow>
              (let p2 = p1[index_reio_start preio :=
                           p1 ! (index_reio_first_z preio + reio_num_z preio - 1)]
               in if p2 ! index_reio_start preio > reionization_z_start_max ppr then
                    Inl ''starting redshift for reionization = %e, reionization_z_start_max = %e, you must change the binning or increase reionization_z_start_max''
                  else Inr (preio\<lparr>reionization_parameters := p2\<rparr>))))"

text \<open>
  The layout of the parameter array that \<^verbatim>\<open>thermodynamics_indices\<close> builds: the start
  redshift first, then \<open>reio_num_z\<close> redshifts, then \<open>reio_num_z\<close> values of \<open>x_e\<close>, then (for
  \<open>many_tanh\<close>) the step sharpness; \<open>reio_num_z\<close> is \<open>many_tanh_num + 2\<close> for \<open>many_tanh\<close> and
  \<open>reio_inter_num\<close> for \<open>inter\<close>.
\<close>

definition many_tanh_layout :: "thermo \<Rightarrow> thermo_reionization_parameters \<Rightarrow> bool" where
  "many_tanh_layout pth preio \<longleftrightarrow>
     reio_num_z preio = many_tanh_num pth + 2
     \<and> index_reio_start preio < index_reio_first_z preio
     \<and> index_reio_first_z preio + reio_num_z preio \<le> index_reio_first_xe preio
     \<and> index_reio_first_xe preio + reio_num_z preio \<le> index_reio_step_sharpness preio
     \<and> index_reio_step_sharpness preio < length (reionization_parameters preio)"

definition inter_layout :: "thermo \<Rightarrow> thermo_reionization_parameters \<Rightarrow> bool" where
  "inter_layout pth preio \<longleftrightarrow>
     reio_num_z preio = reio_inter_num pth
     \<and> index_reio_start preio < index_reio_first_z preio
     \<and> index_reio_first_z preio + reio_num_z preio \<le> index_reio_first_xe preio
     \<and> index_reio_first_xe preio + reio_num_z preio \<le> length (reionization_parameters preio)"

text \<open>
  The value that the source stores for an input \<open>xe\<close>: the level after the first helium
  reionization for the sentinel near \<open>-1\<close>, the level after the second one for the
  sentinel near \<open>-2\<close>, both with the macro \<^verbatim>\<open>_not4_\<close>, and nothing for any other negative
  value.
\<close>

definition xe_level :: "constants \<Rightarrow> thermo \<Rightarrow> real \<Rightarrow> real option" where
  "xe_level k pth xe =
    (if - (11 / 10) < xe \<and> xe < - (9 / 10) then Some (1 + YHe pth / (not4 k * (1 - YHe pth)))
     else if - (21 / 10) < xe \<and> xe < - (19 / 10) then
       Some (1 + 2 * YHe pth / (not4 k * (1 - YHe pth)))
     else if 0 \<le> xe then Some xe
     else None)"

text \<open>
  The same value in the words of the specification, which writes the two levels with the
  mass ratio \<open>m_H/m_He\<close>: \<open>1 + Y_He/((m_H/m_He) (1 - Y_He))\<close> and \<open>1 + 2 Y_He/((m_H/m_He)
  (1 - Y_He))\<close>. In the source \<^verbatim>\<open>_not4_\<close> is the ratio \<open>m_He/m_H\<close>: the comment at line 156
  writes \<open>m_H/mu = 1 + (m_H/m_He - 1) Y_p + x_e (1 - Y_p)\<close> and line 157 computes it with
  \<^verbatim>\<open>(1./_not4_ - 1.)\<close>. So \<open>m_H/m_He\<close> is \<open>1/not4\<close>.
\<close>

definition xe_level_spec :: "constants \<Rightarrow> thermo \<Rightarrow> real \<Rightarrow> real option" where
  "xe_level_spec k pth xe =
    (if - (11 / 10) < xe \<and> xe < - (9 / 10) then
       Some (1 + YHe pth / ((1 / not4 k) * (1 - YHe pth)))
     else if - (21 / 10) < xe \<and> xe < - (19 / 10) then
       Some (1 + 2 * YHe pth / ((1 / not4 k) * (1 - YHe pth)))
     else if 0 \<le> xe then Some xe
     else None)"


text \<open>
  A thermo structure with two jumps for \<open>many_tanh\<close> (sentinels \<open>-2\<close> and \<open>-1\<close>) and three
  points for \<open>inter\<close>, and the parameter structures that \<^verbatim>\<open>thermodynamics_indices\<close> lays
  out for them.
\<close>

definition two_jump_thermo :: thermo where
  "two_jump_thermo =
    example_thermo\<lparr>reio_parametrization := reio_many_tanh, many_tanh_num := 2,
      many_tanh_z := [7 / 2, 7], many_tanh_xe := [- 2, - 1], many_tanh_width := 1 / 2,
      reio_inter_num := 3, reio_inter_z := [0, 5, 10], reio_inter_xe := [- 1, 1 / 2, 0]\<rparr>"

definition two_jump_parameters :: thermo_reionization_parameters where
  "two_jump_parameters =
    \<lparr>reionization_parameters = replicate 12 0, reio_num_z = 4, index_reio_start = 0,
     index_reio_redshift = 0, index_reio_first_z = 2, index_reio_first_xe = 6, index_reio_step_sharpness = 10\<rparr>"

definition three_point_parameters :: thermo_reionization_parameters where
  "three_point_parameters =
    \<lparr>reionization_parameters = replicate 9 0, reio_num_z = 3, index_reio_start = 0,
     index_reio_redshift = 0, index_reio_first_z = 2, index_reio_first_xe = 5, index_reio_step_sharpness = 0\<rparr>"

declare reio_copy_input.simps [simp del]
declare reio_check_growing.simps [simp del]

lemma reio_xe_actual_level:
  "reio_xe_actual k pth msg xe = (case xe_level k pth xe of Some v \<Rightarrow> Inr v | None \<Rightarrow> Inl msg)"
  by (simp add: reio_xe_actual_def xe_level_def)

lemma reio_copy_input_spec:
  assumes "reio_copy_input k pth preio msg zs xes d upper i params = Inr ps'"
    and "index_reio_first_z preio + upper \<le> index_reio_first_xe preio"
    and "index_reio_first_xe preio + upper \<le> length params"
  shows "length ps' = length params
    \<and> (\<forall>j. i \<le> j \<and> j < upper \<longrightarrow>
          xe_level k pth (xes ! (j - d)) = Some (ps' ! (index_reio_first_xe preio + j))
          \<and> ps' ! (index_reio_first_z preio + j) = zs ! (j - d))
    \<and> (\<forall>m. m < index_reio_first_z preio + i
            \<or> (index_reio_first_z preio + upper \<le> m \<and> m < index_reio_first_xe preio + i)
            \<or> index_reio_first_xe preio + upper \<le> m \<longrightarrow> ps' ! m = params ! m)"
  using assms
proof (induction k pth preio msg zs xes d upper i params rule: reio_copy_input.induct)
  case (1 k pth preio msg zs xes d upper i params)
  show ?case
  proof (cases "i < upper")
    case False
    with "1.prems"(1) have "ps' = params"
      by (subst (asm) reio_copy_input.simps) simp
    with False show ?thesis by auto
  next
    case True
    define params1 where "params1 = params[index_reio_first_z preio + i := zs ! (i - d)]"
    from "1.prems"(1) True obtain xe where
      xe: "reio_xe_actual k pth msg (xes ! (i - d)) = Inr xe"
      and rec: "reio_copy_input k pth preio msg zs xes d upper (i + 1)
                  (params1[index_reio_first_xe preio + i := xe]) = Inr ps'"
      unfolding params1_def
      by (subst (asm) reio_copy_input.simps) (auto simp add: Let_def split: sum.splits)
    have lvl: "xe_level k pth (xes ! (i - d)) = Some xe"
      using xe by (simp add: reio_xe_actual_level split: option.splits)
    have IH: "length ps' = length (params1[index_reio_first_xe preio + i := xe])
      \<and> (\<forall>j. i + 1 \<le> j \<and> j < upper \<longrightarrow>
          xe_level k pth (xes ! (j - d)) = Some (ps' ! (index_reio_first_xe preio + j))
          \<and> ps' ! (index_reio_first_z preio + j) = zs ! (j - d))
      \<and> (\<forall>m. m < index_reio_first_z preio + (i + 1)
            \<or> (index_reio_first_z preio + upper \<le> m \<and> m < index_reio_first_xe preio + (i + 1))
            \<or> index_reio_first_xe preio + upper \<le> m \<longrightarrow>
            ps' ! m = params1[index_reio_first_xe preio + i := xe] ! m)"
      using "1.IH"[OF True params1_def xe rec] "1.prems"(2,3) by (simp add: params1_def)
    have a: "ps' ! (index_reio_first_xe preio + i) = xe"
      using IH True "1.prems"(2,3) by (simp add: params1_def)
    have b: "ps' ! (index_reio_first_z preio + i) = zs ! (i - d)"
      using IH True "1.prems"(2,3) by (simp add: params1_def)
    have c: "ps' ! m = params ! m"
      if "m < index_reio_first_z preio + i
            \<or> (index_reio_first_z preio + upper \<le> m \<and> m < index_reio_first_xe preio + i)
            \<or> index_reio_first_xe preio + upper \<le> m" for m
    proof -
      have "ps' ! m = params1[index_reio_first_xe preio + i := xe] ! m"
        using IH that by auto
      also have "\<dots> = params ! m"
        using that True "1.prems"(2) by (auto simp add: params1_def)
      finally show ?thesis .
    qed
    have d: "xe_level k pth (xes ! (j - d)) = Some (ps' ! (index_reio_first_xe preio + j))
          \<and> ps' ! (index_reio_first_z preio + j) = zs ! (j - d)"
      if "i \<le> j \<and> j < upper" for j
    proof (cases "j = i")
      case True
      then show ?thesis using a b lvl by simp
    next
      case False
      with that have "i + 1 \<le> j \<and> j < upper" by simp
      with IH show ?thesis by blast
    qed
    from IH have "length ps' = length params" by (simp add: params1_def)
    with c d show ?thesis by blast
  qed
qed


lemma many_tanh_stored:
  assumes ok: "set_parameters_reionization_many_tanh k ppr pth preio = Inr preio'"
    and lay: "many_tanh_layout pth preio"
    and j: "j < many_tanh_num pth"
  shows "xe_level k pth (many_tanh_xe pth ! j)
    = Some (reionization_parameters preio' ! (index_reio_first_xe preio + j + 1))"
proof -
  let ?fz = "index_reio_first_z preio" and ?fxe = "index_reio_first_xe preio"
  let ?n = "many_tanh_num pth"
  have nz: "reio_num_z preio = ?n + 2"
    and l1: "index_reio_start preio < ?fz"
    and l2: "?fz + (?n + 2) \<le> ?fxe"
    and l3: "?fxe + (?n + 2) \<le> index_reio_step_sharpness preio"
    and l4: "index_reio_step_sharpness preio < length (reionization_parameters preio)"
    using lay by (simp_all add: many_tanh_layout_def)
  define c where "c = reio_copy_input k pth preio
           ''Your entry for many_tanh_xe[%d] is %e, this makes no sense (either positive or 0,-1,-2)''
           (many_tanh_z pth) (many_tanh_xe pth) 1 (reio_num_z preio - 1) 1
           (reionization_parameters preio)"
  note ok' = ok[unfolded set_parameters_reionization_many_tanh_def, folded c_def]
  from ok' obtain p1 where p1: "c = Inr p1"
    by (cases c) (auto split: if_splits sum.splits)
  have up: "reio_num_z preio - 1 = ?n + 1" using nz by simp
  from reio_copy_input_spec[OF p1[unfolded c_def]] l2 l3 l4
  have len: "length p1 = length (reionization_parameters preio)"
    and lvl: "xe_level k pth (many_tanh_xe pth ! j) = Some (p1 ! (?fxe + (j + 1)))"
    using j unfolding up by auto
  from ok' have res: "reionization_parameters preio' ! (?fxe + j + 1) = p1 ! (?fxe + j + 1)"
    unfolding p1 using l1 l2 l3 l4 j len nz
    by (auto simp add: Let_def split: if_splits sum.splits)
  show ?thesis using lvl res by (simp add: add.assoc)
qed

lemma inter_stored:
  assumes ok: "set_parameters_reionization_inter k ppr pth preio = Inr preio'"
    and lay: "inter_layout pth preio"
    and j: "j < reio_inter_num pth"
  shows "xe_level k pth (reio_inter_xe pth ! j)
    = Some (reionization_parameters preio' ! (index_reio_first_xe preio + j))"
proof -
  let ?fz = "index_reio_first_z preio" and ?fxe = "index_reio_first_xe preio"
  let ?n = "reio_inter_num pth"
  have nz: "reio_num_z preio = ?n"
    and l1: "index_reio_start preio < ?fz"
    and l2: "?fz + ?n \<le> ?fxe"
    and l3: "?fxe + ?n \<le> length (reionization_parameters preio)"
    using lay by (simp_all add: inter_layout_def)
  define c where "c = reio_copy_input k pth preio
           ''Your entry for reio_inter_xe[%d] is %e, this makes no sense (either positive or 0,-1,-2)''
           (reio_inter_z pth) (reio_inter_xe pth) 0 (reio_num_z preio) 0
           (reionization_parameters preio)"
  note ok' = ok[unfolded set_parameters_reionization_inter_def, folded c_def]
  from ok' obtain p1 where p1: "c = Inr p1"
    by (cases c) (auto split: if_splits sum.splits)
  from reio_copy_input_spec[OF p1[unfolded c_def]] l2 l3
  have len: "length p1 = length (reionization_parameters preio)"
    and lvl: "xe_level k pth (reio_inter_xe pth ! j) = Some (p1 ! (?fxe + j))"
    using j unfolding nz by auto
  from ok' have res: "reionization_parameters preio' ! (?fxe + j) = p1 ! (?fxe + j)"
    unfolding p1 using l1 l2 l3 j len nz
    by (auto simp add: Let_def split: if_splits sum.splits)
  show ?thesis using lvl res by simp
qed


lemma xe_level_cases:
  "xe_level k pth xe = Some v \<Longrightarrow>
     (0 \<le> xe \<longrightarrow> v = xe)
     \<and> (- (11 / 10) < xe \<and> xe < - (9 / 10) \<longrightarrow> v = 1 + YHe pth / (not4 k * (1 - YHe pth)))
     \<and> (- (21 / 10) < xe \<and> xe < - (19 / 10) \<longrightarrow> v = 1 + 2 * YHe pth / (not4 k * (1 - YHe pth)))"
  by (auto simp add: xe_level_def split: if_splits)

lemma xe_level_none:
  "xe < 0 \<Longrightarrow> \<not> (- (11 / 10) < xe \<and> xe < - (9 / 10)) \<Longrightarrow> \<not> (- (21 / 10) < xe \<and> xe < - (19 / 10))
     \<Longrightarrow> xe_level k pth xe = None"
  by (auto simp add: xe_level_def)


text \<open>
  C9, amended. In the schemes \<open>many_tanh\<close> and \<open>inter\<close>, when the set-up of the parameters succeeds,
  every input value of \<open>x_e\<close> has been stored at its place in the parameter array after
  interpretation: a non-negative value unchanged, a value in \<open>(-1.1, -0.9)\<close> as \<open>1 +
  Y_He/(not4 (1-Y_He))\<close>, a value in \<open>(-2.1, -1.9)\<close> as \<open>1 + 2 Y_He/(not4 (1-Y_He))\<close>; and
  when some input value is negative and in neither interval, the set-up fails. \<open>not4\<close> is
  the macro \<^verbatim>\<open>_not4_\<close> of the source, the helium to hydrogen mass ratio \<open>m_He/m_H\<close>, where
  C9 writes \<open>m_H/m_He\<close>.
\<close>

theorem reionization_xe_sentinels:
  assumes "many_tanh_layout pth preio" and "inter_layout pth preio2"
  shows "(case set_parameters_reionization_many_tanh k ppr pth preio of
            Inl e \<Rightarrow> True
          | Inr preio' \<Rightarrow>
              \<forall>j<many_tanh_num pth.
                (let xe = many_tanh_xe pth ! j;
                     stored = reionization_parameters preio' ! (index_reio_first_xe preio + j + 1)
                 in (0 \<le> xe \<longrightarrow> stored = xe)
                  \<and> (- (11 / 10) < xe \<and> xe < - (9 / 10) \<longrightarrow>
                       stored = 1 + YHe pth / (not4 k * (1 - YHe pth)))
                  \<and> (- (21 / 10) < xe \<and> xe < - (19 / 10) \<longrightarrow>
                       stored = 1 + 2 * YHe pth / (not4 k * (1 - YHe pth)))))
       \<and> ((\<exists>j<many_tanh_num pth. many_tanh_xe pth ! j < 0
              \<and> \<not> (- (11 / 10) < many_tanh_xe pth ! j \<and> many_tanh_xe pth ! j < - (9 / 10))
              \<and> \<not> (- (21 / 10) < many_tanh_xe pth ! j \<and> many_tanh_xe pth ! j < - (19 / 10)))
            \<longrightarrow> isl (set_parameters_reionization_many_tanh k ppr pth preio))
       \<and> (case set_parameters_reionization_inter k ppr pth preio2 of
            Inl e \<Rightarrow> True
          | Inr preio' \<Rightarrow>
              \<forall>j<reio_inter_num pth.
                (let xe = reio_inter_xe pth ! j;
                     stored = reionization_parameters preio' ! (index_reio_first_xe preio2 + j)
                 in (0 \<le> xe \<longrightarrow> stored = xe)
                  \<and> (- (11 / 10) < xe \<and> xe < - (9 / 10) \<longrightarrow>
                       stored = 1 + YHe pth / (not4 k * (1 - YHe pth)))
                  \<and> (- (21 / 10) < xe \<and> xe < - (19 / 10) \<longrightarrow>
                       stored = 1 + 2 * YHe pth / (not4 k * (1 - YHe pth)))))
       \<and> ((\<exists>j<reio_inter_num pth. reio_inter_xe pth ! j < 0
              \<and> \<not> (- (11 / 10) < reio_inter_xe pth ! j \<and> reio_inter_xe pth ! j < - (9 / 10))
              \<and> \<not> (- (21 / 10) < reio_inter_xe pth ! j \<and> reio_inter_xe pth ! j < - (19 / 10)))
            \<longrightarrow> isl (set_parameters_reionization_inter k ppr pth preio2))"
proof (intro conjI)
  show "case set_parameters_reionization_many_tanh k ppr pth preio of
            Inl e \<Rightarrow> True
          | Inr preio' \<Rightarrow>
              \<forall>j<many_tanh_num pth.
                (let xe = many_tanh_xe pth ! j;
                     stored = reionization_parameters preio' ! (index_reio_first_xe preio + j + 1)
                 in (0 \<le> xe \<longrightarrow> stored = xe)
                  \<and> (- (11 / 10) < xe \<and> xe < - (9 / 10) \<longrightarrow>
                       stored = 1 + YHe pth / (not4 k * (1 - YHe pth)))
                  \<and> (- (21 / 10) < xe \<and> xe < - (19 / 10) \<longrightarrow>
                       stored = 1 + 2 * YHe pth / (not4 k * (1 - YHe pth))))"
    using xe_level_cases[OF many_tanh_stored[OF _ assms(1)]]
    by (auto simp add: Let_def split: sum.splits)
  show "(\<exists>j<many_tanh_num pth. many_tanh_xe pth ! j < 0
              \<and> \<not> (- (11 / 10) < many_tanh_xe pth ! j \<and> many_tanh_xe pth ! j < - (9 / 10))
              \<and> \<not> (- (21 / 10) < many_tanh_xe pth ! j \<and> many_tanh_xe pth ! j < - (19 / 10)))
            \<longrightarrow> isl (set_parameters_reionization_many_tanh k ppr pth preio)"
  proof (intro impI, elim exE conjE)
    fix j assume j: "j < many_tanh_num pth" and neg: "many_tanh_xe pth ! j < 0"
      and n1: "\<not> (- (11 / 10) < many_tanh_xe pth ! j \<and> many_tanh_xe pth ! j < - (9 / 10))"
      and n2: "\<not> (- (21 / 10) < many_tanh_xe pth ! j \<and> many_tanh_xe pth ! j < - (19 / 10))"
    show "isl (set_parameters_reionization_many_tanh k ppr pth preio)"
    proof (cases "set_parameters_reionization_many_tanh k ppr pth preio")
      case (Inl e) then show ?thesis by simp
    next
      case (Inr preio')
      from many_tanh_stored[OF Inr assms(1) j] xe_level_none[OF neg n1 n2, of k pth]
      show ?thesis by simp
    qed
  qed
  show "case set_parameters_reionization_inter k ppr pth preio2 of
            Inl e \<Rightarrow> True
          | Inr preio' \<Rightarrow>
              \<forall>j<reio_inter_num pth.
                (let xe = reio_inter_xe pth ! j;
                     stored = reionization_parameters preio' ! (index_reio_first_xe preio2 + j)
                 in (0 \<le> xe \<longrightarrow> stored = xe)
                  \<and> (- (11 / 10) < xe \<and> xe < - (9 / 10) \<longrightarrow>
                       stored = 1 + YHe pth / (not4 k * (1 - YHe pth)))
                  \<and> (- (21 / 10) < xe \<and> xe < - (19 / 10) \<longrightarrow>
                       stored = 1 + 2 * YHe pth / (not4 k * (1 - YHe pth))))"
    using xe_level_cases[OF inter_stored[OF _ assms(2)]]
    by (auto simp add: Let_def split: sum.splits)
  show "(\<exists>j<reio_inter_num pth. reio_inter_xe pth ! j < 0
              \<and> \<not> (- (11 / 10) < reio_inter_xe pth ! j \<and> reio_inter_xe pth ! j < - (9 / 10))
              \<and> \<not> (- (21 / 10) < reio_inter_xe pth ! j \<and> reio_inter_xe pth ! j < - (19 / 10)))
            \<longrightarrow> isl (set_parameters_reionization_inter k ppr pth preio2)"
  proof (intro impI, elim exE conjE)
    fix j assume j: "j < reio_inter_num pth" and neg: "reio_inter_xe pth ! j < 0"
      and n1: "\<not> (- (11 / 10) < reio_inter_xe pth ! j \<and> reio_inter_xe pth ! j < - (9 / 10))"
      and n2: "\<not> (- (21 / 10) < reio_inter_xe pth ! j \<and> reio_inter_xe pth ! j < - (19 / 10))"
    show "isl (set_parameters_reionization_inter k ppr pth preio2)"
    proof (cases "set_parameters_reionization_inter k ppr pth preio2")
      case (Inl e) then show ?thesis by simp
    next
      case (Inr preio')
      from inter_stored[OF Inr assms(2) j] xe_level_none[OF neg n1 n2, of k pth]
      show ?thesis by simp
    qed
  qed
qed

lemma two_jump_run:
  "set_parameters_reionization_many_tanh class_constants low_z_initial_precision
     two_jump_thermo two_jump_parameters
   = Inr (two_jump_parameters\<lparr>reionization_parameters :=
       [11, 0, 0, 7 / 2, 7, 11,
        1 + 2 * (1 / 4) / (39715 / 10000 * (1 - 1 / 4)),
        1 + 2 * (1 / 4) / (39715 / 10000 * (1 - 1 / 4)),
        1 + (1 / 4) / (39715 / 10000 * (1 - 1 / 4)), 0, 1 / 2, 0]\<rparr>)"
  by (simp add: set_parameters_reionization_many_tanh_def two_jump_thermo_def
      two_jump_parameters_def low_z_initial_precision_def example_thermo_def
      class_constants_def reio_check_growing.simps reio_copy_input.simps reio_xe_actual_def
      Let_def numeral_eq_Suc)


lemma three_point_run:
  "set_parameters_reionization_inter class_constants low_z_initial_precision
     two_jump_thermo three_point_parameters
   = Inr (three_point_parameters\<lparr>reionization_parameters :=
       [10, 0, 0, 5, 10, 1 + (1 / 4) / (39715 / 10000 * (1 - 1 / 4)), 1 / 2, 0, 0]\<rparr>)"
  by (simp add: set_parameters_reionization_inter_def two_jump_thermo_def
      three_point_parameters_def low_z_initial_precision_def example_thermo_def
      class_constants_def reio_check_growing.simps reio_copy_input.simps reio_xe_actual_def
      Let_def numeral_eq_Suc)

theorem reionization_xe_sentinels_witness:
  "many_tanh_layout two_jump_thermo two_jump_parameters
   \<and> inter_layout two_jump_thermo three_point_parameters
   \<and> (\<exists>preio'. set_parameters_reionization_many_tanh class_constants low_z_initial_precision
          two_jump_thermo two_jump_parameters = Inr preio'
        \<and> reionization_parameters preio' ! 7 = 1 + 2 * (1 / 4) / (39715 / 10000 * (1 - 1 / 4))
        \<and> reionization_parameters preio' ! 8 = 1 + (1 / 4) / (39715 / 10000 * (1 - 1 / 4)))
   \<and> (\<exists>preio'. set_parameters_reionization_inter class_constants low_z_initial_precision
          two_jump_thermo three_point_parameters = Inr preio'
        \<and> reionization_parameters preio' ! 5 = 1 + (1 / 4) / (39715 / 10000 * (1 - 1 / 4))
        \<and> reionization_parameters preio' ! 6 = 1 / 2
        \<and> reionization_parameters preio' ! 7 = 0)
   \<and> isl (set_parameters_reionization_many_tanh class_constants low_z_initial_precision
          (two_jump_thermo\<lparr>many_tanh_xe := [- 2, - (1 / 2)]\<rparr>) two_jump_parameters)"
proof -
  have lay1: "many_tanh_layout two_jump_thermo two_jump_parameters"
    by (simp add: many_tanh_layout_def two_jump_thermo_def two_jump_parameters_def)
  have lay2: "inter_layout two_jump_thermo three_point_parameters"
    by (simp add: inter_layout_def two_jump_thermo_def three_point_parameters_def)
  have lay1': "many_tanh_layout (two_jump_thermo\<lparr>many_tanh_xe := [- 2, - (1 / 2)]\<rparr>)
      two_jump_parameters"
    by (simp add: many_tanh_layout_def two_jump_thermo_def two_jump_parameters_def)
  have lay2': "inter_layout (two_jump_thermo\<lparr>many_tanh_xe := [- 2, - (1 / 2)]\<rparr>)
      three_point_parameters"
    by (simp add: inter_layout_def two_jump_thermo_def three_point_parameters_def)
  have bad: "isl (set_parameters_reionization_many_tanh class_constants low_z_initial_precision
          (two_jump_thermo\<lparr>many_tanh_xe := [- 2, - (1 / 2)]\<rparr>) two_jump_parameters)"
  proof -
    have "\<exists>j<many_tanh_num (two_jump_thermo\<lparr>many_tanh_xe := [- 2, - (1 / 2)]\<rparr>).
        many_tanh_xe (two_jump_thermo\<lparr>many_tanh_xe := [- 2, - (1 / 2)]\<rparr>) ! j < 0
        \<and> \<not> (- (11 / 10) < many_tanh_xe (two_jump_thermo\<lparr>many_tanh_xe := [- 2, - (1 / 2)]\<rparr>) ! j
             \<and> many_tanh_xe (two_jump_thermo\<lparr>many_tanh_xe := [- 2, - (1 / 2)]\<rparr>) ! j < - (9 / 10))
        \<and> \<not> (- (21 / 10) < many_tanh_xe (two_jump_thermo\<lparr>many_tanh_xe := [- 2, - (1 / 2)]\<rparr>) ! j
             \<and> many_tanh_xe (two_jump_thermo\<lparr>many_tanh_xe := [- 2, - (1 / 2)]\<rparr>) ! j < - (19 / 10))"
      by (intro exI[of _ 1]) (simp add: two_jump_thermo_def)
    with reionization_xe_sentinels[OF lay1' lay2', of class_constants low_z_initial_precision]
    show ?thesis by blast
  qed
  from reionization_xe_sentinels[OF lay1 lay2, of class_constants low_z_initial_precision]
  have good: "\<forall>j<many_tanh_num two_jump_thermo.
      (- (21 / 10) < many_tanh_xe two_jump_thermo ! j \<and> many_tanh_xe two_jump_thermo ! j < - (19 / 10)
         \<longrightarrow> [11, 0, 0, 7 / 2, 7, 11,
        1 + 2 * (1 / 4) / (39715 / 10000 * (1 - 1 / 4)),
        1 + 2 * (1 / 4) / (39715 / 10000 * (1 - 1 / 4)),
        1 + (1 / 4) / (39715 / 10000 * (1 - 1 / 4)), 0, 1 / 2, 0]
          ! (index_reio_first_xe two_jump_parameters + j + 1)
          = 1 + 2 * YHe two_jump_thermo / (not4 class_constants * (1 - YHe two_jump_thermo)))"
    unfolding two_jump_run by (simp add: Let_def)
  show ?thesis
    using lay1 lay2 bad good two_jump_run three_point_run by simp
qed


text \<open>
  C9 as stated fails. For \<open>Y_He = 1/4\<close> and \<open>_not4_ = 3.9715\<close> the second jump of the
  \<open>many_tanh\<close> example has the input \<open>-1\<close>; the set-up stores \<open>1 + (1/4)/(3.9715 (3/4))\<close>,
  about \<open>1.084\<close>, at its place, where the formula with \<open>m_H/m_He\<close> gives
  \<open>1 + (1/4)/((1/3.9715) (3/4))\<close>, about \<open>2.32\<close>.
\<close>

theorem xe_level_spec_counterexample:
  "(case set_parameters_reionization_many_tanh class_constants low_z_initial_precision
           two_jump_thermo two_jump_parameters of
      Inl e \<Rightarrow> None
    | Inr preio' \<Rightarrow>
        Some (reionization_parameters preio' ! (index_reio_first_xe two_jump_parameters + 2)))
   \<noteq> xe_level_spec class_constants two_jump_thermo (many_tanh_xe two_jump_thermo ! 1)"
  unfolding two_jump_run
  by (simp add: xe_level_spec_def two_jump_thermo_def two_jump_parameters_def
      example_thermo_def class_constants_def)



section \<open>The derived quantities\<close>

text \<open>
  The routines of \<^verbatim>\<open>tools/arrays.c\<close> that the derived-quantity pass calls on the thermo
  table, with their arguments in the order of the C prototypes; each returns an error or
  the table it has written to. The background module gives, for a conformal time, the
  background vector.
\<close>

record table_tools =
  array_spline_table_line_to_line ::
    "real list \<Rightarrow> nat \<Rightarrow> real list \<Rightarrow> nat \<Rightarrow> nat \<Rightarrow> nat \<Rightarrow> int \<Rightarrow> ErrorMsg + real list"
  array_derive_spline_table_line_to_line ::
    "real list \<Rightarrow> nat \<Rightarrow> real list \<Rightarrow> nat \<Rightarrow> nat \<Rightarrow> nat \<Rightarrow> nat \<Rightarrow> ErrorMsg + real list"
  array_integrate_spline_table_line_to_line ::
    "real list \<Rightarrow> nat \<Rightarrow> real list \<Rightarrow> nat \<Rightarrow> nat \<Rightarrow> nat \<Rightarrow> nat \<Rightarrow> ErrorMsg + real list"
  array_smooth :: "real list \<Rightarrow> nat \<Rightarrow> nat \<Rightarrow> nat \<Rightarrow> nat \<Rightarrow> ErrorMsg + real list"
  background_at_tau :: "real \<Rightarrow> nat \<Rightarrow> ErrorMsg + (nat \<times> real list)"

text \<open>
  The body of the loop of \<^verbatim>\<open>thermodynamics_calculate_opticals\<close> (lines 1102 to 1131) for
  the row \<open>index_tau\<close> of the table.
\<close>

definition opticals_row :: "thermo \<Rightarrow> nat \<Rightarrow> real list \<Rightarrow> ErrorMsg + real list" where
  "opticals_row pth index_tau tab =
    (let row = index_tau * th_size pth;
         dkappa = tab ! (row + index_th_dkappa pth);
         ddkappa = tab ! (row + index_th_ddkappa pth);
         dddkappa = tab ! (row + index_th_dddkappa pth);
         expmkappa = exp (tab ! (row + index_th_g pth));
         g = dkappa * expmkappa;
         t1 = tab[row + index_th_exp_m_kappa pth := expmkappa];
         t2 = t1[row + index_th_dg pth := (ddkappa + dkappa * dkappa) * expmkappa];
         t3 = t2[row + index_th_ddg pth :=
                 (dddkappa + dkappa * ddkappa * 3 + dkappa * dkappa * dkappa) * expmkappa];
         t4 = t3[row + index_th_g pth := g]
     in if t4 ! (row + index_th_dkappa pth) = 0 then Inl ''variation rate diverges''
        else Inr (t4[row + index_th_rate pth :=
                     sqrt (dkappa ^ 2 + (ddkappa / dkappa) ^ 2 + \<bar>dddkappa / dkappa\<bar>)]))"

text \<open>
  The loop \<^verbatim>\<open>for (index_tau=pth->tt_size-1; index_tau>=0; index_tau--)\<close>: \<open>opticals_loop pth n\<close>
  runs the body on the rows \<open>n - 1\<close> down to 0, and stops at the first error.
\<close>

fun opticals_loop :: "thermo \<Rightarrow> nat \<Rightarrow> real list \<Rightarrow> ErrorMsg + real list" where
  "opticals_loop pth 0 tab = Inr tab"
| "opticals_loop pth (Suc index_tau) tab =
    (case opticals_row pth index_tau tab of
       Inl e \<Rightarrow> Inl e
     | Inr tab' \<Rightarrow> opticals_loop pth index_tau tab')"

text \<open>
  \<^verbatim>\<open>thermodynamics_calculate_opticals\<close>: three spline calls on the column of \<open>dkappa/dtau\<close>,
  the loop, the smoothing of the rate and, when requested, two spline calls on the sound
  speed.
\<close>

definition thermodynamics_calculate_opticals ::
  "table_tools \<Rightarrow> constants \<Rightarrow> precision \<Rightarrow> thermo \<Rightarrow> ErrorMsg + thermo" where
  "thermodynamics_calculate_opticals tools k ppr pth =
    (case array_spline_table_line_to_line tools (tau_table pth) (tt_size pth)
            (thermodynamics_table pth) (th_size pth) (index_th_dkappa pth)
            (index_th_dddkappa pth) (SPLINE_EST_DERIV k) of
       Inl e \<Rightarrow> Inl e
     | Inr tab1 \<Rightarrow>
    (case array_derive_spline_table_line_to_line tools (tau_table pth) (tt_size pth)
            tab1 (th_size pth) (index_th_dkappa pth) (index_th_dddkappa pth)
            (index_th_ddkappa pth) of
       Inl e \<Rightarrow> Inl e
     | Inr tab2 \<Rightarrow>
    (case array_integrate_spline_table_line_to_line tools (tau_table pth) (tt_size pth)
            tab2 (th_size pth) (index_th_dkappa pth) (index_th_dddkappa pth)
            (index_th_g pth) of
       Inl e \<Rightarrow> Inl e
     | Inr tab3 \<Rightarrow>
    (case opticals_loop pth (tt_size pth) tab3 of
       Inl e \<Rightarrow> Inl e
     | Inr tab4 \<Rightarrow>
    (case array_smooth tools tab4 (th_size pth) (tt_size pth) (index_th_rate pth)
            (thermo_rate_smoothing_radius ppr) of
       Inl e \<Rightarrow> Inl e
     | Inr tab5 \<Rightarrow>
       (if compute_cb2_derivatives pth then
          (case array_spline_table_line_to_line tools (tau_table pth) (tt_size pth)
                  tab5 (th_size pth) (index_th_cb2 pth) (index_th_ddcb2 pth)
                  (SPLINE_EST_DERIV k) of
             Inl e \<Rightarrow> Inl e
           | Inr tab6 \<Rightarrow>
          (case array_derive_spline_table_line_to_line tools (tau_table pth) (tt_size pth)
                  tab6 (th_size pth) (index_th_cb2 pth) (index_th_ddcb2 pth)
                  (index_th_dcb2 pth) of
             Inl e \<Rightarrow> Inl e
           | Inr tab7 \<Rightarrow> Inr (pth\<lparr>thermodynamics_table := tab7\<rparr>)))
        else Inr (pth\<lparr>thermodynamics_table := tab5\<rparr>)))))))"

text \<open>The variation rate of the row \<open>i\<close> of a table, before smoothing.\<close>

definition rate_of_row :: "thermo \<Rightarrow> real list \<Rightarrow> nat \<Rightarrow> real" where
  "rate_of_row pth tab i =
    (let dkappa = tab ! (i * th_size pth + index_th_dkappa pth);
         ddkappa = tab ! (i * th_size pth + index_th_ddkappa pth);
         dddkappa = tab ! (i * th_size pth + index_th_dddkappa pth)
     in sqrt (dkappa ^ 2 + (ddkappa / dkappa) ^ 2 + \<bar>dddkappa / dkappa\<bar>))"

lemma row_offset_eq:
  fixes th :: nat
  assumes "a < th" and "b < th"
  shows "i * th + a = j * th + b \<longleftrightarrow> i = j \<and> a = b"
proof
  assume e: "i * th + a = j * th + b"
  have "(i * th + a) div th = i" "(j * th + b) div th = j" using assms by simp_all
  with e have "i = j" by metis
  with e show "i = j \<and> a = b" by simp
qed simp

lemma opticals_row_error:
  assumes "th_columns_ok pth" and "(i + 1) * th_size pth \<le> length tab"
  shows "tab ! (i * th_size pth + index_th_dkappa pth) = 0
     \<Longrightarrow> opticals_row pth i tab = Inl ''variation rate diverges''"
  using th_columns_okD[OF assms(1)] assms(2)
  by (simp add: opticals_row_def Let_def th_columns_def)

lemma opticals_row_ok:
  assumes "th_columns_ok pth" and "(i + 1) * th_size pth \<le> length tab"
    and "tab ! (i * th_size pth + index_th_dkappa pth) \<noteq> 0"
  shows "\<exists>tab'. opticals_row pth i tab = Inr tab' \<and> length tab' = length tab
     \<and> tab' ! (i * th_size pth + index_th_rate pth) = rate_of_row pth tab i
     \<and> (\<forall>m. m < i * th_size pth \<or> (i + 1) * th_size pth \<le> m \<longrightarrow> tab' ! m = tab ! m)"
  using th_columns_okD[OF assms(1)] assms(2,3)
  by (simp add: opticals_row_def Let_def th_columns_def rate_of_row_def)


lemma opticals_loop_ok:
  assumes ok: "th_columns_ok pth"
  shows "n * th_size pth \<le> length tab
     \<Longrightarrow> \<forall>i<n. tab ! (i * th_size pth + index_th_dkappa pth) \<noteq> 0
     \<Longrightarrow> \<exists>tab'. opticals_loop pth n tab = Inr tab' \<and> length tab' = length tab
           \<and> (\<forall>i<n. tab' ! (i * th_size pth + index_th_rate pth) = rate_of_row pth tab i)
           \<and> (\<forall>m. n * th_size pth \<le> m \<longrightarrow> tab' ! m = tab ! m)"
proof (induction n arbitrary: tab)
  case 0
  then show ?case by simp
next
  case (Suc n)
  have cols: "index_th_dkappa pth < th_size pth" "index_th_ddkappa pth < th_size pth"
    "index_th_dddkappa pth < th_size pth" "index_th_rate pth < th_size pth"
    using th_columns_okD(3)[OF ok] by (simp_all add: th_columns_def)
  from Suc.prems have len: "(n + 1) * th_size pth \<le> length tab" by simp
  from Suc.prems have nz: "tab ! (n * th_size pth + index_th_dkappa pth) \<noteq> 0" by simp
  from opticals_row_ok[OF ok len nz] obtain tab1 where
    r: "opticals_row pth n tab = Inr tab1" and l1: "length tab1 = length tab"
    and rate1: "tab1 ! (n * th_size pth + index_th_rate pth) = rate_of_row pth tab n"
    and same1: "\<And>m. m < n * th_size pth \<or> (n + 1) * th_size pth \<le> m \<Longrightarrow> tab1 ! m = tab ! m"
    by blast
  have below: "i * th_size pth + c < n * th_size pth" if "i < n" "c < th_size pth" for i c
  proof -
    have "i * th_size pth + c < (i + 1) * th_size pth" using that by simp
    also have "\<dots> \<le> n * th_size pth" using that by (intro mult_le_mono1) simp
    finally show ?thesis .
  qed
  have rows: "rate_of_row pth tab1 i = rate_of_row pth tab i" if "i < n" for i
    using same1 below[OF that] cols by (simp add: rate_of_row_def)
  have nz1: "\<forall>i<n. tab1 ! (i * th_size pth + index_th_dkappa pth) \<noteq> 0"
    using Suc.prems(2) same1 below cols by simp
  have len1: "n * th_size pth \<le> length tab1" using len l1 by simp
  from Suc.IH[OF len1 nz1] obtain tab' where
    l: "opticals_loop pth n tab1 = Inr tab'" and l2: "length tab' = length tab1"
    and rate': "\<And>i. i < n \<Longrightarrow> tab' ! (i * th_size pth + index_th_rate pth) = rate_of_row pth tab1 i"
    and same': "\<And>m. n * th_size pth \<le> m \<Longrightarrow> tab' ! m = tab1 ! m"
    by blast
  have "tab' ! (i * th_size pth + index_th_rate pth) = rate_of_row pth tab i" if "i < Suc n" for i
  proof (cases "i = n")
    case True
    then show ?thesis using same'[of "n * th_size pth + index_th_rate pth"] rate1 by simp
  next
    case False
    with that have "i < n" by simp
    then show ?thesis using rate' rows by simp
  qed
  moreover have "tab' ! m = tab ! m" if "Suc n * th_size pth \<le> m" for m
    using that same'[of m] same1[of m] by simp
  ultimately show ?case using r l l1 l2 by simp
qed

lemma opticals_loop_error:
  assumes ok: "th_columns_ok pth"
  shows "n * th_size pth \<le> length tab
     \<Longrightarrow> \<exists>i<n. tab ! (i * th_size pth + index_th_dkappa pth) = 0
     \<Longrightarrow> opticals_loop pth n tab = Inl ''variation rate diverges''"
proof (induction n arbitrary: tab)
  case 0
  then show ?case by simp
next
  case (Suc n)
  have cols: "index_th_dkappa pth < th_size pth"
    using th_columns_okD(3)[OF ok] by (simp_all add: th_columns_def)
  from Suc.prems have len: "(n + 1) * th_size pth \<le> length tab" by simp
  show ?case
  proof (cases "tab ! (n * th_size pth + index_th_dkappa pth) = 0")
    case True
    from opticals_row_error[OF ok len True] show ?thesis by simp
  next
    case False
    from opticals_row_ok[OF ok len False] obtain tab1 where
      r: "opticals_row pth n tab = Inr tab1" and l1: "length tab1 = length tab"
      and same1: "\<And>m. m < n * th_size pth \<or> (n + 1) * th_size pth \<le> m \<Longrightarrow> tab1 ! m = tab ! m"
      by blast
    from Suc.prems(2) False obtain i where i: "i < n"
      and z: "tab ! (i * th_size pth + index_th_dkappa pth) = 0"
      by (metis less_Suc_eq)
    have "i * th_size pth + index_th_dkappa pth < (i + 1) * th_size pth" using cols by simp
    also have "\<dots> \<le> n * th_size pth" using i by (intro mult_le_mono1) simp
    finally have "tab1 ! (i * th_size pth + index_th_dkappa pth) = 0" using same1 z by simp
    with i have ex: "\<exists>i<n. tab1 ! (i * th_size pth + index_th_dkappa pth) = 0" by blast
    have len1: "n * th_size pth \<le> length tab1" using len l1 by simp
    from Suc.IH[OF len1 ex] r show ?thesis by simp
  qed
qed


text \<open>
  Stand-ins for the table routines, used to evaluate the pass on concrete tables: the
  spline routines and the smoothing hand the table back unchanged, and the background
  vector is the same at every time.
\<close>

definition stub_table_tools :: table_tools where
  "stub_table_tools =
    \<lparr>array_spline_table_line_to_line = (\<lambda>xa n a nc iy iddy mode. Inr a),
     array_derive_spline_table_line_to_line = (\<lambda>xa n a nc iy iddy idy. Inr a),
     array_integrate_spline_table_line_to_line = (\<lambda>xa n a nc iy iddy iint. Inr a),
     array_smooth = (\<lambda>a nc n i r. Inr a),
     background_at_tau = (\<lambda>tau li. Inr (li, [70, 2, 1, 1, 3]))\<rparr>"

text \<open>
  C8. Let \<open>tab\<close> be the table that reaches the loop of \<^verbatim>\<open>thermodynamics_calculate_opticals\<close>,
  after the three spline calls. If \<open>dkappa/dtau\<close> is zero in some row of it, the function
  fails with the message ``variation rate diverges''. If \<open>dkappa/dtau\<close> is non-zero in
  every row, so that no division of the rate formula is by zero, the loop succeeds, and in
  the table it hands to the smoothing the rate of every row is the square root of
  \<open>(dkappa)^2 + (ddkappa/dkappa)^2 + |dddkappa/dkappa|\<close>, from the columns of \<open>tab\<close>.
\<close>

theorem calculate_opticals_rate:
  assumes "th_columns_ok pth"
    and "array_spline_table_line_to_line tools (tau_table pth) (tt_size pth)
            (thermodynamics_table pth) (th_size pth) (index_th_dkappa pth)
            (index_th_dddkappa pth) (SPLINE_EST_DERIV k) = Inr tab1"
    and "array_derive_spline_table_line_to_line tools (tau_table pth) (tt_size pth)
            tab1 (th_size pth) (index_th_dkappa pth) (index_th_dddkappa pth)
            (index_th_ddkappa pth) = Inr tab2"
    and "array_integrate_spline_table_line_to_line tools (tau_table pth) (tt_size pth)
            tab2 (th_size pth) (index_th_dkappa pth) (index_th_dddkappa pth)
            (index_th_g pth) = Inr tab"
    and "tt_size pth * th_size pth \<le> length tab"
  shows "((\<exists>i<tt_size pth. tab ! (i * th_size pth + index_th_dkappa pth) = 0) \<longrightarrow>
            thermodynamics_calculate_opticals tools k ppr pth = Inl ''variation rate diverges'')
    \<and> ((\<forall>i<tt_size pth. tab ! (i * th_size pth + index_th_dkappa pth) \<noteq> 0) \<longrightarrow>
         (\<exists>tab'. opticals_loop pth (tt_size pth) tab = Inr tab'
            \<and> (\<forall>i<tt_size pth.
                 (let dkappa = tab ! (i * th_size pth + index_th_dkappa pth);
                      ddkappa = tab ! (i * th_size pth + index_th_ddkappa pth);
                      dddkappa = tab ! (i * th_size pth + index_th_dddkappa pth)
                  in tab' ! (i * th_size pth + index_th_rate pth)
                       = sqrt (dkappa ^ 2 + (ddkappa / dkappa) ^ 2 + \<bar>dddkappa / dkappa\<bar>)))
            \<and> thermodynamics_calculate_opticals tools k ppr pth
                = (case array_smooth tools tab' (th_size pth) (tt_size pth) (index_th_rate pth)
                          (thermo_rate_smoothing_radius ppr) of
                     Inl e \<Rightarrow> Inl e
                   | Inr tab5 \<Rightarrow>
                       (if compute_cb2_derivatives pth then
                          (case array_spline_table_line_to_line tools (tau_table pth)
                                  (tt_size pth) tab5 (th_size pth) (index_th_cb2 pth)
                                  (index_th_ddcb2 pth) (SPLINE_EST_DERIV k) of
                             Inl e \<Rightarrow> Inl e
                           | Inr tab6 \<Rightarrow>
                          (case array_derive_spline_table_line_to_line tools (tau_table pth)
                                  (tt_size pth) tab6 (th_size pth) (index_th_cb2 pth)
                                  (index_th_ddcb2 pth) (index_th_dcb2 pth) of
                             Inl e \<Rightarrow> Inl e
                           | Inr tab7 \<Rightarrow> Inr (pth\<lparr>thermodynamics_table := tab7\<rparr>)))
                        else Inr (pth\<lparr>thermodynamics_table := tab5\<rparr>)))))"
proof (intro conjI impI)
  assume "\<exists>i<tt_size pth. tab ! (i * th_size pth + index_th_dkappa pth) = 0"
  from opticals_loop_error[OF assms(1,5) this]
  show "thermodynamics_calculate_opticals tools k ppr pth = Inl ''variation rate diverges''"
    by (simp add: thermodynamics_calculate_opticals_def assms(2,3,4))
next
  assume "\<forall>i<tt_size pth. tab ! (i * th_size pth + index_th_dkappa pth) \<noteq> 0"
  from opticals_loop_ok[OF assms(1,5) this] obtain tab' where
    l: "opticals_loop pth (tt_size pth) tab = Inr tab'"
    and r: "\<forall>i<tt_size pth. tab' ! (i * th_size pth + index_th_rate pth) = rate_of_row pth tab i"
    by blast
  show "\<exists>tab'. opticals_loop pth (tt_size pth) tab = Inr tab'
            \<and> (\<forall>i<tt_size pth.
                 (let dkappa = tab ! (i * th_size pth + index_th_dkappa pth);
                      ddkappa = tab ! (i * th_size pth + index_th_ddkappa pth);
                      dddkappa = tab ! (i * th_size pth + index_th_dddkappa pth)
                  in tab' ! (i * th_size pth + index_th_rate pth)
                       = sqrt (dkappa ^ 2 + (ddkappa / dkappa) ^ 2 + \<bar>dddkappa / dkappa\<bar>)))
            \<and> thermodynamics_calculate_opticals tools k ppr pth
                = (case array_smooth tools tab' (th_size pth) (tt_size pth) (index_th_rate pth)
                          (thermo_rate_smoothing_radius ppr) of
                     Inl e \<Rightarrow> Inl e
                   | Inr tab5 \<Rightarrow>
                       (if compute_cb2_derivatives pth then
                          (case array_spline_table_line_to_line tools (tau_table pth)
                                  (tt_size pth) tab5 (th_size pth) (index_th_cb2 pth)
                                  (index_th_ddcb2 pth) (SPLINE_EST_DERIV k) of
                             Inl e \<Rightarrow> Inl e
                           | Inr tab6 \<Rightarrow>
                          (case array_derive_spline_table_line_to_line tools (tau_table pth)
                                  (tt_size pth) tab6 (th_size pth) (index_th_cb2 pth)
                                  (index_th_ddcb2 pth) (index_th_dcb2 pth) of
                             Inl e \<Rightarrow> Inl e
                           | Inr tab7 \<Rightarrow> Inr (pth\<lparr>thermodynamics_table := tab7\<rparr>)))
                        else Inr (pth\<lparr>thermodynamics_table := tab5\<rparr>)))"
    using l r
    by (intro exI[of _ tab'])
       (simp add: thermodynamics_calculate_opticals_def assms(2,3,4) rate_of_row_def Let_def)
qed

theorem calculate_opticals_rate_witness:
  "th_columns_ok example_thermo
   \<and> (\<exists>tab'. opticals_loop example_thermo 2 (thermodynamics_table example_thermo) = Inr tab'
        \<and> tab' ! 11 = sqrt (2 ^ 2 + (0 / 2) ^ 2 + \<bar>0 / 2\<bar>)
        \<and> tab' ! 24 = sqrt (4 ^ 2 + (0 / 4) ^ 2 + \<bar>0 / 4\<bar>))
   \<and> thermodynamics_calculate_opticals stub_table_tools class_constants low_z_initial_precision
        (example_thermo\<lparr>thermodynamics_table := replicate 26 0\<rparr>)
      = Inl ''variation rate diverges''"
proof -
  let ?tab = "thermodynamics_table example_thermo"
  have nz: "\<forall>i<tt_size example_thermo.
      ?tab ! (i * th_size example_thermo + index_th_dkappa example_thermo) \<noteq> 0"
    by (simp add: example_thermo_def less_Suc_eq numeral_2_eq_2)
  from calculate_opticals_rate[OF th_columns_ok_example,
      of stub_table_tools class_constants ?tab ?tab ?tab low_z_initial_precision] nz
  obtain tab' where l: "opticals_loop example_thermo (tt_size example_thermo) ?tab = Inr tab'"
    and r: "\<forall>i<tt_size example_thermo.
                 (let dkappa = ?tab ! (i * th_size example_thermo + index_th_dkappa example_thermo);
                      ddkappa = ?tab ! (i * th_size example_thermo + index_th_ddkappa example_thermo);
                      dddkappa = ?tab ! (i * th_size example_thermo + index_th_dddkappa example_thermo)
                  in tab' ! (i * th_size example_thermo + index_th_rate example_thermo)
                       = sqrt (dkappa ^ 2 + (ddkappa / dkappa) ^ 2 + \<bar>dddkappa / dkappa\<bar>))"
    by (auto simp add: stub_table_tools_def example_thermo_def)
  have two: "tt_size example_thermo = 2" by (simp add: example_thermo_def)
  from r have r0: "tab' ! 11 = sqrt (2 ^ 2 + (0 / 2) ^ 2 + \<bar>0 / 2\<bar>)"
    and r1: "tab' ! 24 = sqrt (4 ^ 2 + (0 / 4) ^ 2 + \<bar>0 / 4\<bar>)"
    by (simp_all add: example_thermo_def Let_def less_Suc_eq numeral_2_eq_2)
  let ?z = "example_thermo\<lparr>thermodynamics_table := replicate 26 0\<rparr>"
  have okz: "th_columns_ok ?z"
    by (simp add: th_columns_ok_def th_columns_def example_thermo_def)
  have ex: "\<exists>i<tt_size ?z. replicate 26 (0::real) ! (i * th_size ?z + index_th_dkappa ?z) = 0"
    by (intro exI[of _ 0]) (simp add: example_thermo_def)
  from calculate_opticals_rate[OF okz, of stub_table_tools class_constants
      "replicate 26 0" "replicate 26 0" "replicate 26 0" low_z_initial_precision] ex
  have bad: "thermodynamics_calculate_opticals stub_table_tools class_constants
      low_z_initial_precision ?z = Inl ''variation rate diverges''"
    by (simp add: stub_table_tools_def example_thermo_def)
  show ?thesis
    using th_columns_ok_example l[unfolded two] r0 r1 bad by blast
qed



section \<open>The redshift grid\<close>

text \<open>
  The three loops of \<^verbatim>\<open>thermodynamics_lists\<close> that fill \<^verbatim>\<open>pth->z_table\<close> (lines 570 to 583).
  \<open>tt\<close> is \<open>pth->tt_size\<close>, which the function has set to \<open>ptw->Nz_tot\<close>; each loop runs its
  index from 0 to its count minus one and writes one entry per step, so it is a fold over
  the indices. \<^verbatim>\<open>(double)\<close> of an integer is its real value.
\<close>

definition lists_log_segment :: "precision \<Rightarrow> thermo_workspace \<Rightarrow> nat \<Rightarrow> real list \<Rightarrow> real list" where
  "lists_log_segment ppr ptw tt zt =
    (let zinitial = thermo_z_initial ppr; zlinear = thermo_z_linear ppr
     in fold (\<lambda>index_z zt.
          zt[(tt - 1) - index_z :=
             - (- exp ((ln zinitial - ln zlinear) * real (Nz_reco_log ptw - 1 - index_z)
                         / real (Nz_reco_log ptw - 1) + ln zlinear))])
        [0..<Nz_reco_log ptw] zt)"

definition lists_lin_segment :: "precision \<Rightarrow> thermo_workspace \<Rightarrow> nat \<Rightarrow> real list \<Rightarrow> real list" where
  "lists_lin_segment ppr ptw tt zt =
    (let zlinear = thermo_z_linear ppr
     in fold (\<lambda>index_z zt.
          zt[(tt - 1) - (index_z + Nz_reco_log ptw) :=
             - (- (zlinear - reionization_z_start_max ppr)
                    * real (Nz_reco_lin ptw - 1 - index_z) / real (Nz_reco_lin ptw)
                  - reionization_z_start_max ppr)])
        [0..<Nz_reco_lin ptw] zt)"

definition lists_reio_segment :: "precision \<Rightarrow> thermo_workspace \<Rightarrow> nat \<Rightarrow> real list \<Rightarrow> real list" where
  "lists_reio_segment ppr ptw tt zt =
    fold (\<lambda>index_z zt.
       zt[(tt - 1) - (index_z + Nz_reco ptw) :=
          - (- reionization_z_start_max ppr
                 * real (Nz_reio ptw - 1 - index_z) / real (Nz_reio ptw))])
     [0..<Nz_reio ptw] zt"

text \<open>
  The loop that asks the background module for the conformal time of every redshift of
  the grid (lines 585 to 591); \<open>tau_of_z\<close> stands for \<^verbatim>\<open>background_tau_of_z\<close>.
\<close>

fun lists_tau_loop ::
  "(real \<Rightarrow> ErrorMsg + real) \<Rightarrow> real list \<Rightarrow> nat \<Rightarrow> nat \<Rightarrow> real list \<Rightarrow> ErrorMsg + real list" where
  "lists_tau_loop tau_of_z zt index_tau 0 taut = Inr taut"
| "lists_tau_loop tau_of_z zt index_tau (Suc remaining) taut =
    (case tau_of_z (zt ! index_tau) of
       Inl e \<Rightarrow> Inl e
     | Inr tau \<Rightarrow> lists_tau_loop tau_of_z zt (index_tau + 1) remaining (taut[index_tau := tau]))"

text \<open>
  \<^verbatim>\<open>thermodynamics_lists\<close>. The arrays that \<^verbatim>\<open>class_alloc\<close> returns hold arbitrary values:
  \<open>z0\<close>, \<open>tau0\<close>, \<open>th0\<close> and \<open>d2th0\<close> are these fresh arrays, of the sizes asked for.
\<close>

definition thermodynamics_lists ::
  "(real \<Rightarrow> ErrorMsg + real) \<Rightarrow> precision \<Rightarrow> thermo \<Rightarrow> thermo_workspace
     \<Rightarrow> real list \<Rightarrow> real list \<Rightarrow> real list \<Rightarrow> real list \<Rightarrow> ErrorMsg + thermo" where
  "thermodynamics_lists tau_of_z ppr pth ptw z0 tau0 th0 d2th0 =
    (let tt = Nz_tot ptw;
         zt = lists_reio_segment ppr ptw tt
                (lists_lin_segment ppr ptw tt (lists_log_segment ppr ptw tt z0))
     in case lists_tau_loop tau_of_z zt 0 tt tau0 of
          Inl e \<Rightarrow> Inl e
        | Inr taut \<Rightarrow>
            Inr (pth\<lparr>tt_size := tt, tau_table := taut, z_table := zt,
                      thermodynamics_table := th0, d2thermodynamics_dz2_table := d2th0\<rparr>))"

text \<open>
  The output redshifts that \<^verbatim>\<open>thermodynamics_solve\<close> hands to the evolver (line 1920), and
  the assignment to \<^verbatim>\<open>pth->z_table\<close> in \<^verbatim>\<open>thermodynamics_solve_store_sources\<close> (line 3788)
  when the evolver reports the output point \<open>mz\<close> of index \<open>index_z\<close>.
\<close>

definition mz_output :: "thermo \<Rightarrow> real list" where
  "mz_output pth = map (\<lambda>i. - z_table pth ! (tt_size pth - 1 - i)) [0..<tt_size pth]"

definition store_sources_z :: "thermo \<Rightarrow> real \<Rightarrow> nat \<Rightarrow> real list" where
  "store_sources_z pth mz index_z =
    (let Nz = tt_size pth; z = - mz in (z_table pth)[Nz - index_z - 1 := z])"

text \<open>
  The conditions on the sampling parameters under which the grid is the one the
  comments describe: the three boundaries in order, at least two points in the
  logarithmic part and one in each linear part, and the totals of
  \<^verbatim>\<open>thermodynamics_workspace_init\<close>.
\<close>

definition sampling_ok :: "precision \<Rightarrow> thermo_workspace \<Rightarrow> bool" where
  "sampling_ok ppr ptw \<longleftrightarrow>
     0 < reionization_z_start_max ppr
     \<and> reionization_z_start_max ppr < thermo_z_linear ppr
     \<and> thermo_z_linear ppr < thermo_z_initial ppr
     \<and> 2 \<le> Nz_reco_log ptw \<and> 1 \<le> Nz_reco_lin ptw \<and> 1 \<le> Nz_reio ptw
     \<and> Nz_reco ptw = Nz_reco_lin ptw + Nz_reco_log ptw
     \<and> Nz_tot ptw = Nz_reio ptw + Nz_reco ptw"

text \<open>The redshift at distance \<open>m\<close> from the end of the grid, in closed form.\<close>

definition grid_point :: "precision \<Rightarrow> thermo_workspace \<Rightarrow> nat \<Rightarrow> real" where
  "grid_point ppr ptw m =
    (if m < Nz_reco_log ptw then
       exp ((ln (thermo_z_initial ppr) - ln (thermo_z_linear ppr))
              * real (Nz_reco_log ptw - 1 - m) / real (Nz_reco_log ptw - 1)
            + ln (thermo_z_linear ppr))
     else if m < Nz_reco ptw then
       (thermo_z_linear ppr - reionization_z_start_max ppr)
         * real (Nz_reco_lin ptw - 1 - (m - Nz_reco_log ptw)) / real (Nz_reco_lin ptw)
       + reionization_z_start_max ppr
     else
       reionization_z_start_max ppr
         * real (Nz_reio ptw - 1 - (m - Nz_reco ptw)) / real (Nz_reio ptw))"

lemma fold_update_from_top:
  fixes g :: "nat \<Rightarrow> real"
  assumes "off + n \<le> hi + 1" and "hi < length zt"
  shows "length (fold (\<lambda>i zt. zt[hi - (i + off) := g i]) [0..<n] zt) = length zt
    \<and> (\<forall>k<length zt. fold (\<lambda>i zt. zt[hi - (i + off) := g i]) [0..<n] zt ! k
         = (if hi - k < off + n \<and> off \<le> hi - k \<and> k \<le> hi then g (hi - k - off) else zt ! k))"
  using assms
proof (induction n)
  case 0
  then show ?case by auto
next
  case (Suc n)
  then have IH: "length (fold (\<lambda>i zt. zt[hi - (i + off) := g i]) [0..<n] zt) = length zt"
    "\<And>k. k < length zt \<Longrightarrow> fold (\<lambda>i zt. zt[hi - (i + off) := g i]) [0..<n] zt ! k
         = (if hi - k < off + n \<and> off \<le> hi - k \<and> k \<le> hi then g (hi - k - off) else zt ! k)"
    by simp_all
  show ?case
  proof (intro conjI allI impI)
    show "length (fold (\<lambda>i zt. zt[hi - (i + off) := g i]) [0..<Suc n] zt) = length zt"
      using IH(1) by simp
  next
    fix k assume k: "k < length zt"
    show "fold (\<lambda>i zt. zt[hi - (i + off) := g i]) [0..<Suc n] zt ! k
         = (if hi - k < off + Suc n \<and> off \<le> hi - k \<and> k \<le> hi then g (hi - k - off) else zt ! k)"
    proof (cases "k = hi - (n + off)")
      case True
      with Suc.prems k show ?thesis using IH(1) by (auto simp add: Suc_diff_le)
    next
      case False
      with Suc.prems k show ?thesis using IH(1) IH(2)[OF k] by (auto simp add: nth_list_update)
    qed
  qed
qed


lemma fold_update_from_top_in:
  fixes g :: "nat \<Rightarrow> real"
  assumes "off + n \<le> hi + 1" and "hi < length zt"
    and "k \<le> hi" and "off \<le> hi - k" and "hi - k < off + n"
  shows "fold (\<lambda>i zt. zt[hi - (i + off) := g i]) [0..<n] zt ! k = g (hi - k - off)"
  using fold_update_from_top[OF assms(1,2), of g] assms(2-5) by simp

lemma fold_update_from_top_out:
  fixes g :: "nat \<Rightarrow> real"
  assumes "off + n \<le> hi + 1" and "hi < length zt"
    and "k < length zt" and "hi - k < off \<or> off + n \<le> hi - k"
  shows "fold (\<lambda>i zt. zt[hi - (i + off) := g i]) [0..<n] zt ! k = zt ! k"
  using fold_update_from_top[OF assms(1,2), of g] assms(3,4) by auto

lemma lin_point_form: "- (- a * b / c - d) = a * b / c + (d::real)"
  by simp

lemma reio_point_form: "- (- a * b / c) = a * b / (c::real)"
  by simp

lemma z_grid_closed_form:
  assumes ok: "sampling_ok ppr ptw" and len: "length z0 = Nz_tot ptw" and k: "k < Nz_tot ptw"
  shows "lists_reio_segment ppr ptw (Nz_tot ptw)
           (lists_lin_segment ppr ptw (Nz_tot ptw) (lists_log_segment ppr ptw (Nz_tot ptw) z0)) ! k
         = grid_point ppr ptw (Nz_tot ptw - 1 - k)"
    and "length (lists_reio_segment ppr ptw (Nz_tot ptw)
           (lists_lin_segment ppr ptw (Nz_tot ptw) (lists_log_segment ppr ptw (Nz_tot ptw) z0)))
         = Nz_tot ptw"
proof -
  let ?tt = "Nz_tot ptw"
  let ?hi = "Nz_tot ptw - 1"
  have n: "Nz_reco ptw = Nz_reco_lin ptw + Nz_reco_log ptw" "?tt = Nz_reio ptw + Nz_reco ptw"
    "2 \<le> Nz_reco_log ptw" "1 \<le> Nz_reco_lin ptw" "1 \<le> Nz_reio ptw"
    using ok by (simp_all add: sampling_ok_def)
  define g1 where "g1 = (\<lambda>index_z. - (- exp ((ln (thermo_z_initial ppr) - ln (thermo_z_linear ppr))
       * real (Nz_reco_log ptw - 1 - index_z) / real (Nz_reco_log ptw - 1)
       + ln (thermo_z_linear ppr))))"
  define g2 where "g2 = (\<lambda>index_z. - (- (thermo_z_linear ppr - reionization_z_start_max ppr)
       * real (Nz_reco_lin ptw - 1 - index_z) / real (Nz_reco_lin ptw)
       - reionization_z_start_max ppr))"
  define g3 where "g3 = (\<lambda>index_z. - (- reionization_z_start_max ppr
       * real (Nz_reio ptw - 1 - index_z) / real (Nz_reio ptw)))"
  define z1 where "z1 = fold (\<lambda>i zt. zt[?hi - (i + 0) := g1 i]) [0..<Nz_reco_log ptw] z0"
  define z2 where "z2 = fold (\<lambda>i zt. zt[?hi - (i + Nz_reco_log ptw) := g2 i]) [0..<Nz_reco_lin ptw] z1"
  define z3 where "z3 = fold (\<lambda>i zt. zt[?hi - (i + Nz_reco ptw) := g3 i]) [0..<Nz_reio ptw] z2"
  have e: "lists_reio_segment ppr ptw ?tt
       (lists_lin_segment ppr ptw ?tt (lists_log_segment ppr ptw ?tt z0)) = z3"
    by (simp add: lists_reio_segment_def lists_lin_segment_def lists_log_segment_def Let_def
        z1_def z2_def z3_def g1_def g2_def g3_def)
  have hi: "?hi < length z0" using len n by simp
  have b1: "0 + Nz_reco_log ptw \<le> ?hi + 1" and b2: "Nz_reco_log ptw + Nz_reco_lin ptw \<le> ?hi + 1"
    and b3: "Nz_reco ptw + Nz_reio ptw \<le> ?hi + 1"
    using n by simp_all
  note f1 = fold_update_from_top[OF b1 hi, of g1, folded z1_def]
  have hi1: "?hi < length z1" using hi f1 by simp
  note f2 = fold_update_from_top[OF b2 hi1, of g2, folded z2_def]
  have hi2: "?hi < length z2" using hi1 f2 by simp
  note f3 = fold_update_from_top[OF b3 hi2, of g3, folded z3_def]
  have l: "length z3 = length z0" "length z2 = length z0" "length z1 = length z0"
    using f1 f2 f3 by simp_all
  let ?m = "?hi - k"
  have kk: "k < length z0" "k \<le> ?hi" using k len by simp_all
  have m: "?m < ?tt" using k by simp
  show "lists_reio_segment ppr ptw ?tt
       (lists_lin_segment ppr ptw ?tt (lists_log_segment ppr ptw ?tt z0)) ! k
         = grid_point ppr ptw (?tt - 1 - k)"
  proof -
    consider (log) "?m < Nz_reco_log ptw"
      | (lin) "Nz_reco_log ptw \<le> ?m" "?m < Nz_reco ptw"
      | (reio) "Nz_reco ptw \<le> ?m" by linarith
    then have "z3 ! k = grid_point ppr ptw ?m"
    proof cases
      case log
      have "z3 ! k = z2 ! k"
        unfolding z3_def using log n l kk by (intro fold_update_from_top_out[OF b3 hi2]) simp_all
      also have "\<dots> = z1 ! k"
        unfolding z2_def using log n l kk by (intro fold_update_from_top_out[OF b2 hi1]) simp_all
      also have "\<dots> = g1 (?m - 0)"
        unfolding z1_def using log n l kk by (intro fold_update_from_top_in[OF b1 hi]) simp_all
      also have "\<dots> = grid_point ppr ptw ?m" using log by (simp add: g1_def grid_point_def)
      finally show ?thesis .
    next
      case lin
      have "z3 ! k = z2 ! k"
        unfolding z3_def using lin n l kk by (intro fold_update_from_top_out[OF b3 hi2]) simp_all
      also have "\<dots> = g2 (?m - Nz_reco_log ptw)"
        unfolding z2_def using lin n l kk by (intro fold_update_from_top_in[OF b2 hi1]) simp_all
      also have "\<dots> = grid_point ppr ptw ?m"
        using lin unfolding g2_def grid_point_def lin_point_form by simp
      finally show ?thesis .
    next
      case reio
      have "z3 ! k = g3 (?m - Nz_reco ptw)"
        unfolding z3_def using reio n l kk m by (intro fold_update_from_top_in[OF b3 hi2]) simp_all
      also have "\<dots> = grid_point ppr ptw ?m"
        using reio n unfolding g3_def grid_point_def reio_point_form by simp
      finally show ?thesis .
    qed
    then show ?thesis unfolding e .
  qed
  show "length (lists_reio_segment ppr ptw ?tt
       (lists_lin_segment ppr ptw ?tt (lists_log_segment ppr ptw ?tt z0))) = ?tt"
    unfolding e using l len by simp
qed


lemma grid_point_log:
  assumes ok: "sampling_ok ppr ptw" and m: "m < Nz_reco_log ptw"
  shows "thermo_z_linear ppr \<le> grid_point ppr ptw m"
    and "m < m' \<Longrightarrow> m' < Nz_reco_log ptw \<Longrightarrow> grid_point ppr ptw m' < grid_point ppr ptw m"
proof -
  let ?zi = "thermo_z_initial ppr" and ?zl = "thermo_z_linear ppr"
  let ?d = "real (Nz_reco_log ptw - 1)"
  have pos: "0 < ?zl" "?zl < ?zi" and n: "2 \<le> Nz_reco_log ptw"
    using ok by (simp_all add: sampling_ok_def)
  have L: "0 < ln ?zi - ln ?zl" using pos by simp
  have d: "0 < ?d" using n by simp
  have "0 \<le> (ln ?zi - ln ?zl) * real (Nz_reco_log ptw - 1 - m) / ?d"
    using L d by simp
  then have "ln ?zl \<le> (ln ?zi - ln ?zl) * real (Nz_reco_log ptw - 1 - m) / ?d + ln ?zl"
    by simp
  then have "exp (ln ?zl) \<le> exp ((ln ?zi - ln ?zl) * real (Nz_reco_log ptw - 1 - m) / ?d + ln ?zl)"
    by simp
  then show "?zl \<le> grid_point ppr ptw m"
    using pos m by (simp add: grid_point_def)
  assume mm: "m < m'" "m' < Nz_reco_log ptw"
  then have "real (Nz_reco_log ptw - 1 - m') < real (Nz_reco_log ptw - 1 - m)" by simp
  then have "(ln ?zi - ln ?zl) * real (Nz_reco_log ptw - 1 - m')
      < (ln ?zi - ln ?zl) * real (Nz_reco_log ptw - 1 - m)"
    using L by (simp only: mult_less_cancel_left_pos)
  then have "(ln ?zi - ln ?zl) * real (Nz_reco_log ptw - 1 - m') / ?d
      < (ln ?zi - ln ?zl) * real (Nz_reco_log ptw - 1 - m) / ?d"
    using d by (simp only: divide_strict_right_mono)
  then show "grid_point ppr ptw m' < grid_point ppr ptw m"
    using mm m by (simp add: grid_point_def)
qed

lemma grid_point_lin:
  assumes ok: "sampling_ok ppr ptw" and m: "Nz_reco_log ptw \<le> m" "m < Nz_reco ptw"
  shows "reionization_z_start_max ppr \<le> grid_point ppr ptw m"
    and "grid_point ppr ptw m < thermo_z_linear ppr"
    and "m < m' \<Longrightarrow> m' < Nz_reco ptw \<Longrightarrow> grid_point ppr ptw m' < grid_point ppr ptw m"
proof -
  let ?zl = "thermo_z_linear ppr" and ?zm = "reionization_z_start_max ppr"
  let ?N = "Nz_reco_lin ptw"
  let ?x = "\<lambda>m. real (?N - 1 - (m - Nz_reco_log ptw)) / real ?N"
  have D: "0 < ?zl - ?zm" and n: "1 \<le> ?N" "Nz_reco ptw = ?N + Nz_reco_log ptw"
    using ok by (simp_all add: sampling_ok_def)
  have gp: "grid_point ppr ptw j = (?zl - ?zm) * ?x j + ?zm"
    if "Nz_reco_log ptw \<le> j" "j < Nz_reco ptw" for j
    using that by (simp add: grid_point_def)
  have x0: "0 \<le> ?x m" by simp
  have x1: "?x m < 1" using n by simp
  have "0 \<le> (?zl - ?zm) * ?x m" using D x0 by (intro mult_nonneg_nonneg) simp_all
  then show "?zm \<le> grid_point ppr ptw m" using gp[OF m] by simp
  have "(?zl - ?zm) * ?x m < (?zl - ?zm) * 1" using D x1 by (intro mult_strict_left_mono)
  then show "grid_point ppr ptw m < ?zl" using gp[OF m] by simp
  assume mm: "m < m'" "m' < Nz_reco ptw"
  then have "real (?N - 1 - (m' - Nz_reco_log ptw)) < real (?N - 1 - (m - Nz_reco_log ptw))"
    using m n by simp
  then have "?x m' < ?x m" using n by (simp add: divide_strict_right_mono)
  then have lt: "(?zl - ?zm) * ?x m' < (?zl - ?zm) * ?x m"
    using D by (intro mult_strict_left_mono)
  have m': "Nz_reco_log ptw \<le> m'" using m mm by simp
  show "grid_point ppr ptw m' < grid_point ppr ptw m"
    unfolding gp[OF m] gp[OF m' mm(2)] using lt by (rule add_strict_right_mono)
qed

lemma grid_point_reio:
  assumes ok: "sampling_ok ppr ptw" and m: "Nz_reco ptw \<le> m" "m < Nz_tot ptw"
  shows "0 \<le> grid_point ppr ptw m"
    and "grid_point ppr ptw m < reionization_z_start_max ppr"
    and "m < m' \<Longrightarrow> m' < Nz_tot ptw \<Longrightarrow> grid_point ppr ptw m' < grid_point ppr ptw m"
proof -
  let ?zm = "reionization_z_start_max ppr"
  let ?N = "Nz_reio ptw"
  let ?x = "\<lambda>m. real (?N - 1 - (m - Nz_reco ptw)) / real ?N"
  have D: "0 < ?zm" and n: "1 \<le> ?N" "Nz_tot ptw = ?N + Nz_reco ptw"
    "Nz_reco ptw = Nz_reco_lin ptw + Nz_reco_log ptw"
    using ok by (simp_all add: sampling_ok_def)
  have gp: "grid_point ppr ptw j = ?zm * ?x j" if "Nz_reco ptw \<le> j" for j
    using that n by (simp add: grid_point_def)
  have x0: "0 \<le> ?x m" by simp
  have x1: "?x m < 1" using n by simp
  show "0 \<le> grid_point ppr ptw m" using gp[OF m(1)] D x0 by simp
  have "?zm * ?x m < ?zm * 1" using D x1 by (intro mult_strict_left_mono)
  then show "grid_point ppr ptw m < ?zm" using gp[OF m(1)] by simp
  assume mm: "m < m'" "m' < Nz_tot ptw"
  then have "real (?N - 1 - (m' - Nz_reco ptw)) < real (?N - 1 - (m - Nz_reco ptw))"
    using m n by simp
  then have "?x m' < ?x m" using n by (simp add: divide_strict_right_mono)
  then have lt: "?zm * ?x m' < ?zm * ?x m" using D by (intro mult_strict_left_mono)
  have m': "Nz_reco ptw \<le> m'" using m mm by simp
  show "grid_point ppr ptw m' < grid_point ppr ptw m"
    unfolding gp[OF m(1)] gp[OF m'] using lt .
qed

lemma grid_point_decreasing:
  assumes ok: "sampling_ok ppr ptw" and mm: "m < m'" "m' < Nz_tot ptw"
  shows "grid_point ppr ptw m' < grid_point ppr ptw m"
proof -
  have n: "Nz_reco ptw = Nz_reco_lin ptw + Nz_reco_log ptw"
    "Nz_tot ptw = Nz_reio ptw + Nz_reco ptw"
    using ok by (simp_all add: sampling_ok_def)
  consider (a) "m' < Nz_reco_log ptw"
    | (b) "m < Nz_reco_log ptw" "Nz_reco_log ptw \<le> m'" "m' < Nz_reco ptw"
    | (c) "m < Nz_reco_log ptw" "Nz_reco ptw \<le> m'"
    | (d) "Nz_reco_log ptw \<le> m" "m' < Nz_reco ptw"
    | (e) "Nz_reco_log ptw \<le> m" "m < Nz_reco ptw" "Nz_reco ptw \<le> m'"
    | (f) "Nz_reco ptw \<le> m"
    using mm by linarith
  then show ?thesis
  proof cases
    case a
    with mm show ?thesis using grid_point_log(2)[OF ok, of m m'] by simp
  next
    case b
    from grid_point_log(1)[OF ok b(1)] grid_point_lin(2)[OF ok b(2,3)] show ?thesis by simp
  next
    case c
    from grid_point_log(1)[OF ok c(1)] grid_point_reio(2)[OF ok c(2) mm(2)] ok
    show ?thesis by (simp add: sampling_ok_def)
  next
    case d
    with mm show ?thesis using grid_point_lin(3)[OF ok, of m m'] by simp
  next
    case e
    from grid_point_lin(1)[OF ok e(1,2)] grid_point_reio(2)[OF ok e(3) mm(2)]
    show ?thesis by simp
  next
    case f
    with mm show ?thesis using grid_point_reio(3)[OF ok, of m m'] by simp
  qed
qed

lemma grid_point_ends:
  assumes ok: "sampling_ok ppr ptw"
  shows "grid_point ppr ptw 0 = thermo_z_initial ppr"
    and "grid_point ppr ptw (Nz_tot ptw - 1) = 0"
proof -
  have pos: "0 < thermo_z_linear ppr" "0 < thermo_z_initial ppr"
    and n: "2 \<le> Nz_reco_log ptw" "1 \<le> Nz_reco_lin ptw" "1 \<le> Nz_reio ptw"
      "Nz_reco ptw = Nz_reco_lin ptw + Nz_reco_log ptw" "Nz_tot ptw = Nz_reio ptw + Nz_reco ptw"
    using ok by (simp_all add: sampling_ok_def)
  show "grid_point ppr ptw 0 = thermo_z_initial ppr"
    using pos n by (simp add: grid_point_def)
  have a: "\<not> Nz_tot ptw - 1 < Nz_reco_log ptw" "\<not> Nz_tot ptw - 1 < Nz_reco ptw"
    and b: "Nz_reio ptw - 1 - (Nz_tot ptw - 1 - Nz_reco ptw) = 0"
    using n by simp_all
  show "grid_point ppr ptw (Nz_tot ptw - 1) = 0"
    unfolding grid_point_def using a b by simp
qed


lemma lists_tau_loop_error:
  "lists_tau_loop tau_of_z zt i n taut = Inl e \<Longrightarrow> \<exists>z. tau_of_z z = Inl e"
  by (induction n arbitrary: i taut) (auto split: sum.splits)

lemma store_sources_z_same:
  assumes "index_z < tt_size pth" and "length (z_table pth) = tt_size pth"
  shows "store_sources_z pth (mz_output pth ! index_z) index_z = z_table pth"
proof -
  have "mz_output pth ! index_z = - z_table pth ! (tt_size pth - 1 - index_z)"
    using assms(1) by (simp add: mz_output_def)
  moreover have "tt_size pth - index_z - 1 = tt_size pth - 1 - index_z" by simp
  ultimately show ?thesis
    by (simp add: store_sources_z_def Let_def)
qed

text \<open>
  A sampling with two logarithmic points, one linear point and two reionization points
  between \<open>z = 0\<close> and \<open>z = 5000000\<close>.
\<close>

definition five_point_precision :: precision where
  "five_point_precision =
    low_z_initial_precision\<lparr>thermo_z_initial := 5000000, thermo_z_linear := 10000\<rparr>"

definition five_point_workspace :: thermo_workspace where
  "five_point_workspace =
    unit_workspace\<lparr>Nz_reco_lin := 1, Nz_reco_log := 2, Nz_reio := 2, Nz_reco := 3, Nz_tot := 5\<rparr>"

lemma five_point_ok: "sampling_ok five_point_precision five_point_workspace"
  by (simp add: sampling_ok_def five_point_precision_def five_point_workspace_def
      low_z_initial_precision_def unit_workspace_def)

text \<open>
  C1 as stated fails: the claim has index 0 hold today and the entries decrease with the
  index. On the five-point sampling the grid starts with \<open>z_table[0] = 0\<close> and
  \<open>z_table[1] = 25\<close>, so the entry of index 0 is not above the entry of index 1.
\<close>

theorem z_table_decreasing_counterexample:
  "\<not> (lists_reio_segment five_point_precision five_point_workspace 5
         (lists_lin_segment five_point_precision five_point_workspace 5
           (lists_log_segment five_point_precision five_point_workspace 5 (replicate 5 0))) ! 0
       > lists_reio_segment five_point_precision five_point_workspace 5
         (lists_lin_segment five_point_precision five_point_workspace 5
           (lists_log_segment five_point_precision five_point_workspace 5 (replicate 5 0))) ! 1)"
proof -
  have tt: "Nz_tot five_point_workspace = 5" by (simp add: five_point_workspace_def)
  have len: "length (replicate 5 (0::real)) = Nz_tot five_point_workspace" using tt by simp
  have a: "lists_reio_segment five_point_precision five_point_workspace 5
         (lists_lin_segment five_point_precision five_point_workspace 5
           (lists_log_segment five_point_precision five_point_workspace 5 (replicate 5 0))) ! 0 = 0"
    using z_grid_closed_form(1)[OF five_point_ok len, of 0]
    by (simp add: tt grid_point_def five_point_workspace_def)
  have b: "lists_reio_segment five_point_precision five_point_workspace 5
         (lists_lin_segment five_point_precision five_point_workspace 5
           (lists_log_segment five_point_precision five_point_workspace 5 (replicate 5 0))) ! 1 = 25"
    using z_grid_closed_form(1)[OF five_point_ok len, of 1]
    by (simp add: tt grid_point_def five_point_workspace_def five_point_precision_def
        low_z_initial_precision_def)
  show ?thesis unfolding a b by simp
qed

text \<open>
  C1, amended. When the sampling parameters are in order, \<^verbatim>\<open>thermodynamics_lists\<close> fails
  only if the background module fails on some redshift, and otherwise the grid it builds
  has \<open>Nz_tot\<close> entries, holds today (\<open>z = 0\<close>) at index 0 and \<open>z_initial\<close> at the last index,
  and is strictly increasing in array order: \<open>z_table[i] < z_table[j]\<close> for all indices
  \<open>i < j\<close>. The assignment of \<^verbatim>\<open>thermodynamics_solve_store_sources\<close> writes every output
  point back to the entry it came from, so the grid stays as built (the source comments:
  results are stored in order of growing \<open>z\<close>).
\<close>

theorem z_table_strictly_increasing:
  assumes "sampling_ok ppr ptw" and "length z0 = Nz_tot ptw"
  shows "case thermodynamics_lists tau_of_z ppr pth ptw z0 tau0 th0 d2th0 of
           Inl e \<Rightarrow> \<exists>z. tau_of_z z = Inl e
         | Inr pth' \<Rightarrow>
             tt_size pth' = Nz_tot ptw \<and> length (z_table pth') = tt_size pth'
             \<and> z_table pth' ! 0 = 0
             \<and> z_table pth' ! (tt_size pth' - 1) = thermo_z_initial ppr
             \<and> (\<forall>i j. i < j \<and> j < tt_size pth' \<longrightarrow> z_table pth' ! i < z_table pth' ! j)
             \<and> (\<forall>index_z<tt_size pth'.
                   store_sources_z pth' (mz_output pth' ! index_z) index_z = z_table pth')"
proof (cases "thermodynamics_lists tau_of_z ppr pth ptw z0 tau0 th0 d2th0")
  case (Inl e)
  then show ?thesis
    by (auto simp add: thermodynamics_lists_def Let_def split: sum.splits
        dest: lists_tau_loop_error)
next
  case (Inr pth')
  let ?zt = "lists_reio_segment ppr ptw (Nz_tot ptw)
       (lists_lin_segment ppr ptw (Nz_tot ptw) (lists_log_segment ppr ptw (Nz_tot ptw) z0))"
  from Inr have tt: "tt_size pth' = Nz_tot ptw" and zt: "z_table pth' = ?zt"
    by (auto simp add: thermodynamics_lists_def Let_def split: sum.splits)
  have pos: "0 < Nz_tot ptw" using assms(1) by (simp add: sampling_ok_def)
  have nth: "?zt ! k = grid_point ppr ptw (Nz_tot ptw - 1 - k)" if "k < Nz_tot ptw" for k
    using z_grid_closed_form(1)[OF assms that] .
  have len: "length ?zt = Nz_tot ptw"
    using z_grid_closed_form(2)[OF assms pos] .
  have first: "?zt ! 0 = 0" using nth[OF pos] grid_point_ends(2)[OF assms(1)] by simp
  have last: "?zt ! (Nz_tot ptw - 1) = thermo_z_initial ppr"
    using nth[of "Nz_tot ptw - 1"] pos grid_point_ends(1)[OF assms(1)] by simp
  have incr: "?zt ! i < ?zt ! j" if "i < j" "j < Nz_tot ptw" for i j
  proof -
    have "Nz_tot ptw - 1 - j < Nz_tot ptw - 1 - i" "Nz_tot ptw - 1 - i < Nz_tot ptw"
      using that by simp_all
    from grid_point_decreasing[OF assms(1) this] show ?thesis
      using nth[of i] nth[of j] that by simp
  qed
  have store: "store_sources_z pth' (mz_output pth' ! index_z) index_z = z_table pth'"
    if "index_z < tt_size pth'" for index_z
    using store_sources_z_same[OF that] zt len tt by simp
  show ?thesis
    unfolding Inr using tt zt len first last incr store by simp
qed

theorem z_table_strictly_increasing_witness:
  "sampling_ok five_point_precision five_point_workspace
   \<and> length (replicate 5 (0::real)) = Nz_tot five_point_workspace
   \<and> (\<exists>pth'. thermodynamics_lists (\<lambda>z. Inr (14000 - z)) five_point_precision example_thermo
          five_point_workspace (replicate 5 0) (replicate 5 0) [] [] = Inr pth'
        \<and> z_table pth' ! 0 = 0 \<and> z_table pth' ! 4 = 5000000
        \<and> z_table pth' ! 1 < z_table pth' ! 3)"
proof -
  have tt: "Nz_tot five_point_workspace = 5" by (simp add: five_point_workspace_def)
  have len: "length (replicate 5 (0::real)) = Nz_tot five_point_workspace" using tt by simp
  have zi: "thermo_z_initial five_point_precision = 5000000"
    by (simp add: five_point_precision_def)
  note t = z_table_strictly_increasing[OF five_point_ok len, of "\<lambda>z. Inr (14000 - z)"
      example_thermo "replicate 5 0" "[]" "[]"]
  show ?thesis
  proof (cases "thermodynamics_lists (\<lambda>z. Inr (14000 - z)) five_point_precision example_thermo
          five_point_workspace (replicate 5 0) (replicate 5 0) [] []")
    case (Inl e)
    with t show ?thesis by simp
  next
    case (Inr pth')
    from t have c: "tt_size pth' = Nz_tot five_point_workspace
        \<and> length (z_table pth') = tt_size pth'
        \<and> z_table pth' ! 0 = 0
        \<and> z_table pth' ! (tt_size pth' - 1) = thermo_z_initial five_point_precision
        \<and> (\<forall>i j. i < j \<and> j < tt_size pth' \<longrightarrow> z_table pth' ! i < z_table pth' ! j)
        \<and> (\<forall>index_z<tt_size pth'.
              store_sources_z pth' (mz_output pth' ! index_z) index_z = z_table pth')"
      unfolding Inr sum.case .
    then have e1: "tt_size pth' = 5" and e2: "z_table pth' ! 0 = 0"
      and e3: "z_table pth' ! (tt_size pth' - 1) = 5000000"
      and e4: "\<And>i j. i < j \<Longrightarrow> j < tt_size pth' \<Longrightarrow> z_table pth' ! i < z_table pth' ! j"
      unfolding tt zi by blast+
    have "z_table pth' ! 4 = 5000000" using e3 unfolding e1 by simp
    moreover have "z_table pth' ! 1 < z_table pth' ! 3" using e4[of 1 3] unfolding e1 by simp
    ultimately have "z_table pth' ! 0 = 0 \<and> z_table pth' ! 4 = 5000000
        \<and> z_table pth' ! 1 < z_table pth' ! 3"
      using e2 by simp
    with five_point_ok len Inr show ?thesis by simp
  qed
qed



section \<open>The damping scale\<close>

text \<open>
  The first loop of \<^verbatim>\<open>thermodynamics_calculate_damping_scale\<close> (lines 982 to 1001), which
  fills the array of conformal times in growing order and stores the integrand in the
  column \<open>ddkappa\<close>. \<open>background_at_tau\<close> stands for the call with the formats
  \<^verbatim>\<open>pba->normal_info\<close> and \<^verbatim>\<open>pba->inter_closeby\<close>; \<open>last_index_back\<close> is the index it keeps
  between calls. The loop runs \<open>index_tau\<close> upwards, \<open>remaining\<close> steps being left.
\<close>

fun damping_integrand_loop ::
  "table_tools \<Rightarrow> background \<Rightarrow> thermo \<Rightarrow> nat \<Rightarrow> nat \<Rightarrow> nat \<Rightarrow> real list \<Rightarrow> real list
     \<Rightarrow> ErrorMsg + (nat \<times> real list \<times> real list)" where
  "damping_integrand_loop tools pba pth index_tau 0 last_index_back tau_table_growing tab =
    Inr (last_index_back, tau_table_growing, tab)"
| "damping_integrand_loop tools pba pth index_tau (Suc remaining) last_index_back
      tau_table_growing tab =
    (let tg1 = tau_table_growing[index_tau := tau_table pth ! (tt_size pth - 1 - index_tau)]
     in case background_at_tau tools (tg1 ! index_tau) last_index_back of
          Inl e \<Rightarrow> Inl e
        | Inr (li1, pvecback) \<Rightarrow>
            (let R = 3 / 4 * pvecback ! index_bg_rho_b pba / pvecback ! index_bg_rho_g pba
             in damping_integrand_loop tools pba pth (index_tau + 1) remaining li1 tg1
                  (tab[index_tau * th_size pth + index_th_ddkappa pth :=
                       1 / 6
                         / tab ! ((tt_size pth - 1 - index_tau) * th_size pth
                                    + index_th_dkappa pth)
                         * (R * R / (1 + R) + 16 / 15) / (1 + R)])))"

text \<open>
  The last loop of the function (lines 1039 to 1045), which writes the column \<open>r_d\<close> from
  the integral that the spline routine has left in the column \<open>g\<close>.
\<close>

definition damping_store_loop :: "constants \<Rightarrow> thermo \<Rightarrow> real \<Rightarrow> real \<Rightarrow> real list \<Rightarrow> real list" where
  "damping_store_loop k pth tau_ini dkappa_ini tab =
    fold (\<lambda>index_tau tab.
       tab[index_tau * th_size pth + index_th_r_d pth :=
           2 * PI k * sqrt (16 / (15 * 6 * 3) * tau_ini / dkappa_ini
                            + tab ! ((tt_size pth - 1 - index_tau) * th_size pth
                                       + index_th_g pth))])
     [0..<tt_size pth] tab"

text \<open>
  \<^verbatim>\<open>thermodynamics_calculate_damping_scale\<close>. \<open>tg0\<close> is the fresh array
  \<^verbatim>\<open>tau_table_growing\<close>, of \<open>tt_size\<close> entries.
\<close>

definition thermodynamics_calculate_damping_scale ::
  "table_tools \<Rightarrow> constants \<Rightarrow> background \<Rightarrow> thermo \<Rightarrow> nat \<Rightarrow> real list
     \<Rightarrow> ErrorMsg + (nat \<times> thermo)" where
  "thermodynamics_calculate_damping_scale tools k pba pth last_index_back tg0 =
    (if compute_damping_scale pth then
       (case damping_integrand_loop tools pba pth 0 (tt_size pth) last_index_back tg0
               (thermodynamics_table pth) of
          Inl e \<Rightarrow> Inl e
        | Inr (li, tau_table_growing, tab1) \<Rightarrow>
       (case array_spline_table_line_to_line tools tau_table_growing (tt_size pth) tab1
               (th_size pth) (index_th_ddkappa pth) (index_th_dddkappa pth)
               (SPLINE_EST_DERIV k) of
          Inl e \<Rightarrow> Inl e
        | Inr tab2 \<Rightarrow>
       (case array_integrate_spline_table_line_to_line tools tau_table_growing (tt_size pth)
               tab2 (th_size pth) (index_th_ddkappa pth) (index_th_dddkappa pth)
               (index_th_g pth) of
          Inl e \<Rightarrow> Inl e
        | Inr tab3 \<Rightarrow>
            (let tau_ini = tau_table pth ! (tt_size pth - 1);
                 dkappa_ini = tab3 ! ((tt_size pth - 1) * th_size pth + index_th_dkappa pth)
             in Inr (li, pth\<lparr>thermodynamics_table :=
                               damping_store_loop k pth tau_ini dkappa_ini tab3\<rparr>)))))
     else Inr (last_index_back, pth))"

text \<open>
  The square of the damping scale as the specification words it, from the initial time,
  the initial \<open>dkappa/dtau\<close> and the value of the integral.
\<close>

definition r_d_squared_spec :: "constants \<Rightarrow> real \<Rightarrow> real \<Rightarrow> real \<Rightarrow> real" where
  "r_d_squared_spec k tau_ini dkappa_ini integral =
    (2 * PI k) ^ 2 * (tau_ini / (3 * dkappa_ini) * (16 / (15 * 6 * 3)) + integral)"

text \<open>The integrand of the damping scale for a ratio \<open>R\<close> and a value of \<open>dkappa/dtau\<close>.\<close>

definition damping_integrand :: "real \<Rightarrow> real \<Rightarrow> real" where
  "damping_integrand R dkappa = (1 / dkappa) * ((R ^ 2 / (1 + R) + 16 / 15) / (1 + R)) * (1 / 6)"


lemma damping_store_loop_fold:
  fixes tab :: "real list"
  assumes colg: "cg < th" and colr: "cr < th" and ne: "cg \<noteq> cr"
  shows "n \<le> tt \<Longrightarrow> tt * th \<le> length tab \<Longrightarrow>
    (let res = fold (\<lambda>index_tau tab.
         tab[index_tau * th + cr := c * sqrt (b + tab ! ((tt - 1 - index_tau) * th + cg))])
         [0..<n] tab
     in length res = length tab
      \<and> (\<forall>i<n. res ! (i * th + cr) = c * sqrt (b + tab ! ((tt - 1 - i) * th + cg)))
      \<and> (\<forall>m. (\<forall>i<n. m \<noteq> i * th + cr) \<longrightarrow> res ! m = tab ! m))"
proof (induction n)
  case 0
  then show ?case by simp
next
  case (Suc n)
  let ?f = "\<lambda>index_tau tab.
         tab[index_tau * th + cr := c * sqrt (b + tab ! ((tt - 1 - index_tau) * th + cg))]"
  let ?r = "fold ?f [0..<n] tab"
  from Suc have IH: "length ?r = length tab"
    "\<And>i. i < n \<Longrightarrow> ?r ! (i * th + cr) = c * sqrt (b + tab ! ((tt - 1 - i) * th + cg))"
    "\<And>m. (\<forall>i<n. m \<noteq> i * th + cr) \<Longrightarrow> ?r ! m = tab ! m"
    by (simp_all add: Let_def)
  have step: "fold ?f [0..<Suc n] tab = ?r[n * th + cr := c * sqrt (b + ?r ! ((tt - 1 - n) * th + cg))]"
    by simp
  have g_same: "?r ! ((tt - 1 - n) * th + cg) = tab ! ((tt - 1 - n) * th + cg)"
    using IH(3) row_offset_eq[OF colg colr] ne by simp
  have "n * th + cr < (n + 1) * th" using colr by simp
  also have "\<dots> \<le> tt * th" using Suc.prems(1) by (intro mult_le_mono1) simp
  finally have inb: "n * th + cr < length ?r" using Suc.prems(2) IH(1) by simp
  show ?case
    unfolding Let_def step
  proof (intro conjI allI impI)
    show "length (?r[n * th + cr := c * sqrt (b + ?r ! ((tt - 1 - n) * th + cg))]) = length tab"
      using IH(1) by simp
  next
    fix i assume i: "i < Suc n"
    show "?r[n * th + cr := c * sqrt (b + ?r ! ((tt - 1 - n) * th + cg))] ! (i * th + cr)
        = c * sqrt (b + tab ! ((tt - 1 - i) * th + cg))"
    proof (cases "i = n")
      case True
      then show ?thesis using inb g_same by simp
    next
      case False
      with i have "i < n" by simp
      moreover have "n * th + cr \<noteq> i * th + cr"
        using False row_offset_eq[OF colr colr, of n i] by blast
      ultimately show ?thesis using IH(2) by simp
    qed
  next
    fix m assume m: "\<forall>i<Suc n. m \<noteq> i * th + cr"
    then have "m \<noteq> n * th + cr" "\<forall>i<n. m \<noteq> i * th + cr" by simp_all
    then show "?r[n * th + cr := c * sqrt (b + ?r ! ((tt - 1 - n) * th + cg))] ! m = tab ! m"
      using IH(3) by simp
  qed
qed

lemma damping_store_loop_nth:
  assumes ok: "th_columns_ok pth" and ds: "compute_damping_scale pth"
    and len: "tt_size pth * th_size pth \<le> length tab" and i: "i < tt_size pth"
  shows "damping_store_loop k pth tau_ini dkappa_ini tab ! (i * th_size pth + index_th_r_d pth)
    = 2 * PI k * sqrt (16 / (15 * 6 * 3) * tau_ini / dkappa_ini
                         + tab ! ((tt_size pth - 1 - i) * th_size pth + index_th_g pth))"
proof -
  have cols: "index_th_g pth < th_size pth" "index_th_r_d pth < th_size pth"
    "index_th_g pth \<noteq> index_th_r_d pth"
    using th_columns_okD[OF ok] ds by (simp_all add: th_columns_def)
  from damping_store_loop_fold[OF cols, of "tt_size pth" "tt_size pth" tab "2 * PI k"
      "16 / (15 * 6 * 3) * tau_ini / dkappa_ini"] len i
  show ?thesis by (simp add: damping_store_loop_def Let_def)
qed


lemma damping_integrand_form:
  "1 / 6 / d * (R * R / (1 + R) + 16 / 15) / (1 + R) = damping_integrand R d"
  by (simp add: damping_integrand_def power2_eq_square)

lemma damping_integrand_loop_spec:
  assumes ok: "th_columns_ok pth"
  shows "index_tau + remaining = tt_size pth \<Longrightarrow> length tg = tt_size pth
    \<Longrightarrow> tt_size pth * th_size pth \<le> length tab
    \<Longrightarrow> damping_integrand_loop tools pba pth index_tau remaining li tg tab = Inr (li', tg', tab')
    \<Longrightarrow> length tab' = length tab \<and> length tg' = length tg
      \<and> (\<forall>j. index_tau \<le> j \<and> j < tt_size pth \<longrightarrow>
            tg' ! j = tau_table pth ! (tt_size pth - 1 - j)
            \<and> (\<exists>l0 l1 pv. background_at_tau tools (tau_table pth ! (tt_size pth - 1 - j)) l0
                              = Inr (l1, pv)
                 \<and> tab' ! (j * th_size pth + index_th_ddkappa pth)
                     = damping_integrand
                         (3 / 4 * pv ! index_bg_rho_b pba / pv ! index_bg_rho_g pba)
                         (tab ! ((tt_size pth - 1 - j) * th_size pth + index_th_dkappa pth))))
      \<and> (\<forall>j<index_tau. tg' ! j = tg ! j)
      \<and> (\<forall>m. (\<forall>j. index_tau \<le> j \<and> j < tt_size pth \<longrightarrow> m \<noteq> j * th_size pth + index_th_ddkappa pth)
            \<longrightarrow> tab' ! m = tab ! m)"
proof (induction remaining arbitrary: index_tau li tg tab)
  case 0
  then show ?case by auto
next
  case (Suc remaining)
  let ?tt = "tt_size pth" and ?th = "th_size pth"
  let ?dd = "index_th_ddkappa pth" and ?dk = "index_th_dkappa pth"
  have cols: "?dd < ?th" "?dk < ?th" "?dd \<noteq> ?dk"
    using th_columns_okD[OF ok] by (simp_all add: th_columns_def)
  have it: "index_tau < ?tt" using Suc.prems(1) by simp
  define tg1 where "tg1 = tg[index_tau := tau_table pth ! (?tt - 1 - index_tau)]"
  have tg1i: "tg1 ! index_tau = tau_table pth ! (?tt - 1 - index_tau)"
    using it Suc.prems(2) by (simp add: tg1_def)
  from Suc.prems(4) obtain l1 pv where
    bg: "background_at_tau tools (tau_table pth ! (?tt - 1 - index_tau)) li = Inr (l1, pv)"
    and rec: "damping_integrand_loop tools pba pth (index_tau + 1) remaining l1 tg1
       (tab[index_tau * ?th + ?dd :=
            1 / 6 / tab ! ((?tt - 1 - index_tau) * ?th + ?dk)
              * ((3 / 4 * pv ! index_bg_rho_b pba / pv ! index_bg_rho_g pba)
                  * (3 / 4 * pv ! index_bg_rho_b pba / pv ! index_bg_rho_g pba)
                  / (1 + 3 / 4 * pv ! index_bg_rho_b pba / pv ! index_bg_rho_g pba) + 16 / 15)
              / (1 + 3 / 4 * pv ! index_bg_rho_b pba / pv ! index_bg_rho_g pba)])
       = Inr (li', tg', tab')"
    using tg1i unfolding tg1_def
    by (auto simp add: Let_def split: sum.splits prod.splits)
  define R where "R = 3 / 4 * pv ! index_bg_rho_b pba / pv ! index_bg_rho_g pba"
  define tab1 where "tab1 = tab[index_tau * ?th + ?dd :=
      damping_integrand R (tab ! ((?tt - 1 - index_tau) * ?th + ?dk))]"
  have rec': "damping_integrand_loop tools pba pth (index_tau + 1) remaining l1 tg1 tab1
       = Inr (li', tg', tab')"
    using rec unfolding tab1_def R_def damping_integrand_form[symmetric] .
  have p1: "index_tau + 1 + remaining = ?tt" using Suc.prems(1) by simp
  have p2: "length tg1 = ?tt" using Suc.prems(2) by (simp add: tg1_def)
  have p3: "?tt * ?th \<le> length tab1" using Suc.prems(3) by (simp add: tab1_def)
  note IH = Suc.IH[OF p1 p2 p3 rec']
  have inb: "index_tau * ?th + ?dd < length tab"
  proof -
    have "index_tau * ?th + ?dd < (index_tau + 1) * ?th" using cols by simp
    also have "\<dots> \<le> ?tt * ?th" using it by (intro mult_le_mono1) simp
    finally show ?thesis using Suc.prems(3) by simp
  qed
  have dk_same: "tab1 ! (r * ?th + ?dk) = tab ! (r * ?th + ?dk)" for r
    using row_offset_eq[OF cols(1,2), of index_tau r] cols(3) by (simp add: tab1_def)
  have A: "length tab' = length tab" "length tg' = length tg"
    using IH by (simp_all add: tab1_def tg1_def)
  have B: "tg' ! j = tau_table pth ! (?tt - 1 - j)
      \<and> (\<exists>l0 l1 pv. background_at_tau tools (tau_table pth ! (?tt - 1 - j)) l0 = Inr (l1, pv)
            \<and> tab' ! (j * ?th + ?dd) = damping_integrand
                 (3 / 4 * pv ! index_bg_rho_b pba / pv ! index_bg_rho_g pba)
                 (tab ! ((?tt - 1 - j) * ?th + ?dk)))"
    if j: "index_tau \<le> j \<and> j < ?tt" for j
  proof (cases "j = index_tau")
    case True
    have "tg' ! index_tau = tg1 ! index_tau" using IH by simp
    moreover have "tab' ! (index_tau * ?th + ?dd) = tab1 ! (index_tau * ?th + ?dd)"
    proof -
      have "index_tau * ?th + ?dd \<noteq> j' * ?th + ?dd" if "index_tau + 1 \<le> j'" for j'
        using row_offset_eq[OF cols(1) cols(1), of index_tau j'] that by auto
      then have "\<forall>j'. index_tau + 1 \<le> j' \<and> j' < ?tt \<longrightarrow>
          index_tau * ?th + ?dd \<noteq> j' * ?th + ?dd"
        by blast
      with IH show ?thesis by blast
    qed
    moreover have "tab1 ! (index_tau * ?th + ?dd)
        = damping_integrand R (tab ! ((?tt - 1 - index_tau) * ?th + ?dk))"
      using inb by (simp add: tab1_def)
    ultimately have "tg' ! index_tau = tau_table pth ! (?tt - 1 - index_tau)
        \<and> background_at_tau tools (tau_table pth ! (?tt - 1 - index_tau)) li = Inr (l1, pv)
        \<and> tab' ! (index_tau * ?th + ?dd) = damping_integrand
             (3 / 4 * pv ! index_bg_rho_b pba / pv ! index_bg_rho_g pba)
             (tab ! ((?tt - 1 - index_tau) * ?th + ?dk))"
      using tg1i bg unfolding R_def by simp
    then show ?thesis unfolding True by blast
  next
    case False
    with j have j': "index_tau + 1 \<le> j \<and> j < ?tt" by simp
    with IH have "tg' ! j = tau_table pth ! (?tt - 1 - j)
      \<and> (\<exists>l0 l1 pv. background_at_tau tools (tau_table pth ! (?tt - 1 - j)) l0 = Inr (l1, pv)
            \<and> tab' ! (j * ?th + ?dd) = damping_integrand
                 (3 / 4 * pv ! index_bg_rho_b pba / pv ! index_bg_rho_g pba)
                 (tab1 ! ((?tt - 1 - j) * ?th + ?dk)))"
      by blast
    then show ?thesis unfolding dk_same .
  qed
  have C: "tg' ! j = tg ! j" if "j < index_tau" for j
  proof -
    have "tg' ! j = tg1 ! j" using IH that by simp
    then show ?thesis using that by (simp add: tg1_def)
  qed
  have D: "tab' ! m = tab ! m"
    if m: "\<forall>j. index_tau \<le> j \<and> j < ?tt \<longrightarrow> m \<noteq> j * ?th + ?dd" for m
  proof -
    have "tab' ! m = tab1 ! m" using IH m by simp
    moreover have "m \<noteq> index_tau * ?th + ?dd" using m it by blast
    ultimately show ?thesis by (simp add: tab1_def)
  qed
  show ?case using A B C D by blast
qed


lemma damping_example_run:
  "case thermodynamics_calculate_damping_scale stub_table_tools class_constants
          example_background example_thermo 0 (replicate 2 0) of
     Inl e \<Rightarrow> False
   | Inr (li, pth') \<Rightarrow>
       thermodynamics_table pth' ! 25 = 2 * PI class_constants * sqrt (40 / 9)"
  by (simp add: thermodynamics_calculate_damping_scale_def damping_store_loop_def
      stub_table_tools_def example_thermo_def example_background_def numeral_2_eq_2
      Let_def)


text \<open>
  C7 as stated fails. On the table of two rows, with stand-ins that leave the column of
  the integral at zero, the entry of the last row (the initial time, where the integral
  from \<open>tau_ini\<close> to \<open>tau_ini\<close> is zero) is \<open>r_d = 2 pi sqrt(tau_ini/dkappa_ini 16/(15 6 3))\<close>:
  its square is three times what the formula of the specification gives, which divides
  \<open>tau_ini\<close> by \<open>3 dkappa_ini\<close> and by \<open>15 6 3\<close>.
\<close>

theorem r_d_squared_spec_counterexample:
  "(case thermodynamics_calculate_damping_scale stub_table_tools class_constants
           example_background example_thermo 0 (replicate 2 0) of
      Inl e \<Rightarrow> 0
    | Inr (li, pth') \<Rightarrow>
        (thermodynamics_table pth'
           ! (1 * th_size example_thermo + index_th_r_d example_thermo)) ^ 2)
   \<noteq> r_d_squared_spec class_constants (tau_table example_thermo ! 1)
       (thermodynamics_table example_thermo
          ! (1 * th_size example_thermo + index_th_dkappa example_thermo)) 0"
proof (cases "thermodynamics_calculate_damping_scale stub_table_tools class_constants
           example_background example_thermo 0 (replicate 2 0)")
  case (Inl e)
  with damping_example_run show ?thesis by simp
next
  case (Inr r)
  obtain li pth' where r: "r = (li, pth')" by (cases r)
  from damping_example_run Inr r
  have v: "thermodynamics_table pth' ! 25 = 2 * PI class_constants * sqrt (40 / 9)" by simp
  have i: "1 * th_size example_thermo + index_th_r_d example_thermo = 25"
    "1 * th_size example_thermo + index_th_dkappa example_thermo = 14"
    "tau_table example_thermo ! 1 = 300" "thermodynamics_table example_thermo ! 14 = 4"
    by (simp_all add: example_thermo_def)
  have P: "PI class_constants \<noteq> 0" by (simp add: class_constants_def)
  have l: "(2 * PI class_constants * sqrt (40 / 9)) ^ 2 = (PI class_constants) ^ 2 * (160 / 9)"
    by (simp add: power_mult_distrib)
  have rr: "r_d_squared_spec class_constants 300 4 0 = (PI class_constants) ^ 2 * (160 / 27)"
    by (simp add: r_d_squared_spec_def power_mult_distrib)
  show ?thesis
    unfolding Inr r i using P by (simp add: v l rr)
qed

text \<open>
  C7, amended. When \<open>compute_damping_scale\<close> is set and the calls succeed, the function
  succeeds, and: the abscissas handed to the spline routines are the conformal times in
  growing order; the integrand handed to them is, in every row, \<open>(1/(dkappa/dtau))
  ((R^2/(1+R) + 16/15)/(1+R)) (1/6)\<close> with \<open>R = (3/4) rho_b/rho_g\<close> from the background at
  that time; and every stored value is \<open>r_d = 2 pi sqrt(tau_ini/dkappa_ini 16/(15 6 3) +
  integral)\<close>, where \<open>integral\<close> is what the integration routine left for that time, so
  that \<open>r_d^2 = (2 pi)^2 (tau_ini/dkappa_ini 16/(15 6 3) + integral)\<close> whenever the sum is
  not negative. The first term is the boundary contribution \<open>tau_ini/(3 dkappa_ini)\<close> times
  \<open>16/(15 6)\<close>.
\<close>

theorem damping_scale_formula:
  assumes ok: "th_columns_ok pth" and ds: "compute_damping_scale pth"
    and ltg: "length tg0 = tt_size pth"
    and ltab: "tt_size pth * th_size pth \<le> length (thermodynamics_table pth)"
    and loop: "damping_integrand_loop tools pba pth 0 (tt_size pth) last_index_back tg0
        (thermodynamics_table pth) = Inr (li, tg, tab1)"
    and spl: "array_spline_table_line_to_line tools tg (tt_size pth) tab1 (th_size pth)
        (index_th_ddkappa pth) (index_th_dddkappa pth) (SPLINE_EST_DERIV k) = Inr tab2"
    and int: "array_integrate_spline_table_line_to_line tools tg (tt_size pth) tab2
        (th_size pth) (index_th_ddkappa pth) (index_th_dddkappa pth) (index_th_g pth)
        = Inr tab3"
    and ltab3: "tt_size pth * th_size pth \<le> length tab3"
  shows "\<exists>pth'. thermodynamics_calculate_damping_scale tools k pba pth last_index_back tg0
             = Inr (li, pth')
    \<and> (\<forall>j<tt_size pth.
          tg ! j = tau_table pth ! (tt_size pth - 1 - j)
          \<and> (\<exists>l0 l1 pv. background_at_tau tools (tg ! j) l0 = Inr (l1, pv)
               \<and> tab1 ! (j * th_size pth + index_th_ddkappa pth)
                   = damping_integrand
                       (3 / 4 * pv ! index_bg_rho_b pba / pv ! index_bg_rho_g pba)
                       (thermodynamics_table pth
                          ! ((tt_size pth - 1 - j) * th_size pth + index_th_dkappa pth))))
    \<and> (\<forall>i<tt_size pth.
          (let tau_ini = tau_table pth ! (tt_size pth - 1);
               dkappa_ini = tab3 ! ((tt_size pth - 1) * th_size pth + index_th_dkappa pth);
               integral = tab3 ! ((tt_size pth - 1 - i) * th_size pth + index_th_g pth);
               r_d = thermodynamics_table pth' ! (i * th_size pth + index_th_r_d pth)
           in r_d = 2 * PI k * sqrt (tau_ini / dkappa_ini * (16 / (15 * 6 * 3)) + integral)
            \<and> (0 \<le> tau_ini / dkappa_ini * (16 / (15 * 6 * 3)) + integral \<longrightarrow>
                 r_d ^ 2 = (2 * PI k) ^ 2
                            * (tau_ini / dkappa_ini * (16 / (15 * 6 * 3)) + integral))))"
proof -
  let ?tau_ini = "tau_table pth ! (tt_size pth - 1)"
  let ?dk_ini = "tab3 ! ((tt_size pth - 1) * th_size pth + index_th_dkappa pth)"
  let ?T = "damping_store_loop k pth ?tau_ini ?dk_ini tab3"
  let ?pth' = "pth\<lparr>thermodynamics_table := ?T\<rparr>"
  have res: "thermodynamics_calculate_damping_scale tools k pba pth last_index_back tg0
      = Inr (li, ?pth')"
    by (simp add: thermodynamics_calculate_damping_scale_def ds loop spl int Let_def)
  have p0: "0 + tt_size pth = tt_size pth" by simp
  note L = damping_integrand_loop_spec[OF ok p0 ltg ltab loop]
  have A: "tg ! j = tau_table pth ! (tt_size pth - 1 - j)
          \<and> (\<exists>l0 l1 pv. background_at_tau tools (tg ! j) l0 = Inr (l1, pv)
               \<and> tab1 ! (j * th_size pth + index_th_ddkappa pth)
                   = damping_integrand
                       (3 / 4 * pv ! index_bg_rho_b pba / pv ! index_bg_rho_g pba)
                       (thermodynamics_table pth
                          ! ((tt_size pth - 1 - j) * th_size pth + index_th_dkappa pth)))"
    if "j < tt_size pth" for j
  proof -
    from L that have t: "tg ! j = tau_table pth ! (tt_size pth - 1 - j)" by simp
    from L that have "\<exists>l0 l1 pv. background_at_tau tools (tau_table pth ! (tt_size pth - 1 - j)) l0
           = Inr (l1, pv)
         \<and> tab1 ! (j * th_size pth + index_th_ddkappa pth)
             = damping_integrand
                 (3 / 4 * pv ! index_bg_rho_b pba / pv ! index_bg_rho_g pba)
                 (thermodynamics_table pth
                    ! ((tt_size pth - 1 - j) * th_size pth + index_th_dkappa pth))"
      by simp
    with t show ?thesis by simp
  qed
  have B: "?T ! (i * th_size pth + index_th_r_d pth)
      = 2 * PI k * sqrt (?tau_ini / ?dk_ini * (16 / (15 * 6 * 3))
                           + tab3 ! ((tt_size pth - 1 - i) * th_size pth + index_th_g pth))"
    if "i < tt_size pth" for i
    using damping_store_loop_nth[OF ok ds ltab3 that, of k ?tau_ini ?dk_ini]
    by (simp add: mult.commute)
  have C: "(2 * PI k * sqrt x) ^ 2 = (2 * PI k) ^ 2 * x" if "0 \<le> x" for x
    using that by (simp add: power_mult_distrib)
  have P2: "\<forall>j<tt_size pth.
          tg ! j = tau_table pth ! (tt_size pth - 1 - j)
          \<and> (\<exists>l0 l1 pv. background_at_tau tools (tg ! j) l0 = Inr (l1, pv)
               \<and> tab1 ! (j * th_size pth + index_th_ddkappa pth)
                   = damping_integrand
                       (3 / 4 * pv ! index_bg_rho_b pba / pv ! index_bg_rho_g pba)
                       (thermodynamics_table pth
                          ! ((tt_size pth - 1 - j) * th_size pth + index_th_dkappa pth)))"
    using A by blast
  have P3: "\<forall>i<tt_size pth.
          (let tau_ini = tau_table pth ! (tt_size pth - 1);
               dkappa_ini = tab3 ! ((tt_size pth - 1) * th_size pth + index_th_dkappa pth);
               integral = tab3 ! ((tt_size pth - 1 - i) * th_size pth + index_th_g pth);
               r_d = thermodynamics_table ?pth' ! (i * th_size pth + index_th_r_d pth)
           in r_d = 2 * PI k * sqrt (tau_ini / dkappa_ini * (16 / (15 * 6 * 3)) + integral)
            \<and> (0 \<le> tau_ini / dkappa_ini * (16 / (15 * 6 * 3)) + integral \<longrightarrow>
                 r_d ^ 2 = (2 * PI k) ^ 2
                            * (tau_ini / dkappa_ini * (16 / (15 * 6 * 3)) + integral)))"
  proof (intro allI impI)
    fix i assume i: "i < tt_size pth"
    let ?X = "?tau_ini / ?dk_ini * (16 / (15 * 6 * 3))
                + tab3 ! ((tt_size pth - 1 - i) * th_size pth + index_th_g pth)"
    have sel: "thermodynamics_table ?pth' ! (i * th_size pth + index_th_r_d pth)
        = 2 * PI k * sqrt ?X"
      using B[OF i] by simp
    have sq: "0 \<le> ?X \<longrightarrow>
        (thermodynamics_table ?pth' ! (i * th_size pth + index_th_r_d pth)) ^ 2
          = (2 * PI k) ^ 2 * ?X"
      unfolding sel using C[of ?X] by blast
    show "let tau_ini = tau_table pth ! (tt_size pth - 1);
               dkappa_ini = tab3 ! ((tt_size pth - 1) * th_size pth + index_th_dkappa pth);
               integral = tab3 ! ((tt_size pth - 1 - i) * th_size pth + index_th_g pth);
               r_d = thermodynamics_table ?pth' ! (i * th_size pth + index_th_r_d pth)
           in r_d = 2 * PI k * sqrt (tau_ini / dkappa_ini * (16 / (15 * 6 * 3)) + integral)
            \<and> (0 \<le> tau_ini / dkappa_ini * (16 / (15 * 6 * 3)) + integral \<longrightarrow>
                 r_d ^ 2 = (2 * PI k) ^ 2
                            * (tau_ini / dkappa_ini * (16 / (15 * 6 * 3)) + integral))"
      unfolding Let_def using sel sq by blast
  qed
  show ?thesis
    using res P2 P3 by (intro exI[of _ ?pth']) blast
qed

lemma damping_example_loop:
  "damping_integrand_loop stub_table_tools example_background example_thermo 0
     (tt_size example_thermo) 0 (replicate 2 0) (thermodynamics_table example_thermo)
   = Inr (0, [300, 14000],
       (thermodynamics_table example_thermo)[2 := 67 / 1800, 15 := 67 / 900])"
  by (simp add: stub_table_tools_def example_thermo_def example_background_def numeral_2_eq_2
      Let_def)

theorem damping_scale_formula_witness:
  "th_columns_ok example_thermo \<and> compute_damping_scale example_thermo
   \<and> (\<exists>pth'. thermodynamics_calculate_damping_scale stub_table_tools class_constants
          example_background example_thermo 0 (replicate 2 0) = Inr (0, pth')
        \<and> thermodynamics_table pth' ! 25
            = 2 * PI class_constants * sqrt (300 / 4 * (16 / (15 * 6 * 3)) + 0)
        \<and> (thermodynamics_table pth' ! 25) ^ 2
            = (2 * PI class_constants) ^ 2 * (300 / 4 * (16 / (15 * 6 * 3)) + 0))"
proof -
  let ?tab1 = "(thermodynamics_table example_thermo)[2 := 67 / 1800, 15 := 67 / 900]"
  have ds: "compute_damping_scale example_thermo" by (simp add: example_thermo_def)
  have ltg: "length (replicate 2 (0::real)) = tt_size example_thermo"
    by (simp add: example_thermo_def)
  have ltab: "tt_size example_thermo * th_size example_thermo
      \<le> length (thermodynamics_table example_thermo)"
    by (simp add: example_thermo_def)
  have spl: "array_spline_table_line_to_line stub_table_tools [300, 14000]
      (tt_size example_thermo) ?tab1 (th_size example_thermo)
      (index_th_ddkappa example_thermo) (index_th_dddkappa example_thermo)
      (SPLINE_EST_DERIV class_constants) = Inr ?tab1"
    by (simp add: stub_table_tools_def)
  have int: "array_integrate_spline_table_line_to_line stub_table_tools [300, 14000]
      (tt_size example_thermo) ?tab1 (th_size example_thermo)
      (index_th_ddkappa example_thermo) (index_th_dddkappa example_thermo)
      (index_th_g example_thermo) = Inr ?tab1"
    by (simp add: stub_table_tools_def)
  have ltab3: "tt_size example_thermo * th_size example_thermo \<le> length ?tab1"
    by (simp add: example_thermo_def)
  from damping_scale_formula[OF th_columns_ok_example ds ltg ltab damping_example_loop
      spl int ltab3]
  obtain pth' where r: "thermodynamics_calculate_damping_scale stub_table_tools class_constants
          example_background example_thermo 0 (replicate 2 0) = Inr (0, pth')"
    and f: "\<forall>i<tt_size example_thermo.
          (let tau_ini = tau_table example_thermo ! (tt_size example_thermo - 1);
               dkappa_ini = ?tab1 ! ((tt_size example_thermo - 1) * th_size example_thermo
                                       + index_th_dkappa example_thermo);
               integral = ?tab1 ! ((tt_size example_thermo - 1 - i) * th_size example_thermo
                                       + index_th_g example_thermo);
               r_d = thermodynamics_table pth'
                       ! (i * th_size example_thermo + index_th_r_d example_thermo)
           in r_d = 2 * PI class_constants
                      * sqrt (tau_ini / dkappa_ini * (16 / (15 * 6 * 3)) + integral)
            \<and> (0 \<le> tau_ini / dkappa_ini * (16 / (15 * 6 * 3)) + integral \<longrightarrow>
                 r_d ^ 2 = (2 * PI class_constants) ^ 2
                            * (tau_ini / dkappa_ini * (16 / (15 * 6 * 3)) + integral)))"
    by blast
  have one: "1 < tt_size example_thermo" by (simp add: example_thermo_def)
  from f[rule_format, OF one]
  have "thermodynamics_table pth' ! 25
            = 2 * PI class_constants * sqrt (300 / 4 * (16 / (15 * 6 * 3)) + 0)
        \<and> (thermodynamics_table pth' ! 25) ^ 2
            = (2 * PI class_constants) ^ 2 * (300 / 4 * (16 / (15 * 6 * 3)) + 0)"
    by (auto simp add: Let_def example_thermo_def)
  with r th_columns_ok_example ds show ?thesis by blast
qed


section \<open>The shooting for the reionization redshift\<close>

text \<open>
  When the optical depth \<open>tau_reio\<close> is the input, the reionization redshift is found by
  bisection in \<^verbatim>\<open>thermodynamics_reionization_evolve_with_tau\<close>: each trial integrates the
  ionization history again and computes its optical depth with
  \<^verbatim>\<open>thermodynamics_reionization_get_tau\<close>.
\<close>

text \<open>
  The structure \<^verbatim>\<open>thermo_vector\<close>: the quantities that the evolver integrates, their
  derivatives, and the offsets of the three quantities in both arrays.
\<close>

record thermo_vector =
  tv_size :: nat
  index_Tmat :: nat
  index_x_He :: nat
  index_x_H :: nat
  y :: "real list"
  dy :: "real list"
  used_in_output :: "bool list"

text \<open>
  What \<^verbatim>\<open>thermodynamics_reionization_evolve_with_tau\<close> and the routines it calls reach
  through \<^verbatim>\<open>ptpaw\<close>: the thermodynamics structure \<open>pth\<close>, the reionization parameters
  \<open>ptw->ptrp\<close>, the vector \<open>ptw->ptdw->tv\<close> and the field \<open>ptw->reionization_optical_depth\<close>.
  The vector \<open>ptvs\<close> that the function saves in a local variable is no part of it: once
  \<open>ptw->ptdw->tv\<close> points to the temporary vector, no routine that is called can reach it.
\<close>

record shooting_workspace =
  ws_pth :: thermo
  ws_ptrp :: thermo_reionization_parameters
  ws_tv :: thermo_vector
  reionization_optical_depth :: real

text \<open>
  The two external routines of the shooting. \<open>generic_evolver\<close> is the integrator that
  \<open>ppr->evolver\<close> selects (\<^verbatim>\<open>evolver_rk\<close> or \<^verbatim>\<open>evolver_ndf15\<close>) together with the
  callbacks it is given; it receives \<open>mz_ini\<close>, \<open>mz_end\<close>, the output redshifts, their
  number, and the workspace, which holds the vector it integrates. The tolerances and
  the step size, constants of every call, are left to the parameter.
  \<^verbatim>\<open>array_integrate_all_spline_table_line_to_line\<close> returns the integral it writes through
  its pointer argument.
\<close>

record shooting_tools =
  generic_evolver ::
    "real \<Rightarrow> real \<Rightarrow> real list \<Rightarrow> nat \<Rightarrow> shooting_workspace \<Rightarrow> ErrorMsg + shooting_workspace"
  array_integrate_all_spline_table_line_to_line ::
    "real list \<Rightarrow> nat \<Rightarrow> real list \<Rightarrow> nat \<Rightarrow> nat \<Rightarrow> nat \<Rightarrow> ErrorMsg + real"

text \<open>
  The local variables of \<^verbatim>\<open>thermodynamics_reionization_evolve_with_tau\<close> that the loop
  updates, with the workspace. The loop and the function return them, so that a theorem
  can speak of the bracket and of the counter at the exit.
\<close>

record bisection =
  z_sup :: real
  z_inf :: real
  tau_sup :: real
  tau_inf :: real
  counter :: nat
  ptw :: shooting_workspace

text \<open>
  The search loop of \<^verbatim>\<open>thermodynamics_reionization_get_tau\<close> (lines 3570 to 3576), from
  the index \<open>i\<close>. The source reads \<open>z_table[i]\<close> before it compares \<open>i\<close> with \<open>tt_size\<close>;
  a read at \<open>i \<ge> tt_size\<close>, which only an empty table allows, is outside the array and is
  reported here as an error of its own.
\<close>

function get_tau_search :: "real list \<Rightarrow> nat \<Rightarrow> real \<Rightarrow> nat \<Rightarrow> ErrorMsg + nat" where
  "get_tau_search zt tt start i =
    (if tt \<le> i then Inl ''index outside the thermodynamics table''
     else if zt ! i < start then
       (if i + 1 = tt
        then Inl ''reionization_z_start_max = %e > largest redshift in thermodynamics table''
        else get_tau_search zt tt start (i + 1))
     else Inr i)"
  by pat_completeness auto
termination
  by (relation "measure (\<lambda>(zt, tt, start, i). tt - i)") auto

text \<open>
  \<^verbatim>\<open>thermodynamics_reionization_get_tau\<close> (lines 3560 to 3608).
\<close>

definition thermodynamics_reionization_get_tau ::
  "table_tools \<Rightarrow> shooting_tools \<Rightarrow> constants \<Rightarrow> shooting_workspace
    \<Rightarrow> ErrorMsg + shooting_workspace" where
  "thermodynamics_reionization_get_tau tt st k w =
    (let p = ws_pth w; ptrp = ws_ptrp w in
     case get_tau_search (z_table p) (tt_size p)
            (reionization_parameters ptrp ! index_reio_start ptrp) 0 of
       Inl e \<Rightarrow> Inl e
     | Inr integration_index \<Rightarrow>
        (case array_spline_table_line_to_line tt (tau_table p) integration_index
                (thermodynamics_table p) (th_size p) (index_th_dkappa p) (index_th_dddkappa p)
                (SPLINE_EST_DERIV k) of
           Inl e \<Rightarrow> Inl e
         | Inr table \<Rightarrow>
            (case array_integrate_all_spline_table_line_to_line st (tau_table p)
                    integration_index table (th_size p) (index_th_dkappa p)
                    (index_th_dddkappa p) of
               Inl e \<Rightarrow> Inl e
             | Inr tau \<Rightarrow>
                 Inr (w\<lparr>ws_pth := p\<lparr>thermodynamics_table := table\<rparr>,
                        reionization_optical_depth := tau * (- 1)\<rparr>))))"

text \<open>
  The six assignments that copy the three quantities and their derivatives from the
  saved vector \<open>ptvs\<close> into the temporary vector \<open>ptv\<close>, each at the offset of its own
  vector (lines 3383 to 3388, again 3451 to 3456 and 3501 to 3506).
\<close>

definition restore_initial_conditions :: "thermo_vector \<Rightarrow> thermo_vector \<Rightarrow> thermo_vector" where
  "restore_initial_conditions ptvs ptv =
    (let ptv = ptv\<lparr>y := (y ptv)[index_Tmat ptv := y ptvs ! index_Tmat ptvs]\<rparr>;
         ptv = ptv\<lparr>dy := (dy ptv)[index_Tmat ptv := dy ptvs ! index_Tmat ptvs]\<rparr>;
         ptv = ptv\<lparr>y := (y ptv)[index_x_H ptv := y ptvs ! index_x_H ptvs]\<rparr>;
         ptv = ptv\<lparr>dy := (dy ptv)[index_x_H ptv := dy ptvs ! index_x_H ptvs]\<rparr>;
         ptv = ptv\<lparr>y := (y ptv)[index_x_He ptv := y ptvs ! index_x_He ptvs]\<rparr>;
         ptv = ptv\<lparr>dy := (dy ptv)[index_x_He ptv := dy ptvs ! index_x_He ptvs]\<rparr>
     in ptv)"

text \<open>
  An assignment to one entry of \<open>ptw->ptrp->reionization_parameters\<close>.
\<close>

definition set_reionization_parameter ::
  "nat \<Rightarrow> real \<Rightarrow> shooting_workspace \<Rightarrow> shooting_workspace" where
  "set_reionization_parameter i v w =
    w\<lparr>ws_ptrp := (ws_ptrp w)\<lparr>reionization_parameters :=
        (reionization_parameters (ws_ptrp w))[i := v]\<rparr>\<rparr>"

text \<open>
  The body of the loop, first part (lines 3465 to 3472): the trial redshift and the
  starting redshift that follows from it.
\<close>

definition bisection_parameters :: "precision \<Rightarrow> real \<Rightarrow> shooting_workspace \<Rightarrow> shooting_workspace" where
  "bisection_parameters ppr z_mid w =
    (let w = set_reionization_parameter (index_reio_redshift (ws_ptrp w)) z_mid w;
         w = set_reionization_parameter (index_reio_start (ws_ptrp w))
               (reionization_parameters (ws_ptrp w) ! index_reio_redshift (ws_ptrp w)
                 + reionization_start_factor ppr * reionization_width (ws_pth w)) w;
         w = (if reionization_parameters (ws_ptrp w) ! index_reio_start (ws_ptrp w)
                  < helium_fullreio_redshift (ws_pth w)
                    + reionization_start_factor ppr * helium_fullreio_width (ws_pth w)
              then set_reionization_parameter (index_reio_start (ws_ptrp w))
                     (helium_fullreio_redshift (ws_pth w)
                       + reionization_start_factor ppr * helium_fullreio_width (ws_pth w)) w
              else w)
     in w)"

text \<open>
  The body of the loop, last part (lines 3515 to 3529): the half of the bracket that is
  kept, and the counter.
\<close>

definition bisection_update :: "real \<Rightarrow> shooting_workspace \<Rightarrow> bisection \<Rightarrow> bisection" where
  "bisection_update z_mid w b =
    (let tau_mid = reionization_optical_depth w;
         b = (if tau_mid > tau_reio (ws_pth w)
              then b\<lparr>z_sup := z_mid, tau_sup := tau_mid\<rparr>
              else b\<lparr>z_inf := z_mid, tau_inf := tau_mid\<rparr>)
     in b\<lparr>counter := counter b + 1, ptw := w\<rparr>)"

text \<open>
  The whole body of the loop (lines 3462 to 3532), with the two tests that can end the
  function inside it.
\<close>

definition bisection_trial ::
  "table_tools \<Rightarrow> shooting_tools \<Rightarrow> constants \<Rightarrow> precision \<Rightarrow> thermo_vector
    \<Rightarrow> real \<Rightarrow> real \<Rightarrow> real list \<Rightarrow> nat \<Rightarrow> bisection \<Rightarrow> ErrorMsg + bisection" where
  "bisection_trial tt st k ppr ptvs mz_ini mz_end mz_out Nz b =
    (let z_mid = 0.5 * (z_sup b + z_inf b);
         w = bisection_parameters ppr z_mid (ptw b)
     in if reionization_parameters (ws_ptrp w) ! index_reio_start (ws_ptrp w)
             > reionization_z_start_max ppr
        then Inl ''starting redshift for reionization > reionization_z_start_max = %e''
        else
          (case generic_evolver st mz_ini mz_end mz_out Nz w of
             Inl e \<Rightarrow> Inl e
           | Inr w \<Rightarrow>
              (let w = w\<lparr>ws_tv := restore_initial_conditions ptvs (ws_tv w)\<rparr> in
               case thermodynamics_reionization_get_tau tt st k w of
                 Inl e \<Rightarrow> Inl e
               | Inr w \<Rightarrow>
                  (let b = bisection_update z_mid w b
                   in if counter b > MAX_IT k
                      then Inl ''while searching for reionization_optical_depth, maximum number of iterations exceeded''
                      else Inr b))))"

text \<open>
  A pass through the body that does not fail increases the counter by one and leaves it
  at most \<open>_MAX_IT_\<close>: the measure of the loop.
\<close>

lemma bisection_trial_counter:
  assumes "bisection_trial tt st k ppr ptvs mz_ini mz_end mz_out Nz b = Inr b'"
  shows "counter b' = counter b + 1 \<and> counter b' \<le> MAX_IT k"
  using assms
  by (auto simp add: bisection_trial_def bisection_update_def Let_def
      split: if_splits sum.splits)

text \<open>
  The \<^verbatim>\<open>while\<close> loop (lines 3461 to 3533).
\<close>

function bisection_loop ::
  "table_tools \<Rightarrow> shooting_tools \<Rightarrow> constants \<Rightarrow> precision \<Rightarrow> thermo_vector
    \<Rightarrow> real \<Rightarrow> real \<Rightarrow> real list \<Rightarrow> nat \<Rightarrow> bisection \<Rightarrow> ErrorMsg + bisection" where
  "bisection_loop tt st k ppr ptvs mz_ini mz_end mz_out Nz b =
    (if tau_sup b - tau_inf b
          > tau_reio (ws_pth (ptw b)) * reionization_optical_depth_tol ppr
     then (case bisection_trial tt st k ppr ptvs mz_ini mz_end mz_out Nz b of
             Inl e \<Rightarrow> Inl e
           | Inr b' \<Rightarrow> bisection_loop tt st k ppr ptvs mz_ini mz_end mz_out Nz b')
     else Inr b)"
  by pat_completeness auto
termination
proof (relation "measure (\<lambda>(tt, st, k, ppr, ptvs, mz_ini, mz_end, mz_out, Nz, b).
                    MAX_IT k + 1 - counter b)", goal_cases)
  case 1
  show ?case by simp
next
  case (2 tt st k ppr ptvs mz_ini mz_end mz_out Nz b b')
  from bisection_trial_counter[OF 2(2)] show ?case by (simp, arith)
qed

text \<open>
  The temporary vector as lines 3364 to 3380 allocate it. The local variable \<open>index_tv\<close>
  is declared without a value (line 3337) and \<^verbatim>\<open>class_define_index\<close> reads it, whereas
  \<^verbatim>\<open>thermodynamics_vector_init\<close> sets its own to zero first (line 2507); the value it
  happens to hold is the parameter \<open>index_tv\<close>. The array \<open>y\<close> is cleared by
  \<^verbatim>\<open>class_calloc\<close>, the array \<open>dy\<close> is not: its contents are the parameter \<open>dy_alloc\<close>.
\<close>

definition temporary_vector :: "nat \<Rightarrow> (nat \<Rightarrow> real) \<Rightarrow> thermo_vector" where
  "temporary_vector index_tv dy_alloc =
    \<lparr>tv_size = index_tv + 3, index_Tmat = index_tv, index_x_He = index_tv + 1,
     index_x_H = index_tv + 2, y = replicate (index_tv + 3) 0,
     dy = map dy_alloc [0..<index_tv + 3],
     used_in_output = replicate (index_tv + 3) True\<rparr>"

text \<open>
  The end of the function (lines 3536 to 3542): the trial redshift of the last pass is
  stored in \<open>pth->z_reio\<close>, and the saved vector is put back into the workspace.
\<close>

definition store_z_reio :: "thermo_vector \<Rightarrow> shooting_workspace \<Rightarrow> shooting_workspace" where
  "store_z_reio ptvs w =
    (let w = w\<lparr>ws_pth := (ws_pth w)\<lparr>z_reio :=
                 reionization_parameters (ws_ptrp w) ! index_reio_redshift (ws_ptrp w)\<rparr>\<rparr>;
         w = w\<lparr>ws_tv := ptvs\<rparr>
     in w)"

text \<open>
  \<^verbatim>\<open>thermodynamics_reionization_evolve_with_tau\<close> (lines 3326 to 3547).
\<close>

definition thermodynamics_reionization_evolve_with_tau ::
  "table_tools \<Rightarrow> shooting_tools \<Rightarrow> constants \<Rightarrow> precision \<Rightarrow> nat \<Rightarrow> (nat \<Rightarrow> real)
    \<Rightarrow> real \<Rightarrow> real \<Rightarrow> real list \<Rightarrow> nat \<Rightarrow> shooting_workspace \<Rightarrow> ErrorMsg + bisection" where
  "thermodynamics_reionization_evolve_with_tau tt st k ppr index_tv dy_alloc
      mz_ini mz_end mz_out Nz w =
    (let ptvs = ws_tv w;
         ptv = temporary_vector index_tv dy_alloc;
         ptv = restore_initial_conditions ptvs ptv;
         w = w\<lparr>ws_tv := ptv\<rparr>;
         z_sup = reionization_z_start_max ppr
                   - reionization_start_factor ppr * reionization_width (ws_pth w)
     in if z_sup < 0
        then Inl ''parameters are such that reionization cannot take place before today while starting after z_start_max; need to increase z_start_max''
        else
          (let w = set_reionization_parameter (index_reio_redshift (ws_ptrp w)) z_sup w;
               w = set_reionization_parameter (index_reio_start (ws_ptrp w))
                     (reionization_z_start_max ppr) w
           in case generic_evolver st mz_ini mz_end mz_out Nz w of
                Inl e \<Rightarrow> Inl e
              | Inr w \<Rightarrow>
                 (case thermodynamics_reionization_get_tau tt st k w of
                    Inl e \<Rightarrow> Inl e
                  | Inr w \<Rightarrow>
                     (let tau_sup = reionization_optical_depth w in
                      if tau_sup < tau_reio (ws_pth w)
                      then Inl ''parameters are such that reionization cannot start after z_start_max''
                      else
                        (let z_inf = 0;
                             tau_inf = 0;
                             w = w\<lparr>ws_tv := restore_initial_conditions ptvs (ws_tv w)\<rparr>
                         in case bisection_loop tt st k ppr ptvs mz_ini mz_end mz_out Nz
                                   \<lparr>z_sup = z_sup, z_inf = z_inf, tau_sup = tau_sup,
                                    tau_inf = tau_inf, counter = 0, ptw = w\<rparr> of
                              Inl e \<Rightarrow> Inl e
                            | Inr b \<Rightarrow> Inr (b\<lparr>ptw := store_z_reio ptvs (ptw b)\<rparr>))))))"

text \<open>
  The tools whose evolver first copies the saved vector \<open>ptvs\<close> into the vector of the
  workspace and then integrates. That a run with them is the run with the tools
  themselves says that a second copy changes nothing; that the copy puts the saved
  values in place is the statement on \<open>refusing\<close> below.
\<close>

definition restoring :: "thermo_vector \<Rightarrow> shooting_tools \<Rightarrow> shooting_tools" where
  "restoring ptvs st =
    st\<lparr>generic_evolver := (\<lambda>mz_ini mz_end mz_out Nz w.
          generic_evolver st mz_ini mz_end mz_out Nz
            (w\<lparr>ws_tv := restore_initial_conditions ptvs (ws_tv w)\<rparr>))\<rparr>"

text \<open>
  An evolver keeps the reionization redshift when a run of it leaves the offsets of the
  reionization parameters, their number and the entry \<open>index_reio_redshift\<close> as they were.
  The callbacks of the source write to other entries only (line 2447).
\<close>

definition keeps_reio_redshift :: "shooting_tools \<Rightarrow> bool" where
  "keeps_reio_redshift st \<longleftrightarrow>
    (\<forall>mz_ini mz_end mz_out Nz w w'.
       generic_evolver st mz_ini mz_end mz_out Nz w = Inr w' \<longrightarrow>
         (\<exists>ps. ws_ptrp w' = (ws_ptrp w)\<lparr>reionization_parameters := ps\<rparr>
             \<and> length ps = length (reionization_parameters (ws_ptrp w))
             \<and> ps ! index_reio_redshift (ws_ptrp w)
                 = reionization_parameters (ws_ptrp w) ! index_reio_redshift (ws_ptrp w)))"

text \<open>
  An example: an evolver that writes the trial redshift into the first \<open>dkappa\<close> entry
  of the table and shifts the vector it integrates, and an integration that returns that
  entry, so that the optical depth of a trial is its redshift.
\<close>

definition stub_shooting_tools :: shooting_tools where
  "stub_shooting_tools =
    \<lparr>generic_evolver = (\<lambda>mz_ini mz_end mz_out Nz w.
        Inr (w\<lparr>ws_pth := (ws_pth w)\<lparr>thermodynamics_table :=
                 (thermodynamics_table (ws_pth w))[index_th_dkappa (ws_pth w) :=
                    reionization_parameters (ws_ptrp w) ! index_reio_redshift (ws_ptrp w)]\<rparr>,
               ws_tv := (ws_tv w)\<lparr>y := map (\<lambda>v. v + 1) (y (ws_tv w))\<rparr>\<rparr>)),
     array_integrate_all_spline_table_line_to_line = (\<lambda>xa n a nc iy iddy. Inr (- (a ! iy)))\<rparr>"

definition example_workspace :: shooting_workspace where
  "example_workspace =
    \<lparr>ws_pth = example_thermo\<lparr>tau_reio := 3\<rparr>,
     ws_ptrp = \<lparr>reionization_parameters = replicate 8 0, reio_num_z = 0, index_reio_start = 0,
                index_reio_redshift = 1, index_reio_first_z = 0, index_reio_first_xe = 0,
                index_reio_step_sharpness = 0\<rparr>,
     ws_tv = \<lparr>tv_size = 3, index_Tmat = 0, index_x_He = 1, index_x_H = 2,
              y = [2700, 1, 1], dy = [0, 0, 0], used_in_output = [True, True, True]\<rparr>,
     reionization_optical_depth = 0\<rparr>"

definition coarse_precision :: precision where
  "coarse_precision = low_z_initial_precision\<lparr>reionization_optical_depth_tol := 1\<rparr>"

declare get_tau_search.simps [simp del]
declare bisection_loop.simps [simp del]

lemma list_update_thrice_idem:
  "xs[i := a, j := b, l := c, i := a, j := b, l := c] = xs[i := a, j := b, l := c]"
proof (rule nth_equalityI)
  show "length (xs[i := a, j := b, l := c, i := a, j := b, l := c])
          = length (xs[i := a, j := b, l := c])"
    by simp
next
  fix n
  assume "n < length (xs[i := a, j := b, l := c, i := a, j := b, l := c])"
  hence n: "n < length xs" by simp
  show "xs[i := a, j := b, l := c, i := a, j := b, l := c] ! n = xs[i := a, j := b, l := c] ! n"
    using n by (cases "n = l"; cases "n = j"; cases "n = i"; simp)
qed

lemma restore_initial_conditions_idem:
  "restore_initial_conditions ptvs (restore_initial_conditions ptvs ptv)
     = restore_initial_conditions ptvs ptv"
  by (simp add: restore_initial_conditions_def Let_def list_update_thrice_idem)

lemma get_tau_frame:
  assumes "thermodynamics_reionization_get_tau tt st k w = Inr w'"
  shows "ws_tv w' = ws_tv w" and "ws_ptrp w' = ws_ptrp w"
    and "tau_reio (ws_pth w') = tau_reio (ws_pth w)"
  using assms
  by (auto simp add: thermodynamics_reionization_get_tau_def Let_def split: sum.splits)

lemma get_tau_restoring:
  "thermodynamics_reionization_get_tau tt (restoring ptvs st) k w
     = thermodynamics_reionization_get_tau tt st k w"
  by (simp add: thermodynamics_reionization_get_tau_def restoring_def Let_def
      cong: sum.case_cong)

lemma bisection_parameters_tv:
  "ws_tv (bisection_parameters ppr z w) = ws_tv w"
  by (simp add: bisection_parameters_def set_reionization_parameter_def Let_def)

lemma bisection_trial_cases:
  assumes "bisection_trial tt st k ppr ptvs mz_ini mz_end mz_out Nz b = Inr b'"
  obtains w1 w2 where
    "generic_evolver st mz_ini mz_end mz_out Nz
       (bisection_parameters ppr (0.5 * (z_sup b + z_inf b)) (ptw b)) = Inr w1"
    "thermodynamics_reionization_get_tau tt st k
       (w1\<lparr>ws_tv := restore_initial_conditions ptvs (ws_tv w1)\<rparr>) = Inr w2"
    "b' = bisection_update (0.5 * (z_sup b + z_inf b)) w2 b"
    "counter b + 1 \<le> MAX_IT k"
  using assms
  by (auto simp add: bisection_trial_def bisection_update_def Let_def
      split: if_splits sum.splits)

lemma bisection_trial_restored:
  assumes "bisection_trial tt st k ppr ptvs mz_ini mz_end mz_out Nz b = Inr b'"
  shows "restore_initial_conditions ptvs (ws_tv (ptw b')) = ws_tv (ptw b')"
proof -
  from assms obtain w1 w2 where
    g: "thermodynamics_reionization_get_tau tt st k
       (w1\<lparr>ws_tv := restore_initial_conditions ptvs (ws_tv w1)\<rparr>) = Inr w2"
    and b': "b' = bisection_update (0.5 * (z_sup b + z_inf b)) w2 b"
    by (rule bisection_trial_cases)
  from get_tau_frame(1)[OF g]
  have "ws_tv w2 = restore_initial_conditions ptvs (ws_tv w1)" by simp
  moreover have "ptw b' = w2" by (simp add: b' bisection_update_def Let_def)
  ultimately show ?thesis by (simp add: restore_initial_conditions_idem)
qed

lemma bisection_trial_restoring:
  assumes "restore_initial_conditions ptvs (ws_tv (ptw b)) = ws_tv (ptw b)"
  shows "bisection_trial tt (restoring ptvs st) k ppr ptvs mz_ini mz_end mz_out Nz b
           = bisection_trial tt st k ppr ptvs mz_ini mz_end mz_out Nz b"
proof -
  let ?w = "bisection_parameters ppr (0.5 * (z_sup b + z_inf b)) (ptw b)"
  have "?w\<lparr>ws_tv := restore_initial_conditions ptvs (ws_tv ?w)\<rparr> = ?w"
    by (simp add: bisection_parameters_tv assms)
  hence "generic_evolver (restoring ptvs st) mz_ini mz_end mz_out Nz ?w
           = generic_evolver st mz_ini mz_end mz_out Nz ?w"
    by (simp add: restoring_def)
  thus ?thesis
    by (simp add: bisection_trial_def Let_def get_tau_restoring cong: sum.case_cong)
qed

lemma bisection_loop_restoring:
  assumes "restore_initial_conditions ptvs (ws_tv (ptw b)) = ws_tv (ptw b)"
  shows "bisection_loop tt (restoring ptvs st) k ppr ptvs mz_ini mz_end mz_out Nz b
           = bisection_loop tt st k ppr ptvs mz_ini mz_end mz_out Nz b"
  using assms
proof (induction tt st k ppr ptvs mz_ini mz_end mz_out Nz b rule: bisection_loop.induct)
  case (1 tt st k ppr ptvs mz_ini mz_end mz_out Nz b)
  note tr = bisection_trial_restoring[OF "1.prems", of tt st k ppr mz_ini mz_end mz_out Nz]
  show ?case
  proof (cases "tau_sup b - tau_inf b
          > tau_reio (ws_pth (ptw b)) * reionization_optical_depth_tol ppr")
    case False
    thus ?thesis
      by (simp add: bisection_loop.simps[of _ _ _ _ _ _ _ _ _ b])
  next
    case True
    show ?thesis
    proof (cases "bisection_trial tt st k ppr ptvs mz_ini mz_end mz_out Nz b")
      case (Inl e)
      thus ?thesis
        using True tr
        by (simp add: bisection_loop.simps[of _ _ _ _ _ _ _ _ _ b])
    next
      case (Inr b')
      from "1.IH"[OF True Inr bisection_trial_restored[OF Inr]]
      show ?thesis
        using True tr Inr
        by (simp add: bisection_loop.simps[of _ _ _ _ _ _ _ _ _ b])
    qed
  qed
qed

lemma bisection_loop_converged:
  assumes "bisection_loop tt st k ppr ptvs mz_ini mz_end mz_out Nz b = Inr b'"
  shows "tau_sup b' - tau_inf b'
           \<le> tau_reio (ws_pth (ptw b')) * reionization_optical_depth_tol ppr"
  using assms
proof (induction tt st k ppr ptvs mz_ini mz_end mz_out Nz b rule: bisection_loop.induct)
  case (1 tt st k ppr ptvs mz_ini mz_end mz_out Nz b)
  show ?case
  proof (cases "tau_sup b - tau_inf b
          > tau_reio (ws_pth (ptw b)) * reionization_optical_depth_tol ppr")
    case False
    with "1.prems" show ?thesis
      by (simp add: bisection_loop.simps[of _ _ _ _ _ _ _ _ _ b])
  next
    case True
    with "1.prems" obtain b1 where
      t: "bisection_trial tt st k ppr ptvs mz_ini mz_end mz_out Nz b = Inr b1"
      and l: "bisection_loop tt st k ppr ptvs mz_ini mz_end mz_out Nz b1 = Inr b'"
      by (auto simp add: bisection_loop.simps[of _ _ _ _ _ _ _ _ _ b] split: sum.splits)
    from "1.IH"[OF True t l] show ?thesis .
  qed
qed

lemma bisection_loop_counter:
  assumes "bisection_loop tt st k ppr ptvs mz_ini mz_end mz_out Nz b = Inr b'"
  shows "counter b' = counter b \<or> counter b' \<le> MAX_IT k"
  using assms
proof (induction tt st k ppr ptvs mz_ini mz_end mz_out Nz b rule: bisection_loop.induct)
  case (1 tt st k ppr ptvs mz_ini mz_end mz_out Nz b)
  show ?case
  proof (cases "tau_sup b - tau_inf b
          > tau_reio (ws_pth (ptw b)) * reionization_optical_depth_tol ppr")
    case False
    with "1.prems" show ?thesis
      by (simp add: bisection_loop.simps[of _ _ _ _ _ _ _ _ _ b])
  next
    case True
    with "1.prems" obtain b1 where
      t: "bisection_trial tt st k ppr ptvs mz_ini mz_end mz_out Nz b = Inr b1"
      and l: "bisection_loop tt st k ppr ptvs mz_ini mz_end mz_out Nz b1 = Inr b'"
      by (auto simp add: bisection_loop.simps[of _ _ _ _ _ _ _ _ _ b] split: sum.splits)
    from "1.IH"[OF True t l] bisection_trial_counter[OF t] show ?thesis by auto
  qed
qed

lemma bisection_trial_bracket:
  assumes "bisection_trial tt st k ppr ptvs mz_ini mz_end mz_out Nz b = Inr b'"
    and "z_inf b \<le> z_sup b"
  shows "z_inf b \<le> z_inf b' \<and> z_inf b' \<le> z_sup b' \<and> z_sup b' \<le> z_sup b"
proof -
  from assms(1) obtain w2 where
    b': "b' = bisection_update (0.5 * (z_sup b + z_inf b)) w2 b"
    by (rule bisection_trial_cases)
  show ?thesis
    using assms(2) by (auto simp add: b' bisection_update_def Let_def)
qed

lemma bisection_loop_bracket:
  assumes "bisection_loop tt st k ppr ptvs mz_ini mz_end mz_out Nz b = Inr b'"
    and "z_inf b \<le> z_sup b"
  shows "z_inf b \<le> z_inf b' \<and> z_inf b' \<le> z_sup b' \<and> z_sup b' \<le> z_sup b"
  using assms
proof (induction tt st k ppr ptvs mz_ini mz_end mz_out Nz b rule: bisection_loop.induct)
  case (1 tt st k ppr ptvs mz_ini mz_end mz_out Nz b)
  show ?case
  proof (cases "tau_sup b - tau_inf b
          > tau_reio (ws_pth (ptw b)) * reionization_optical_depth_tol ppr")
    case False
    with "1.prems" show ?thesis
      by (simp add: bisection_loop.simps[of _ _ _ _ _ _ _ _ _ b])
  next
    case True
    with "1.prems" obtain b1 where
      t: "bisection_trial tt st k ppr ptvs mz_ini mz_end mz_out Nz b = Inr b1"
      and l: "bisection_loop tt st k ppr ptvs mz_ini mz_end mz_out Nz b1 = Inr b'"
      by (auto simp add: bisection_loop.simps[of _ _ _ _ _ _ _ _ _ b] split: sum.splits)
    note s = bisection_trial_bracket[OF t "1.prems"(2)]
    from s have "z_inf b1 \<le> z_sup b1" by simp
    from "1.IH"[OF True t l this] s show ?thesis by linarith
  qed
qed

lemma bisection_loop_capped:
  assumes "MAX_IT k \<le> counter b"
    and "tau_sup b - tau_inf b
          > tau_reio (ws_pth (ptw b)) * reionization_optical_depth_tol ppr"
  shows "isl (bisection_loop tt st k ppr ptvs mz_ini mz_end mz_out Nz b)"
proof (cases "bisection_trial tt st k ppr ptvs mz_ini mz_end mz_out Nz b")
  case (Inl e)
  with assms(2) show ?thesis
    by (simp add: bisection_loop.simps[of _ _ _ _ _ _ _ _ _ b])
next
  case (Inr b')
  from bisection_trial_counter[OF Inr] assms(1) have False by simp
  thus ?thesis ..
qed


text \<open>
  The invariant of the loop for the stored redshift: the entry \<open>index_reio_redshift\<close> is
  inside the parameter array, apart from the entry \<open>index_reio_start\<close>, and holds one of
  the two ends of the bracket.
\<close>

definition redshift_is_endpoint :: "bisection \<Rightarrow> bool" where
  "redshift_is_endpoint b \<longleftrightarrow>
    (let r = ws_ptrp (ptw b); i = index_reio_redshift r
     in i < length (reionization_parameters r) \<and> i \<noteq> index_reio_start r
        \<and> (reionization_parameters r ! i = z_sup b \<or> reionization_parameters r ! i = z_inf b))"

lemma bisection_parameters_redshift:
  assumes "index_reio_redshift (ws_ptrp w) < length (reionization_parameters (ws_ptrp w))"
    and "index_reio_redshift (ws_ptrp w) \<noteq> index_reio_start (ws_ptrp w)"
  shows "\<exists>ps. ws_ptrp (bisection_parameters ppr z w)
                = (ws_ptrp w)\<lparr>reionization_parameters := ps\<rparr>
           \<and> length ps = length (reionization_parameters (ws_ptrp w))
           \<and> ps ! index_reio_redshift (ws_ptrp w) = z"
  using assms
  by (auto simp add: bisection_parameters_def set_reionization_parameter_def Let_def)

lemma bisection_trial_endpoint:
  assumes k: "keeps_reio_redshift st"
    and t: "bisection_trial tt st k ppr ptvs mz_ini mz_end mz_out Nz b = Inr b'"
    and e: "redshift_is_endpoint b"
  shows "redshift_is_endpoint b'"
proof -
  define zm where "zm = 0.5 * (z_sup b + z_inf b)"
  define w0 where "w0 = bisection_parameters ppr zm (ptw b)"
  let ?r = "ws_ptrp (ptw b)"
  from t obtain w1 w2 where
    ev: "generic_evolver st mz_ini mz_end mz_out Nz w0 = Inr w1"
    and g: "thermodynamics_reionization_get_tau tt st k
       (w1\<lparr>ws_tv := restore_initial_conditions ptvs (ws_tv w1)\<rparr>) = Inr w2"
    and b': "b' = bisection_update zm w2 b"
    unfolding w0_def zm_def by (rule bisection_trial_cases)
  from e have i: "index_reio_redshift ?r < length (reionization_parameters ?r)"
    and d: "index_reio_redshift ?r \<noteq> index_reio_start ?r"
    by (simp_all add: redshift_is_endpoint_def Let_def)
  from bisection_parameters_redshift[OF i d, of ppr zm] obtain ps where
    p0: "ws_ptrp w0 = ?r\<lparr>reionization_parameters := ps\<rparr>"
    and l0: "length ps = length (reionization_parameters ?r)"
    and v0: "ps ! index_reio_redshift ?r = zm"
    unfolding w0_def by blast
  from k ev obtain ps1 where
    p1: "ws_ptrp w1 = (ws_ptrp w0)\<lparr>reionization_parameters := ps1\<rparr>"
    and l1: "length ps1 = length (reionization_parameters (ws_ptrp w0))"
    and v1: "ps1 ! index_reio_redshift (ws_ptrp w0)
               = reionization_parameters (ws_ptrp w0) ! index_reio_redshift (ws_ptrp w0)"
    unfolding keeps_reio_redshift_def by blast
  from get_tau_frame(2)[OF g] have p2: "ws_ptrp w2 = ws_ptrp w1" by simp
  have r2: "ws_ptrp w2 = ?r\<lparr>reionization_parameters := ps1\<rparr>"
    by (simp add: p2 p1 p0)
  have l2: "length ps1 = length (reionization_parameters ?r)"
    using l1 l0 by (simp add: p0)
  have v2: "ps1 ! index_reio_redshift ?r = zm"
    using v1 v0 by (simp add: p0)
  have w: "ptw b' = w2"
    by (simp add: b' bisection_update_def Let_def)
  have z: "z_sup b' = zm \<or> z_inf b' = zm"
    by (simp add: b' bisection_update_def Let_def)
  show ?thesis
    using i d l2 v2 z
    by (auto simp add: redshift_is_endpoint_def Let_def w r2)
qed

lemma bisection_loop_endpoint:
  assumes "keeps_reio_redshift st"
    and "bisection_loop tt st k ppr ptvs mz_ini mz_end mz_out Nz b = Inr b'"
    and "redshift_is_endpoint b"
  shows "redshift_is_endpoint b'"
  using assms
proof (induction tt st k ppr ptvs mz_ini mz_end mz_out Nz b rule: bisection_loop.induct)
  case (1 tt st k ppr ptvs mz_ini mz_end mz_out Nz b)
  show ?case
  proof (cases "tau_sup b - tau_inf b
          > tau_reio (ws_pth (ptw b)) * reionization_optical_depth_tol ppr")
    case False
    with "1.prems" show ?thesis
      by (simp add: bisection_loop.simps[of _ _ _ _ _ _ _ _ _ b])
  next
    case True
    with "1.prems" obtain b1 where
      t: "bisection_trial tt st k ppr ptvs mz_ini mz_end mz_out Nz b = Inr b1"
      and l: "bisection_loop tt st k ppr ptvs mz_ini mz_end mz_out Nz b1 = Inr b'"
      by (auto simp add: bisection_loop.simps[of _ _ _ _ _ _ _ _ _ b] split: sum.splits)
    from "1.IH"[OF True t "1.prems"(1) l
        bisection_trial_endpoint[OF "1.prems"(1) t "1.prems"(3)]]
    show ?thesis .
  qed
qed

lemma evolve_with_tau_cases:
  assumes "thermodynamics_reionization_evolve_with_tau tt st k ppr index_tv dy_alloc
             mz_ini mz_end mz_out Nz w = Inr bf"
  obtains w0 w1 w2 b where
    "w0 = set_reionization_parameter (index_reio_start (ws_ptrp w)) (reionization_z_start_max ppr)
            (set_reionization_parameter (index_reio_redshift (ws_ptrp w))
               (reionization_z_start_max ppr
                  - reionization_start_factor ppr * reionization_width (ws_pth w))
               (w\<lparr>ws_tv := restore_initial_conditions (ws_tv w)
                               (temporary_vector index_tv dy_alloc)\<rparr>))"
    "0 \<le> reionization_z_start_max ppr
            - reionization_start_factor ppr * reionization_width (ws_pth w)"
    "generic_evolver st mz_ini mz_end mz_out Nz w0 = Inr w1"
    "thermodynamics_reionization_get_tau tt st k w1 = Inr w2"
    "bisection_loop tt st k ppr (ws_tv w) mz_ini mz_end mz_out Nz
       \<lparr>z_sup = reionization_z_start_max ppr
                  - reionization_start_factor ppr * reionization_width (ws_pth w),
        z_inf = 0, tau_sup = reionization_optical_depth w2, tau_inf = 0, counter = 0,
        ptw = w2\<lparr>ws_tv := restore_initial_conditions (ws_tv w) (ws_tv w2)\<rparr>\<rparr> = Inr b"
    "bf = b\<lparr>ptw := store_z_reio (ws_tv w) (ptw b)\<rparr>"
  using assms
  by (auto simp add: thermodynamics_reionization_evolve_with_tau_def Let_def
        set_reionization_parameter_def
      split: if_splits sum.splits)

lemma generic_evolver_restoring:
  assumes "restore_initial_conditions ptvs (ws_tv w) = ws_tv w"
  shows "generic_evolver (restoring ptvs st) mz_ini mz_end mz_out Nz w
           = generic_evolver st mz_ini mz_end mz_out Nz w"
proof -
  have "w\<lparr>ws_tv := restore_initial_conditions ptvs (ws_tv w)\<rparr> = w"
    by (simp add: assms)
  thus ?thesis by (simp add: restoring_def)
qed

lemma evolve_with_tau_restoring:
  "thermodynamics_reionization_evolve_with_tau tt (restoring (ws_tv w) st) k ppr index_tv
       dy_alloc mz_ini mz_end mz_out Nz w
     = thermodynamics_reionization_evolve_with_tau tt st k ppr index_tv
         dy_alloc mz_ini mz_end mz_out Nz w"
proof -
  have first: "generic_evolver (restoring (ws_tv w) st) mz_ini mz_end mz_out Nz
                  (set_reionization_parameter i u (set_reionization_parameter j v
                     (w\<lparr>ws_tv := restore_initial_conditions (ws_tv w) ptv\<rparr>)))
             = generic_evolver st mz_ini mz_end mz_out Nz
                  (set_reionization_parameter i u (set_reionization_parameter j v
                     (w\<lparr>ws_tv := restore_initial_conditions (ws_tv w) ptv\<rparr>)))"
    for i u j v ptv
    by (rule generic_evolver_restoring)
       (simp add: set_reionization_parameter_def restore_initial_conditions_idem)
  have loop: "bisection_loop tt (restoring (ws_tv w) st) k ppr (ws_tv w) mz_ini mz_end mz_out Nz
                 \<lparr>z_sup = a, z_inf = c, tau_sup = d, tau_inf = e, counter = n,
                  ptw = w'\<lparr>ws_tv := restore_initial_conditions (ws_tv w) (ws_tv w')\<rparr>\<rparr>
            = bisection_loop tt st k ppr (ws_tv w) mz_ini mz_end mz_out Nz
                 \<lparr>z_sup = a, z_inf = c, tau_sup = d, tau_inf = e, counter = n,
                  ptw = w'\<lparr>ws_tv := restore_initial_conditions (ws_tv w) (ws_tv w')\<rparr>\<rparr>"
    for a c d e n w'
    by (rule bisection_loop_restoring) (simp add: restore_initial_conditions_idem)
  show ?thesis
    by (simp add: thermodynamics_reionization_evolve_with_tau_def Let_def first loop
        get_tau_restoring cong: sum.case_cong if_cong)
qed

lemma evolve_with_tau_result:
  assumes r: "thermodynamics_reionization_evolve_with_tau tt st k ppr index_tv dy_alloc
             mz_ini mz_end mz_out Nz w = Inr bf"
  shows "tau_sup bf - tau_inf bf
           \<le> tau_reio (ws_pth (ptw bf)) * reionization_optical_depth_tol ppr"
    and "counter bf \<le> MAX_IT k"
    and "0 \<le> z_inf bf" and "z_inf bf \<le> z_sup bf"
    and "z_sup bf \<le> reionization_z_start_max ppr
            - reionization_start_factor ppr * reionization_width (ws_pth w)"
    and "z_reio (ws_pth (ptw bf))
           = reionization_parameters (ws_ptrp (ptw bf)) ! index_reio_redshift (ws_ptrp (ptw bf))"
    and "ws_tv (ptw bf) = ws_tv w"
proof -
  let ?z = "reionization_z_start_max ppr
            - reionization_start_factor ppr * reionization_width (ws_pth w)"
  from r obtain w2 b where
    z: "0 \<le> ?z"
    and l: "bisection_loop tt st k ppr (ws_tv w) mz_ini mz_end mz_out Nz
       \<lparr>z_sup = ?z, z_inf = 0, tau_sup = reionization_optical_depth w2, tau_inf = 0,
        counter = 0,
        ptw = w2\<lparr>ws_tv := restore_initial_conditions (ws_tv w) (ws_tv w2)\<rparr>\<rparr> = Inr b"
    and bf: "bf = b\<lparr>ptw := store_z_reio (ws_tv w) (ptw b)\<rparr>"
    by (rule evolve_with_tau_cases)
  from bisection_loop_converged[OF l]
  show "tau_sup bf - tau_inf bf
           \<le> tau_reio (ws_pth (ptw bf)) * reionization_optical_depth_tol ppr"
    by (simp add: bf store_z_reio_def Let_def)
  from bisection_loop_counter[OF l] show "counter bf \<le> MAX_IT k"
    by (auto simp add: bf)
  from bisection_loop_bracket[OF l] z
  show "0 \<le> z_inf bf" and "z_inf bf \<le> z_sup bf" and "z_sup bf \<le> ?z"
    by (simp_all add: bf)
  show "z_reio (ws_pth (ptw bf))
           = reionization_parameters (ws_ptrp (ptw bf)) ! index_reio_redshift (ws_ptrp (ptw bf))"
    by (simp add: bf store_z_reio_def Let_def)
  show "ws_tv (ptw bf) = ws_tv w"
    by (simp add: bf store_z_reio_def Let_def)
qed

lemma evolve_with_tau_endpoint:
  assumes r: "thermodynamics_reionization_evolve_with_tau tt st k ppr index_tv dy_alloc
             mz_ini mz_end mz_out Nz w = Inr bf"
    and k: "keeps_reio_redshift st"
    and i: "index_reio_redshift (ws_ptrp w) < length (reionization_parameters (ws_ptrp w))"
    and d: "index_reio_redshift (ws_ptrp w) \<noteq> index_reio_start (ws_ptrp w)"
  shows "z_reio (ws_pth (ptw bf)) = z_sup bf \<or> z_reio (ws_pth (ptw bf)) = z_inf bf"
proof -
  let ?z = "reionization_z_start_max ppr
            - reionization_start_factor ppr * reionization_width (ws_pth w)"
  let ?r = "ws_ptrp w"
  from r obtain w0 w1 w2 b where
    w0: "w0 = set_reionization_parameter (index_reio_start ?r) (reionization_z_start_max ppr)
            (set_reionization_parameter (index_reio_redshift ?r) ?z
               (w\<lparr>ws_tv := restore_initial_conditions (ws_tv w)
                               (temporary_vector index_tv dy_alloc)\<rparr>))"
    and ev: "generic_evolver st mz_ini mz_end mz_out Nz w0 = Inr w1"
    and g: "thermodynamics_reionization_get_tau tt st k w1 = Inr w2"
    and l: "bisection_loop tt st k ppr (ws_tv w) mz_ini mz_end mz_out Nz
       \<lparr>z_sup = ?z, z_inf = 0, tau_sup = reionization_optical_depth w2, tau_inf = 0,
        counter = 0,
        ptw = w2\<lparr>ws_tv := restore_initial_conditions (ws_tv w) (ws_tv w2)\<rparr>\<rparr> = Inr b"
    and bf: "bf = b\<lparr>ptw := store_z_reio (ws_tv w) (ptw b)\<rparr>"
    by (rule evolve_with_tau_cases)
  have p0: "ws_ptrp w0 = ?r\<lparr>reionization_parameters :=
               (reionization_parameters ?r)[index_reio_redshift ?r := ?z,
                  index_reio_start ?r := reionization_z_start_max ppr]\<rparr>"
    by (simp add: w0 set_reionization_parameter_def)
  from k ev obtain ps1 where
    p1: "ws_ptrp w1 = (ws_ptrp w0)\<lparr>reionization_parameters := ps1\<rparr>"
    and l1: "length ps1 = length (reionization_parameters (ws_ptrp w0))"
    and v1: "ps1 ! index_reio_redshift (ws_ptrp w0)
               = reionization_parameters (ws_ptrp w0) ! index_reio_redshift (ws_ptrp w0)"
    unfolding keeps_reio_redshift_def by blast
  from get_tau_frame(2)[OF g] have p2: "ws_ptrp w2 = ws_ptrp w1" .
  have r2: "ws_ptrp w2 = ?r\<lparr>reionization_parameters := ps1\<rparr>"
    by (simp add: p2 p1 p0)
  have l2: "length ps1 = length (reionization_parameters ?r)"
    using l1 by (simp add: p0)
  have v2: "ps1 ! index_reio_redshift ?r = ?z"
    using v1 i d by (simp add: p0)
  have "redshift_is_endpoint
       \<lparr>z_sup = ?z, z_inf = 0, tau_sup = reionization_optical_depth w2, tau_inf = 0,
        counter = 0,
        ptw = w2\<lparr>ws_tv := restore_initial_conditions (ws_tv w) (ws_tv w2)\<rparr>\<rparr>"
    using i d l2 v2 by (simp add: redshift_is_endpoint_def Let_def r2)
  from bisection_loop_endpoint[OF k l this]
  show ?thesis
    by (auto simp add: redshift_is_endpoint_def Let_def bf store_z_reio_def)
qed

lemma stub_keeps_reio_redshift: "keeps_reio_redshift stub_shooting_tools"
proof -
  have "\<exists>ps. ws_ptrp w = (ws_ptrp w)\<lparr>reionization_parameters := ps\<rparr>
           \<and> length ps = length (reionization_parameters (ws_ptrp w))
           \<and> ps ! index_reio_redshift (ws_ptrp w)
               = reionization_parameters (ws_ptrp w) ! index_reio_redshift (ws_ptrp w)"
    for w :: shooting_workspace
    by (rule exI[of _ "reionization_parameters (ws_ptrp w)"]) simp
  thus ?thesis
    by (auto simp add: keeps_reio_redshift_def stub_shooting_tools_def)
qed


text \<open>
  A state of the loop whose counter has reached \<open>_MAX_IT_\<close> while the bracket is wide.
\<close>

definition capped_bisection :: bisection where
  "capped_bisection =
    \<lparr>z_sup = 46, z_inf = 0, tau_sup = 46, tau_inf = 0, counter = 10000,
     ptw = example_workspace\<rparr>"

lemma example_run:
  "\<exists>b. thermodynamics_reionization_evolve_with_tau stub_table_tools stub_shooting_tools
          class_constants coarse_precision 0 (\<lambda>i. 0) (- 4000) 0 [- 50, 0] 2 example_workspace
        = Inr b
      \<and> counter b = 4 \<and> z_sup b = 23 / 4 \<and> z_inf b = 23 / 8
      \<and> z_reio (ws_pth (ptw b)) = 23 / 8 \<and> tau_reio (ws_pth (ptw b)) = 3"
  by (simp add: thermodynamics_reionization_evolve_with_tau_def temporary_vector_def
      store_z_reio_def restore_initial_conditions_def set_reionization_parameter_def
      thermodynamics_reionization_get_tau_def get_tau_search.simps
      bisection_loop.simps bisection_trial_def bisection_parameters_def bisection_update_def
      stub_shooting_tools_def stub_table_tools_def example_workspace_def example_thermo_def
      coarse_precision_def low_z_initial_precision_def class_constants_def Let_def)

text \<open>
  The vector \<open>ptv\<close> holds the saved values: each of the three quantities and its
  derivative, read at the offset of \<open>ptv\<close>, is the entry of the saved vector \<open>ptvs\<close> at the
  offset of \<open>ptvs\<close>.
\<close>

definition starts_from :: "thermo_vector \<Rightarrow> thermo_vector \<Rightarrow> bool" where
  "starts_from ptvs ptv \<longleftrightarrow>
     y ptv ! index_Tmat ptv = y ptvs ! index_Tmat ptvs
     \<and> dy ptv ! index_Tmat ptv = dy ptvs ! index_Tmat ptvs
     \<and> y ptv ! index_x_H ptv = y ptvs ! index_x_H ptvs
     \<and> dy ptv ! index_x_H ptv = dy ptvs ! index_x_H ptvs
     \<and> y ptv ! index_x_He ptv = y ptvs ! index_x_He ptvs
     \<and> dy ptv ! index_x_He ptv = dy ptvs ! index_x_He ptvs"

text \<open>
  The three offsets of a vector are distinct and inside both of its arrays, as
  \<^verbatim>\<open>class_define_index\<close> and the allocations of lines 3366 to 3376 lay them out.
\<close>

definition vector_layout_ok :: "thermo_vector \<Rightarrow> bool" where
  "vector_layout_ok ptv \<longleftrightarrow>
     index_Tmat ptv \<noteq> index_x_H ptv \<and> index_Tmat ptv \<noteq> index_x_He ptv
     \<and> index_x_H ptv \<noteq> index_x_He ptv
     \<and> index_Tmat ptv < length (y ptv) \<and> index_x_H ptv < length (y ptv)
     \<and> index_x_He ptv < length (y ptv)
     \<and> index_Tmat ptv < length (dy ptv) \<and> index_x_H ptv < length (dy ptv)
     \<and> index_x_He ptv < length (dy ptv)"

text \<open>
  An evolver keeps the layout of the vector when a run of it on a vector with distinct
  offsets inside the arrays returns such a vector: it writes to the entries, not to the
  offsets or to the sizes.
\<close>

definition keeps_vector_layout :: "shooting_tools \<Rightarrow> bool" where
  "keeps_vector_layout st \<longleftrightarrow>
    (\<forall>mz_ini mz_end mz_out Nz w w'.
       generic_evolver st mz_ini mz_end mz_out Nz w = Inr w' \<and> vector_layout_ok (ws_tv w)
         \<longrightarrow> vector_layout_ok (ws_tv w'))"

text \<open>
  An evolver keeps the target when a run of it leaves \<open>pth->tau_reio\<close> as it was.
\<close>

definition keeps_tau_reio :: "shooting_tools \<Rightarrow> bool" where
  "keeps_tau_reio st \<longleftrightarrow>
    (\<forall>mz_ini mz_end mz_out Nz w w'.
       generic_evolver st mz_ini mz_end mz_out Nz w = Inr w'
         \<longrightarrow> tau_reio (ws_pth w') = tau_reio (ws_pth w))"

text \<open>
  The tools whose evolver refuses, with the error \<open>msg\<close>, a workspace whose vector does not
  hold the saved values of \<open>ptvs\<close>. If some integration of a run started from other
  values, the run with these tools would end with \<open>msg\<close>, whatever \<open>msg\<close> is chosen.
\<close>

definition refusing :: "ErrorMsg \<Rightarrow> thermo_vector \<Rightarrow> shooting_tools \<Rightarrow> shooting_tools" where
  "refusing msg ptvs st =
    st\<lparr>generic_evolver := (\<lambda>mz_ini mz_end mz_out Nz w.
          if starts_from ptvs (ws_tv w) then generic_evolver st mz_ini mz_end mz_out Nz w
          else Inl msg)\<rparr>"

text \<open>
  The six assignments put the saved values in place and leave the layout as it is.
\<close>

lemma restore_initial_conditions_layout:
  assumes "vector_layout_ok ptv"
  shows "vector_layout_ok (restore_initial_conditions ptvs ptv)"
  using assms by (simp add: vector_layout_ok_def restore_initial_conditions_def Let_def)

lemma restore_initial_conditions_starts:
  assumes "vector_layout_ok ptv"
  shows "starts_from ptvs (restore_initial_conditions ptvs ptv)"
  using assms
  by (auto simp add: vector_layout_ok_def starts_from_def restore_initial_conditions_def
      Let_def nth_list_update)

lemma temporary_vector_layout: "vector_layout_ok (temporary_vector index_tv dy_alloc)"
  by (simp add: vector_layout_ok_def temporary_vector_def)

text \<open>
  With an evolver that keeps the layout, every pass of the loop hands to the evolver a
  vector that holds the saved values.
\<close>

lemma get_tau_refusing:
  "thermodynamics_reionization_get_tau tt (refusing msg ptvs st) k w
     = thermodynamics_reionization_get_tau tt st k w"
  by (simp add: thermodynamics_reionization_get_tau_def refusing_def Let_def
      cong: sum.case_cong)

lemma generic_evolver_refusing:
  assumes "starts_from ptvs (ws_tv w)"
  shows "generic_evolver (refusing msg ptvs st) mz_ini mz_end mz_out Nz w
           = generic_evolver st mz_ini mz_end mz_out Nz w"
  using assms by (simp add: refusing_def)

lemma bisection_trial_refusing:
  assumes "starts_from ptvs (ws_tv (ptw b))"
  shows "bisection_trial tt (refusing msg ptvs st) k ppr ptvs mz_ini mz_end mz_out Nz b
           = bisection_trial tt st k ppr ptvs mz_ini mz_end mz_out Nz b"
proof -
  let ?w = "bisection_parameters ppr (0.5 * (z_sup b + z_inf b)) (ptw b)"
  have "starts_from ptvs (ws_tv ?w)"
    by (simp add: bisection_parameters_tv assms)
  hence "generic_evolver (refusing msg ptvs st) mz_ini mz_end mz_out Nz ?w
           = generic_evolver st mz_ini mz_end mz_out Nz ?w"
    by (rule generic_evolver_refusing)
  thus ?thesis
    by (simp add: bisection_trial_def Let_def get_tau_refusing cong: sum.case_cong)
qed

lemma bisection_trial_starts:
  assumes k: "keeps_vector_layout st"
    and l: "vector_layout_ok (ws_tv (ptw b))"
    and t: "bisection_trial tt st k ppr ptvs mz_ini mz_end mz_out Nz b = Inr b'"
  shows "starts_from ptvs (ws_tv (ptw b'))" and "vector_layout_ok (ws_tv (ptw b'))"
proof -
  define zm where "zm = 0.5 * (z_sup b + z_inf b)"
  define w0 where "w0 = bisection_parameters ppr zm (ptw b)"
  from t obtain we wt where
    ev: "generic_evolver st mz_ini mz_end mz_out Nz w0 = Inr we"
    and g: "thermodynamics_reionization_get_tau tt st k
       (we\<lparr>ws_tv := restore_initial_conditions ptvs (ws_tv we)\<rparr>) = Inr wt"
    and b': "b' = bisection_update zm wt b"
    unfolding w0_def zm_def by (rule bisection_trial_cases)
  have "vector_layout_ok (ws_tv w0)"
    by (simp add: w0_def bisection_parameters_tv l)
  with k ev have l1: "vector_layout_ok (ws_tv we)"
    unfolding keeps_vector_layout_def by blast
  from get_tau_frame(1)[OF g]
  have v: "ws_tv wt = restore_initial_conditions ptvs (ws_tv we)" by simp
  have w: "ptw b' = wt" by (simp add: b' bisection_update_def Let_def)
  show "starts_from ptvs (ws_tv (ptw b'))"
    unfolding w v by (rule restore_initial_conditions_starts[OF l1])
  show "vector_layout_ok (ws_tv (ptw b'))"
    unfolding w v by (rule restore_initial_conditions_layout[OF l1])
qed

lemma bisection_loop_refusing:
  assumes "keeps_vector_layout st"
    and "vector_layout_ok (ws_tv (ptw b))"
    and "starts_from ptvs (ws_tv (ptw b))"
  shows "bisection_loop tt (refusing msg ptvs st) k ppr ptvs mz_ini mz_end mz_out Nz b
           = bisection_loop tt st k ppr ptvs mz_ini mz_end mz_out Nz b"
  using assms
proof (induction tt st k ppr ptvs mz_ini mz_end mz_out Nz b rule: bisection_loop.induct)
  case (1 tt st k ppr ptvs mz_ini mz_end mz_out Nz b)
  note tr = bisection_trial_refusing[OF "1.prems"(3), of tt msg st k ppr mz_ini mz_end mz_out Nz]
  show ?case
  proof (cases "tau_sup b - tau_inf b
          > tau_reio (ws_pth (ptw b)) * reionization_optical_depth_tol ppr")
    case False
    thus ?thesis
      by (simp add: bisection_loop.simps[of _ _ _ _ _ _ _ _ _ b])
  next
    case True
    show ?thesis
    proof (cases "bisection_trial tt st k ppr ptvs mz_ini mz_end mz_out Nz b")
      case (Inl e)
      thus ?thesis
        using True tr
        by (simp add: bisection_loop.simps[of _ _ _ _ _ _ _ _ _ b])
    next
      case (Inr b')
      from "1.IH"[OF True Inr "1.prems"(1)
          bisection_trial_starts(2)[OF "1.prems"(1,2) Inr]
          bisection_trial_starts(1)[OF "1.prems"(1,2) Inr]]
      show ?thesis
        using True tr Inr
        by (simp add: bisection_loop.simps[of _ _ _ _ _ _ _ _ _ b])
    qed
  qed
qed

text \<open>
  The function with its local bindings expanded.
\<close>

lemma evolve_with_tau_unfold:
  "thermodynamics_reionization_evolve_with_tau tt st k ppr index_tv dy_alloc
      mz_ini mz_end mz_out Nz w =
    (if reionization_z_start_max ppr
          - reionization_start_factor ppr * reionization_width (ws_pth w) < 0
     then Inl ''parameters are such that reionization cannot take place before today while starting after z_start_max; need to increase z_start_max''
     else
       (case generic_evolver st mz_ini mz_end mz_out Nz
               (w\<lparr>ws_tv := restore_initial_conditions (ws_tv w)
                              (temporary_vector index_tv dy_alloc),
                  ws_ptrp := (ws_ptrp w)\<lparr>reionization_parameters :=
                    (reionization_parameters (ws_ptrp w))
                      [index_reio_redshift (ws_ptrp w) :=
                         reionization_z_start_max ppr
                           - reionization_start_factor ppr * reionization_width (ws_pth w),
                       index_reio_start (ws_ptrp w) := reionization_z_start_max ppr]\<rparr>\<rparr>) of
          Inl e \<Rightarrow> Inl e
        | Inr we \<Rightarrow>
           (case thermodynamics_reionization_get_tau tt st k we of
              Inl e \<Rightarrow> Inl e
            | Inr wt \<Rightarrow>
               if reionization_optical_depth wt < tau_reio (ws_pth wt)
               then Inl ''parameters are such that reionization cannot start after z_start_max''
               else
                 (case bisection_loop tt st k ppr (ws_tv w) mz_ini mz_end mz_out Nz
                         \<lparr>z_sup = reionization_z_start_max ppr
                              - reionization_start_factor ppr * reionization_width (ws_pth w),
                          z_inf = 0, tau_sup = reionization_optical_depth wt, tau_inf = 0,
                          counter = 0,
                          ptw = wt\<lparr>ws_tv := restore_initial_conditions (ws_tv w) (ws_tv wt)\<rparr>\<rparr> of
                    Inl e \<Rightarrow> Inl e
                  | Inr b \<Rightarrow> Inr (b\<lparr>ptw := store_z_reio (ws_tv w) (ptw b)\<rparr>)))))"
  by (simp add: thermodynamics_reionization_evolve_with_tau_def Let_def
      set_reionization_parameter_def cong: sum.case_cong if_cong)

lemma evolve_with_tau_refusing:
  assumes k: "keeps_vector_layout st"
  shows "thermodynamics_reionization_evolve_with_tau tt (refusing msg (ws_tv w) st) k ppr
           index_tv dy_alloc mz_ini mz_end mz_out Nz w
         = thermodynamics_reionization_evolve_with_tau tt st k ppr
             index_tv dy_alloc mz_ini mz_end mz_out Nz w"
proof -
  define W0 where "W0 = w\<lparr>ws_tv := restore_initial_conditions (ws_tv w)
                              (temporary_vector index_tv dy_alloc),
                  ws_ptrp := (ws_ptrp w)\<lparr>reionization_parameters :=
                    (reionization_parameters (ws_ptrp w))
                      [index_reio_redshift (ws_ptrp w) :=
                         reionization_z_start_max ppr
                           - reionization_start_factor ppr * reionization_width (ws_pth w),
                       index_reio_start (ws_ptrp w) := reionization_z_start_max ppr]\<rparr>\<rparr>"
  have tv0: "ws_tv W0 = restore_initial_conditions (ws_tv w) (temporary_vector index_tv dy_alloc)"
    by (simp add: W0_def)
  have l0: "vector_layout_ok (ws_tv W0)"
    unfolding tv0 by (rule restore_initial_conditions_layout[OF temporary_vector_layout])
  have s0: "starts_from (ws_tv w) (ws_tv W0)"
    unfolding tv0 by (rule restore_initial_conditions_starts[OF temporary_vector_layout])
  note e0 = generic_evolver_refusing[OF s0, of msg st mz_ini mz_end mz_out Nz]
  show ?thesis
  proof (cases "generic_evolver st mz_ini mz_end mz_out Nz W0")
    case (Inl e)
    with e0 show ?thesis
      unfolding evolve_with_tau_unfold W0_def[symmetric] by simp
  next
    case (Inr we)
    from k Inr l0 have l1: "vector_layout_ok (ws_tv we)"
      unfolding keeps_vector_layout_def by blast
    show ?thesis
    proof (cases "thermodynamics_reionization_get_tau tt st k we")
      case (Inl e)
      with e0 Inr show ?thesis
        unfolding evolve_with_tau_unfold W0_def[symmetric]
        by (simp add: get_tau_refusing)
    next
      case g: (Inr wt)
      from get_tau_frame(1)[OF g] have v: "ws_tv wt = ws_tv we" .
      have lp: "bisection_loop tt (refusing msg (ws_tv w) st) k ppr (ws_tv w) mz_ini mz_end
                   mz_out Nz
                   \<lparr>z_sup = a, z_inf = 0, tau_sup = c, tau_inf = 0, counter = 0,
                    ptw = wt\<lparr>ws_tv := restore_initial_conditions (ws_tv w) (ws_tv wt)\<rparr>\<rparr>
                = bisection_loop tt st k ppr (ws_tv w) mz_ini mz_end mz_out Nz
                   \<lparr>z_sup = a, z_inf = 0, tau_sup = c, tau_inf = 0, counter = 0,
                    ptw = wt\<lparr>ws_tv := restore_initial_conditions (ws_tv w) (ws_tv wt)\<rparr>\<rparr>"
        for a c
        by (rule bisection_loop_refusing[OF k])
           (simp_all add: v restore_initial_conditions_layout[OF l1]
              restore_initial_conditions_starts[OF l1])
      from e0 Inr g show ?thesis
        unfolding evolve_with_tau_unfold W0_def[symmetric]
        by (simp add: get_tau_refusing lp)
    qed
  qed
qed


text \<open>
  The parameters of a trial: with the two offsets apart and inside the array, the entry
  of the redshift is the midpoint and the entry of the start is the larger of the two
  starting redshifts.
\<close>

lemma bisection_parameters_pth:
  "ws_pth (bisection_parameters ppr z w) = ws_pth w"
  by (simp add: bisection_parameters_def set_reionization_parameter_def Let_def)

lemma bisection_parameters_explicit:
  assumes "index_reio_redshift (ws_ptrp w) < length (reionization_parameters (ws_ptrp w))"
    and "index_reio_start (ws_ptrp w) < length (reionization_parameters (ws_ptrp w))"
    and "index_reio_redshift (ws_ptrp w) \<noteq> index_reio_start (ws_ptrp w)"
  shows "bisection_parameters ppr z w
    = w\<lparr>ws_ptrp := (ws_ptrp w)\<lparr>reionization_parameters :=
          (reionization_parameters (ws_ptrp w))
            [index_reio_redshift (ws_ptrp w) := z,
             index_reio_start (ws_ptrp w) :=
               max (z + reionization_start_factor ppr * reionization_width (ws_pth w))
                   (helium_fullreio_redshift (ws_pth w)
                      + reionization_start_factor ppr * helium_fullreio_width (ws_pth w))]\<rparr>\<rparr>"
  using assms
  by (simp add: bisection_parameters_def set_reionization_parameter_def Let_def max_def)

text \<open>
  With an evolver that keeps the target, the two optical depths of the bracket stay on
  either side of \<open>tau_reio\<close>.
\<close>

lemma bisection_trial_tau:
  assumes k: "keeps_tau_reio st"
    and t: "bisection_trial tt st k ppr ptvs mz_ini mz_end mz_out Nz b = Inr b'"
    and i: "tau_inf b \<le> tau_reio (ws_pth (ptw b))"
    and s: "tau_reio (ws_pth (ptw b)) \<le> tau_sup b"
  shows "tau_reio (ws_pth (ptw b')) = tau_reio (ws_pth (ptw b))
    \<and> tau_inf b' \<le> tau_reio (ws_pth (ptw b')) \<and> tau_reio (ws_pth (ptw b')) \<le> tau_sup b'"
proof -
  define zm where "zm = 0.5 * (z_sup b + z_inf b)"
  define w0 where "w0 = bisection_parameters ppr zm (ptw b)"
  from t obtain we wt where
    ev: "generic_evolver st mz_ini mz_end mz_out Nz w0 = Inr we"
    and g: "thermodynamics_reionization_get_tau tt st k
       (we\<lparr>ws_tv := restore_initial_conditions ptvs (ws_tv we)\<rparr>) = Inr wt"
    and b': "b' = bisection_update zm wt b"
    unfolding w0_def zm_def by (rule bisection_trial_cases)
  from k ev have "tau_reio (ws_pth we) = tau_reio (ws_pth w0)"
    unfolding keeps_tau_reio_def by blast
  hence t1: "tau_reio (ws_pth we) = tau_reio (ws_pth (ptw b))"
    by (simp add: w0_def bisection_parameters_pth)
  from get_tau_frame(3)[OF g] t1 have t2: "tau_reio (ws_pth wt) = tau_reio (ws_pth (ptw b))"
    by simp
  show ?thesis
    using i s t2 by (simp add: b' bisection_update_def Let_def)
qed

lemma bisection_loop_tau:
  assumes "keeps_tau_reio st"
    and "bisection_loop tt st k ppr ptvs mz_ini mz_end mz_out Nz b = Inr b'"
    and "tau_inf b \<le> tau_reio (ws_pth (ptw b))"
    and "tau_reio (ws_pth (ptw b)) \<le> tau_sup b"
  shows "tau_reio (ws_pth (ptw b')) = tau_reio (ws_pth (ptw b))
    \<and> tau_inf b' \<le> tau_reio (ws_pth (ptw b')) \<and> tau_reio (ws_pth (ptw b')) \<le> tau_sup b'"
  using assms
proof (induction tt st k ppr ptvs mz_ini mz_end mz_out Nz b rule: bisection_loop.induct)
  case (1 tt st k ppr ptvs mz_ini mz_end mz_out Nz b)
  show ?case
  proof (cases "tau_sup b - tau_inf b
          > tau_reio (ws_pth (ptw b)) * reionization_optical_depth_tol ppr")
    case False
    with "1.prems" show ?thesis
      by (simp add: bisection_loop.simps[of _ _ _ _ _ _ _ _ _ b])
  next
    case True
    with "1.prems" obtain b1 where
      t: "bisection_trial tt st k ppr ptvs mz_ini mz_end mz_out Nz b = Inr b1"
      and l: "bisection_loop tt st k ppr ptvs mz_ini mz_end mz_out Nz b1 = Inr b'"
      by (auto simp add: bisection_loop.simps[of _ _ _ _ _ _ _ _ _ b] split: sum.splits)
    note s = bisection_trial_tau[OF "1.prems"(1) t "1.prems"(3,4)]
    from s have a: "tau_inf b1 \<le> tau_reio (ws_pth (ptw b1))"
      and c: "tau_reio (ws_pth (ptw b1)) \<le> tau_sup b1" by simp_all
    from "1.IH"[OF True t "1.prems"(1) l a c] s show ?thesis by simp
  qed
qed

lemma evolve_with_tau_tau:
  assumes r: "thermodynamics_reionization_evolve_with_tau tt st k ppr index_tv dy_alloc
             mz_ini mz_end mz_out Nz w = Inr bf"
    and k: "keeps_tau_reio st"
    and p: "0 \<le> tau_reio (ws_pth w)"
  shows "tau_reio (ws_pth (ptw bf)) = tau_reio (ws_pth w)
    \<and> tau_inf bf \<le> tau_reio (ws_pth w) \<and> tau_reio (ws_pth w) \<le> tau_sup bf"
proof -
  define W0 where "W0 = w\<lparr>ws_tv := restore_initial_conditions (ws_tv w)
                              (temporary_vector index_tv dy_alloc),
                  ws_ptrp := (ws_ptrp w)\<lparr>reionization_parameters :=
                    (reionization_parameters (ws_ptrp w))
                      [index_reio_redshift (ws_ptrp w) :=
                         reionization_z_start_max ppr
                           - reionization_start_factor ppr * reionization_width (ws_pth w),
                       index_reio_start (ws_ptrp w) := reionization_z_start_max ppr]\<rparr>\<rparr>"
  from r obtain we wt b where
    ev: "generic_evolver st mz_ini mz_end mz_out Nz W0 = Inr we"
    and g: "thermodynamics_reionization_get_tau tt st k we = Inr wt"
    and ts: "tau_reio (ws_pth wt) \<le> reionization_optical_depth wt"
    and l: "bisection_loop tt st k ppr (ws_tv w) mz_ini mz_end mz_out Nz
       \<lparr>z_sup = reionization_z_start_max ppr
                  - reionization_start_factor ppr * reionization_width (ws_pth w),
        z_inf = 0, tau_sup = reionization_optical_depth wt, tau_inf = 0, counter = 0,
        ptw = wt\<lparr>ws_tv := restore_initial_conditions (ws_tv w) (ws_tv wt)\<rparr>\<rparr> = Inr b"
    and bf: "bf = b\<lparr>ptw := store_z_reio (ws_tv w) (ptw b)\<rparr>"
    unfolding evolve_with_tau_unfold W0_def[symmetric]
    by (auto split: if_splits sum.splits)
  from k ev have "tau_reio (ws_pth we) = tau_reio (ws_pth W0)"
    unfolding keeps_tau_reio_def by blast
  hence t1: "tau_reio (ws_pth we) = tau_reio (ws_pth w)" by (simp add: W0_def)
  from get_tau_frame(3)[OF g] t1 have t2: "tau_reio (ws_pth wt) = tau_reio (ws_pth w)" by simp
  from bisection_loop_tau[OF k l] p ts t2
  have "tau_reio (ws_pth (ptw b)) = tau_reio (ws_pth w)
    \<and> tau_inf b \<le> tau_reio (ws_pth (ptw b)) \<and> tau_reio (ws_pth (ptw b)) \<le> tau_sup b"
    by simp
  thus ?thesis
    by (simp add: bf store_z_reio_def Let_def)
qed

text \<open>
  The parts of the main statement.
\<close>

lemma evolve_with_tau_success:
  "case thermodynamics_reionization_evolve_with_tau tt st k ppr index_tv
             dy_alloc mz_ini mz_end mz_out Nz w of
        Inl e \<Rightarrow> True
      | Inr b \<Rightarrow>
          tau_sup b - tau_inf b
            \<le> tau_reio (ws_pth (ptw b)) * reionization_optical_depth_tol ppr
        \<and> counter b \<le> MAX_IT k
        \<and> 0 \<le> z_inf b \<and> z_inf b \<le> z_sup b
        \<and> z_sup b \<le> reionization_z_start_max ppr
                       - reionization_start_factor ppr * reionization_width (ws_pth w)
        \<and> z_reio (ws_pth (ptw b))
            = reionization_parameters (ws_ptrp (ptw b)) ! index_reio_redshift (ws_ptrp (ptw b))
        \<and> ws_tv (ptw b) = ws_tv w
        \<and> (keeps_reio_redshift st
             \<and> index_reio_redshift (ws_ptrp w) < length (reionization_parameters (ws_ptrp w))
             \<and> index_reio_redshift (ws_ptrp w) \<noteq> index_reio_start (ws_ptrp w)
            \<longrightarrow> z_reio (ws_pth (ptw b)) = z_sup b \<or> z_reio (ws_pth (ptw b)) = z_inf b)
        \<and> (keeps_tau_reio st \<and> 0 \<le> tau_reio (ws_pth w)
            \<longrightarrow> tau_reio (ws_pth (ptw b)) = tau_reio (ws_pth w)
              \<and> tau_inf b \<le> tau_reio (ws_pth w) \<and> tau_reio (ws_pth w) \<le> tau_sup b)"
proof (cases "thermodynamics_reionization_evolve_with_tau tt st k ppr index_tv
             dy_alloc mz_ini mz_end mz_out Nz w")
  case (Inl e)
  thus ?thesis by simp
next
  case (Inr b)
  from evolve_with_tau_result[OF Inr] evolve_with_tau_endpoint[OF Inr]
    evolve_with_tau_tau[OF Inr]
  show ?thesis unfolding Inr sum.case by blast
qed

lemma bisection_loop_exit:
  "tau_sup bs - tau_inf bs
          \<le> tau_reio (ws_pth (ptw bs)) * reionization_optical_depth_tol ppr
       \<longrightarrow> bisection_loop tt st k ppr ptvs mz_ini mz_end mz_out Nz bs = Inr bs"
  by (simp add: bisection_loop.simps[of _ _ _ _ _ _ _ _ _ bs])

lemma bisection_loop_pass:
  "tau_sup bs - tau_inf bs
          > tau_reio (ws_pth (ptw bs)) * reionization_optical_depth_tol ppr
       \<longrightarrow> bisection_loop tt st k ppr ptvs mz_ini mz_end mz_out Nz bs
             = (case bisection_trial tt st k ppr ptvs mz_ini mz_end mz_out Nz bs of
                  Inl e \<Rightarrow> Inl e
                | Inr b' \<Rightarrow> bisection_loop tt st k ppr ptvs mz_ini mz_end mz_out Nz b')"
  by (simp add: bisection_loop.simps[of _ _ _ _ _ _ _ _ _ bs])

lemma bisection_trial_law:
  "index_reio_redshift (ws_ptrp (ptw bs)) < length (reionization_parameters (ws_ptrp (ptw bs)))
        \<and> index_reio_start (ws_ptrp (ptw bs)) < length (reionization_parameters (ws_ptrp (ptw bs)))
        \<and> index_reio_redshift (ws_ptrp (ptw bs)) \<noteq> index_reio_start (ws_ptrp (ptw bs))
       \<longrightarrow>
        (let z_mid = (z_sup bs + z_inf bs) / 2;
             start = max (z_mid + reionization_start_factor ppr
                                    * reionization_width (ws_pth (ptw bs)))
                         (helium_fullreio_redshift (ws_pth (ptw bs))
                            + reionization_start_factor ppr
                                * helium_fullreio_width (ws_pth (ptw bs)));
             w0 = (ptw bs)\<lparr>ws_ptrp := (ws_ptrp (ptw bs))\<lparr>reionization_parameters :=
                    (reionization_parameters (ws_ptrp (ptw bs)))
                      [index_reio_redshift (ws_ptrp (ptw bs)) := z_mid,
                       index_reio_start (ws_ptrp (ptw bs)) := start]\<rparr>\<rparr>
         in (start > reionization_z_start_max ppr \<longrightarrow>
               bisection_trial tt st k ppr ptvs mz_ini mz_end mz_out Nz bs
                 = Inl ''starting redshift for reionization > reionization_z_start_max = %e'')
          \<and> (start \<le> reionization_z_start_max ppr
               \<and> generic_evolver st mz_ini mz_end mz_out Nz w0 = Inr ve
               \<and> thermodynamics_reionization_get_tau tt st k
                    (ve\<lparr>ws_tv := restore_initial_conditions ptvs (ws_tv ve)\<rparr>) = Inr vt
              \<longrightarrow>
               bisection_trial tt st k ppr ptvs mz_ini mz_end mz_out Nz bs
                 = (if MAX_IT k < counter bs + 1
                    then Inl ''while searching for reionization_optical_depth, maximum number of iterations exceeded''
                    else Inr (if reionization_optical_depth vt > tau_reio (ws_pth vt)
                              then \<lparr>z_sup = z_mid, z_inf = z_inf bs,
                                    tau_sup = reionization_optical_depth vt,
                                    tau_inf = tau_inf bs, counter = counter bs + 1, ptw = vt\<rparr>
                              else \<lparr>z_sup = z_sup bs, z_inf = z_mid, tau_sup = tau_sup bs,
                                    tau_inf = reionization_optical_depth vt,
                                    counter = counter bs + 1, ptw = vt\<rparr>))))"
proof (intro impI, elim conjE)
  assume i: "index_reio_redshift (ws_ptrp (ptw bs))
               < length (reionization_parameters (ws_ptrp (ptw bs)))"
    and j: "index_reio_start (ws_ptrp (ptw bs))
               < length (reionization_parameters (ws_ptrp (ptw bs)))"
    and d: "index_reio_redshift (ws_ptrp (ptw bs)) \<noteq> index_reio_start (ws_ptrp (ptw bs))"
  note e = bisection_parameters_explicit[OF i j d, of ppr]
  show "(let z_mid = (z_sup bs + z_inf bs) / 2;
             start = max (z_mid + reionization_start_factor ppr
                                    * reionization_width (ws_pth (ptw bs)))
                         (helium_fullreio_redshift (ws_pth (ptw bs))
                            + reionization_start_factor ppr
                                * helium_fullreio_width (ws_pth (ptw bs)));
             w0 = (ptw bs)\<lparr>ws_ptrp := (ws_ptrp (ptw bs))\<lparr>reionization_parameters :=
                    (reionization_parameters (ws_ptrp (ptw bs)))
                      [index_reio_redshift (ws_ptrp (ptw bs)) := z_mid,
                       index_reio_start (ws_ptrp (ptw bs)) := start]\<rparr>\<rparr>
         in (start > reionization_z_start_max ppr \<longrightarrow>
               bisection_trial tt st k ppr ptvs mz_ini mz_end mz_out Nz bs
                 = Inl ''starting redshift for reionization > reionization_z_start_max = %e'')
          \<and> (start \<le> reionization_z_start_max ppr
               \<and> generic_evolver st mz_ini mz_end mz_out Nz w0 = Inr ve
               \<and> thermodynamics_reionization_get_tau tt st k
                    (ve\<lparr>ws_tv := restore_initial_conditions ptvs (ws_tv ve)\<rparr>) = Inr vt
              \<longrightarrow>
               bisection_trial tt st k ppr ptvs mz_ini mz_end mz_out Nz bs
                 = (if MAX_IT k < counter bs + 1
                    then Inl ''while searching for reionization_optical_depth, maximum number of iterations exceeded''
                    else Inr (if reionization_optical_depth vt > tau_reio (ws_pth vt)
                              then \<lparr>z_sup = z_mid, z_inf = z_inf bs,
                                    tau_sup = reionization_optical_depth vt,
                                    tau_inf = tau_inf bs, counter = counter bs + 1, ptw = vt\<rparr>
                              else \<lparr>z_sup = z_sup bs, z_inf = z_mid, tau_sup = tau_sup bs,
                                    tau_inf = reionization_optical_depth vt,
                                    counter = counter bs + 1, ptw = vt\<rparr>))))"
    using j
    by (auto simp add: Let_def bisection_trial_def e bisection_update_def)
qed

lemma evolve_with_tau_law:
  "let z0 = reionization_z_start_max ppr
                  - reionization_start_factor ppr * reionization_width (ws_pth w);
           w0 = w\<lparr>ws_tv := restore_initial_conditions (ws_tv w)
                              (temporary_vector index_tv dy_alloc),
                  ws_ptrp := (ws_ptrp w)\<lparr>reionization_parameters :=
                    (reionization_parameters (ws_ptrp w))
                      [index_reio_redshift (ws_ptrp w) := z0,
                       index_reio_start (ws_ptrp w) := reionization_z_start_max ppr]\<rparr>\<rparr>
       in (z0 < 0 \<longrightarrow>
             thermodynamics_reionization_evolve_with_tau tt st k ppr index_tv
                 dy_alloc mz_ini mz_end mz_out Nz w
               = Inl ''parameters are such that reionization cannot take place before today while starting after z_start_max; need to increase z_start_max'')
        \<and> (0 \<le> z0 \<and> generic_evolver st mz_ini mz_end mz_out Nz w0 = Inr we
             \<and> thermodynamics_reionization_get_tau tt st k we = Inr wt
            \<longrightarrow>
             thermodynamics_reionization_evolve_with_tau tt st k ppr index_tv
                 dy_alloc mz_ini mz_end mz_out Nz w
               = (if reionization_optical_depth wt < tau_reio (ws_pth wt)
                  then Inl ''parameters are such that reionization cannot start after z_start_max''
                  else
                    (case bisection_loop tt st k ppr (ws_tv w) mz_ini mz_end mz_out Nz
                            \<lparr>z_sup = z0, z_inf = 0, tau_sup = reionization_optical_depth wt,
                             tau_inf = 0, counter = 0,
                             ptw = wt\<lparr>ws_tv :=
                                     restore_initial_conditions (ws_tv w) (ws_tv wt)\<rparr>\<rparr> of
                       Inl e \<Rightarrow> Inl e
                     | Inr b \<Rightarrow>
                        Inr (b\<lparr>ptw := (ptw b)\<lparr>ws_pth := (ws_pth (ptw b))\<lparr>z_reio :=
                                        reionization_parameters (ws_ptrp (ptw b))
                                          ! index_reio_redshift (ws_ptrp (ptw b))\<rparr>,
                                      ws_tv := ws_tv w\<rparr>\<rparr>))))"
  by (auto simp add: evolve_with_tau_unfold Let_def store_z_reio_def cong: sum.case_cong)

lemma bisection_loop_cap:
  "MAX_IT k \<le> counter bs
        \<and> tau_sup bs - tau_inf bs
            > tau_reio (ws_pth (ptw bs)) * reionization_optical_depth_tol ppr
       \<longrightarrow> isl (bisection_loop tt st k ppr ptvs mz_ini mz_end mz_out Nz bs)"
proof (intro impI, elim conjE)
  assume a: "MAX_IT k \<le> counter bs"
    and b: "tau_sup bs - tau_inf bs
            > tau_reio (ws_pth (ptw bs)) * reionization_optical_depth_tol ppr"
  show "isl (bisection_loop tt st k ppr ptvs mz_ini mz_end mz_out Nz bs)"
    by (rule bisection_loop_capped[OF a b])
qed

text \<open>
  C4. The shooting for a given \<open>tau_reio\<close> is a total function: the loop is defined by
  recursion on \<open>_MAX_IT_ + 1 - counter\<close>, and every run ends with an error or with a
  result. For every evolver and every input, in the order of the statement:
  \<^item> an evolver that copies the saved vector once more before it integrates gives the
    same run;
  \<^item> with an evolver that keeps the layout of the vector, every integration starts from a
    vector that holds the saved values of \<open>T_mat\<close>, \<open>x_H\<close>, \<open>x_He\<close> and of their derivatives:
    an evolver that refuses any other vector, with an error \<open>msg\<close> of any choice, gives
    the same run;
  \<^item> a run that succeeds ends with \<open>tau_sup - tau_inf \<le> tau_reio * reionization_optical_depth_tol\<close>,
    after at most \<open>_MAX_IT_\<close> passes, with a bracket inside
    \<open>[0, reionization_z_start_max - reionization_start_factor * reionization_width]\<close>; it stores
    the trial redshift of the parameter array in \<open>z_reio\<close> and puts the saved vector
    back; when the evolver keeps the reionization redshift, the stored \<open>z_reio\<close> is an
    end of the final bracket; when the evolver keeps \<open>tau_reio\<close> and \<open>tau_reio\<close> is not
    negative, \<open>tau_inf \<le> tau_reio \<le> tau_sup\<close> at the end;
  \<^item> where the counter has reached \<open>_MAX_IT_\<close> and the bracket is still too wide, the loop
    ends with an error;
  \<^item> the loop returns at once where \<open>tau_sup - tau_inf \<le> tau_reio * reionization_optical_depth_tol\<close>,
    and otherwise makes one pass and goes on from its result;
  \<^item> one pass, with the offsets of the redshift and of the start apart and inside the
    parameter array: the trial redshift is the midpoint of the bracket and the start is
    the larger of \<open>z_mid + reionization_start_factor * reionization_width\<close> and of the start of
    helium; a start above \<open>reionization_z_start_max\<close> is an error; where the evolver and
    the optical depth succeed, the pass fails with the error of the cap exactly when
    \<open>counter + 1 > _MAX_IT_\<close>, and otherwise the midpoint and its optical depth replace the
    upper end when \<open>tau_mid > tau_reio\<close> and the lower end when not, the other end is
    kept, and the counter grows by one;
  \<^item> before the loop: a negative \<open>reionization_z_start_max - reionization_start_factor *
    reionization_width\<close> is an error; the first integration has this redshift and the start
    \<open>reionization_z_start_max\<close>; an optical depth below \<open>tau_reio\<close> is an error; otherwise
    the loop starts from the bracket \<open>[0, reionization_z_start_max - reionization_start_factor *
    reionization_width]\<close> with the optical depths \<open>0\<close> and that of the first integration,
    the counter at zero and the vector restored, and its result is returned with
    \<open>z_reio\<close> stored and the saved vector put back.
\<close>

theorem reionization_bisection_terminates:
  "(thermodynamics_reionization_evolve_with_tau tt (restoring (ws_tv w) st) k ppr index_tv
       dy_alloc mz_ini mz_end mz_out Nz w
     = thermodynamics_reionization_evolve_with_tau tt st k ppr index_tv
         dy_alloc mz_ini mz_end mz_out Nz w)
   \<and> (keeps_vector_layout st \<longrightarrow>
      thermodynamics_reionization_evolve_with_tau tt (refusing msg (ws_tv w) st) k ppr index_tv
          dy_alloc mz_ini mz_end mz_out Nz w
        = thermodynamics_reionization_evolve_with_tau tt st k ppr index_tv
            dy_alloc mz_ini mz_end mz_out Nz w)
   \<and> (case thermodynamics_reionization_evolve_with_tau tt st k ppr index_tv
             dy_alloc mz_ini mz_end mz_out Nz w of
        Inl e \<Rightarrow> True
      | Inr b \<Rightarrow>
          tau_sup b - tau_inf b
            \<le> tau_reio (ws_pth (ptw b)) * reionization_optical_depth_tol ppr
        \<and> counter b \<le> MAX_IT k
        \<and> 0 \<le> z_inf b \<and> z_inf b \<le> z_sup b
        \<and> z_sup b \<le> reionization_z_start_max ppr
                       - reionization_start_factor ppr * reionization_width (ws_pth w)
        \<and> z_reio (ws_pth (ptw b))
            = reionization_parameters (ws_ptrp (ptw b)) ! index_reio_redshift (ws_ptrp (ptw b))
        \<and> ws_tv (ptw b) = ws_tv w
        \<and> (keeps_reio_redshift st
             \<and> index_reio_redshift (ws_ptrp w) < length (reionization_parameters (ws_ptrp w))
             \<and> index_reio_redshift (ws_ptrp w) \<noteq> index_reio_start (ws_ptrp w)
            \<longrightarrow> z_reio (ws_pth (ptw b)) = z_sup b \<or> z_reio (ws_pth (ptw b)) = z_inf b)
        \<and> (keeps_tau_reio st \<and> 0 \<le> tau_reio (ws_pth w)
            \<longrightarrow> tau_reio (ws_pth (ptw b)) = tau_reio (ws_pth w)
              \<and> tau_inf b \<le> tau_reio (ws_pth w) \<and> tau_reio (ws_pth w) \<le> tau_sup b))
   \<and> (MAX_IT k \<le> counter bs
        \<and> tau_sup bs - tau_inf bs
            > tau_reio (ws_pth (ptw bs)) * reionization_optical_depth_tol ppr
       \<longrightarrow> isl (bisection_loop tt st k ppr ptvs mz_ini mz_end mz_out Nz bs))
   \<and> (tau_sup bs - tau_inf bs
          \<le> tau_reio (ws_pth (ptw bs)) * reionization_optical_depth_tol ppr
       \<longrightarrow> bisection_loop tt st k ppr ptvs mz_ini mz_end mz_out Nz bs = Inr bs)
   \<and> (tau_sup bs - tau_inf bs
          > tau_reio (ws_pth (ptw bs)) * reionization_optical_depth_tol ppr
       \<longrightarrow> bisection_loop tt st k ppr ptvs mz_ini mz_end mz_out Nz bs
             = (case bisection_trial tt st k ppr ptvs mz_ini mz_end mz_out Nz bs of
                  Inl e \<Rightarrow> Inl e
                | Inr b' \<Rightarrow> bisection_loop tt st k ppr ptvs mz_ini mz_end mz_out Nz b'))
   \<and> (index_reio_redshift (ws_ptrp (ptw bs)) < length (reionization_parameters (ws_ptrp (ptw bs)))
        \<and> index_reio_start (ws_ptrp (ptw bs)) < length (reionization_parameters (ws_ptrp (ptw bs)))
        \<and> index_reio_redshift (ws_ptrp (ptw bs)) \<noteq> index_reio_start (ws_ptrp (ptw bs))
       \<longrightarrow>
        (let z_mid = (z_sup bs + z_inf bs) / 2;
             start = max (z_mid + reionization_start_factor ppr
                                    * reionization_width (ws_pth (ptw bs)))
                         (helium_fullreio_redshift (ws_pth (ptw bs))
                            + reionization_start_factor ppr
                                * helium_fullreio_width (ws_pth (ptw bs)));
             w0 = (ptw bs)\<lparr>ws_ptrp := (ws_ptrp (ptw bs))\<lparr>reionization_parameters :=
                    (reionization_parameters (ws_ptrp (ptw bs)))
                      [index_reio_redshift (ws_ptrp (ptw bs)) := z_mid,
                       index_reio_start (ws_ptrp (ptw bs)) := start]\<rparr>\<rparr>
         in (start > reionization_z_start_max ppr \<longrightarrow>
               bisection_trial tt st k ppr ptvs mz_ini mz_end mz_out Nz bs
                 = Inl ''starting redshift for reionization > reionization_z_start_max = %e'')
          \<and> (start \<le> reionization_z_start_max ppr
               \<and> generic_evolver st mz_ini mz_end mz_out Nz w0 = Inr ve
               \<and> thermodynamics_reionization_get_tau tt st k
                    (ve\<lparr>ws_tv := restore_initial_conditions ptvs (ws_tv ve)\<rparr>) = Inr vt
              \<longrightarrow>
               bisection_trial tt st k ppr ptvs mz_ini mz_end mz_out Nz bs
                 = (if MAX_IT k < counter bs + 1
                    then Inl ''while searching for reionization_optical_depth, maximum number of iterations exceeded''
                    else Inr (if reionization_optical_depth vt > tau_reio (ws_pth vt)
                              then \<lparr>z_sup = z_mid, z_inf = z_inf bs,
                                    tau_sup = reionization_optical_depth vt,
                                    tau_inf = tau_inf bs, counter = counter bs + 1, ptw = vt\<rparr>
                              else \<lparr>z_sup = z_sup bs, z_inf = z_mid, tau_sup = tau_sup bs,
                                    tau_inf = reionization_optical_depth vt,
                                    counter = counter bs + 1, ptw = vt\<rparr>)))))
   \<and> (let z0 = reionization_z_start_max ppr
                  - reionization_start_factor ppr * reionization_width (ws_pth w);
           w0 = w\<lparr>ws_tv := restore_initial_conditions (ws_tv w)
                              (temporary_vector index_tv dy_alloc),
                  ws_ptrp := (ws_ptrp w)\<lparr>reionization_parameters :=
                    (reionization_parameters (ws_ptrp w))
                      [index_reio_redshift (ws_ptrp w) := z0,
                       index_reio_start (ws_ptrp w) := reionization_z_start_max ppr]\<rparr>\<rparr>
       in (z0 < 0 \<longrightarrow>
             thermodynamics_reionization_evolve_with_tau tt st k ppr index_tv
                 dy_alloc mz_ini mz_end mz_out Nz w
               = Inl ''parameters are such that reionization cannot take place before today while starting after z_start_max; need to increase z_start_max'')
        \<and> (0 \<le> z0 \<and> generic_evolver st mz_ini mz_end mz_out Nz w0 = Inr we
             \<and> thermodynamics_reionization_get_tau tt st k we = Inr wt
            \<longrightarrow>
             thermodynamics_reionization_evolve_with_tau tt st k ppr index_tv
                 dy_alloc mz_ini mz_end mz_out Nz w
               = (if reionization_optical_depth wt < tau_reio (ws_pth wt)
                  then Inl ''parameters are such that reionization cannot start after z_start_max''
                  else
                    (case bisection_loop tt st k ppr (ws_tv w) mz_ini mz_end mz_out Nz
                            \<lparr>z_sup = z0, z_inf = 0, tau_sup = reionization_optical_depth wt,
                             tau_inf = 0, counter = 0,
                             ptw = wt\<lparr>ws_tv :=
                                     restore_initial_conditions (ws_tv w) (ws_tv wt)\<rparr>\<rparr> of
                       Inl e \<Rightarrow> Inl e
                     | Inr b \<Rightarrow>
                        Inr (b\<lparr>ptw := (ptw b)\<lparr>ws_pth := (ws_pth (ptw b))\<lparr>z_reio :=
                                        reionization_parameters (ws_ptrp (ptw b))
                                          ! index_reio_redshift (ws_ptrp (ptw b))\<rparr>,
                                      ws_tv := ws_tv w\<rparr>\<rparr>)))))"
  by (intro conjI evolve_with_tau_restoring impI[OF evolve_with_tau_refusing]
      evolve_with_tau_success bisection_loop_cap bisection_loop_exit bisection_loop_pass
      bisection_trial_law evolve_with_tau_law)


text \<open>
  The example evolver keeps the layout and the target.
\<close>

lemma stub_keeps_vector_layout: "keeps_vector_layout stub_shooting_tools"
  by (auto simp add: keeps_vector_layout_def stub_shooting_tools_def vector_layout_ok_def)

lemma stub_keeps_tau_reio: "keeps_tau_reio stub_shooting_tools"
  by (auto simp add: keeps_tau_reio_def stub_shooting_tools_def)

text \<open>
  Runs with the example tools, for \<open>tau_reio = 3\<close> and tolerance one. From the bracket
  \<open>[0, 46]\<close>: four passes, the final bracket \<open>[23/8, 23/4]\<close>, and \<open>z_reio = 23/8\<close>; the
  evolver that refuses a vector without the saved values gives the same run. With
  \<open>reionization_z_start_max = 1\<close> the function fails before the loop. A pass from the
  bracket \<open>[0, 46]\<close> keeps \<open>[0, 23]\<close> and succeeds with the counter at 9999, fails with the
  error of the cap with the counter at 10000, and fails on the start for the bracket
  \<open>[0, 100]\<close>; the loop returns at once from a bracket of optical depths \<open>[0, 1]\<close>.
\<close>

theorem reionization_bisection_terminates_witness:
  "keeps_reio_redshift stub_shooting_tools \<and> keeps_vector_layout stub_shooting_tools
   \<and> keeps_tau_reio stub_shooting_tools
   \<and> (\<exists>b. thermodynamics_reionization_evolve_with_tau stub_table_tools stub_shooting_tools
          class_constants coarse_precision 0 (\<lambda>i. 0) (- 4000) 0 [- 50, 0] 2 example_workspace
        = Inr b
      \<and> thermodynamics_reionization_evolve_with_tau stub_table_tools
          (restoring (ws_tv example_workspace) stub_shooting_tools)
          class_constants coarse_precision 0 (\<lambda>i. 0) (- 4000) 0 [- 50, 0] 2 example_workspace
        = Inr b
      \<and> thermodynamics_reionization_evolve_with_tau stub_table_tools
          (refusing ''the vector is not restored'' (ws_tv example_workspace)
             stub_shooting_tools)
          class_constants coarse_precision 0 (\<lambda>i. 0) (- 4000) 0 [- 50, 0] 2 example_workspace
        = Inr b
      \<and> counter b = 4 \<and> z_sup b = 23 / 4 \<and> z_inf b = 23 / 8
      \<and> z_reio (ws_pth (ptw b)) = 23 / 8
      \<and> (z_reio (ws_pth (ptw b)) = z_sup b \<or> z_reio (ws_pth (ptw b)) = z_inf b)
      \<and> tau_sup b - tau_inf b \<le> 3 * reionization_optical_depth_tol coarse_precision
      \<and> tau_inf b \<le> 3 \<and> 3 \<le> tau_sup b
      \<and> ws_tv (ptw b) = ws_tv example_workspace)
   \<and> (\<exists>wt. thermodynamics_reionization_evolve_with_tau stub_table_tools stub_shooting_tools
          class_constants coarse_precision 0 (\<lambda>i. 0) (- 4000) 0 [- 50, 0] 2 example_workspace
        = (case bisection_loop stub_table_tools stub_shooting_tools class_constants coarse_precision
          (ws_tv example_workspace) (- 4000) 0 [- 50, 0] 2
                  \<lparr>z_sup = 46, z_inf = 0, tau_sup = 46, tau_inf = 0, counter = 0, ptw = wt\<rparr> of
             Inl e \<Rightarrow> Inl e
           | Inr b \<Rightarrow> Inr (b\<lparr>ptw := store_z_reio (ws_tv example_workspace) (ptw b)\<rparr>)))
   \<and> thermodynamics_reionization_evolve_with_tau stub_table_tools stub_shooting_tools
        class_constants (coarse_precision\<lparr>reionization_z_start_max := 1\<rparr>) 0 (\<lambda>i. 0)
        (- 4000) 0 [- 50, 0] 2 example_workspace
      = Inl ''parameters are such that reionization cannot take place before today while starting after z_start_max; need to increase z_start_max''
   \<and> isl (bisection_loop stub_table_tools stub_shooting_tools class_constants coarse_precision
          (ws_tv example_workspace) (- 4000) 0 [- 50, 0] 2 capped_bisection)
   \<and> bisection_loop stub_table_tools stub_shooting_tools class_constants coarse_precision
          (ws_tv example_workspace) (- 4000) 0 [- 50, 0] 2 capped_bisection
      = Inl ''while searching for reionization_optical_depth, maximum number of iterations exceeded''
   \<and> bisection_trial stub_table_tools stub_shooting_tools class_constants coarse_precision
          (ws_tv example_workspace) (- 4000) 0 [- 50, 0] 2 capped_bisection
      = Inl ''while searching for reionization_optical_depth, maximum number of iterations exceeded''
   \<and> (\<exists>b'. bisection_trial stub_table_tools stub_shooting_tools class_constants coarse_precision
          (ws_tv example_workspace) (- 4000) 0 [- 50, 0] 2
               (capped_bisection\<lparr>counter := 9999\<rparr>) = Inr b'
         \<and> counter b' = 10000 \<and> z_sup b' = 23 \<and> z_inf b' = 0
         \<and> tau_sup b' = 23 \<and> tau_inf b' = 0)
   \<and> bisection_loop stub_table_tools stub_shooting_tools class_constants coarse_precision
          (ws_tv example_workspace) (- 4000) 0 [- 50, 0] 2
        (capped_bisection\<lparr>tau_sup := 1\<rparr>) = Inr (capped_bisection\<lparr>tau_sup := 1\<rparr>)
   \<and> bisection_trial stub_table_tools stub_shooting_tools class_constants coarse_precision
          (ws_tv example_workspace) (- 4000) 0 [- 50, 0] 2
        (capped_bisection\<lparr>z_sup := 100\<rparr>)
      = Inl ''starting redshift for reionization > reionization_z_start_max = %e''"
proof -
  note defs = capped_bisection_def example_workspace_def example_thermo_def
    coarse_precision_def low_z_initial_precision_def class_constants_def
    stub_shooting_tools_def stub_table_tools_def Let_def
    thermodynamics_reionization_get_tau_def get_tau_search.simps
    restore_initial_conditions_def temporary_vector_def
  note k = stub_keeps_reio_redshift stub_keeps_vector_layout stub_keeps_tau_reio
  define V1 where "V1 = projr (generic_evolver stub_shooting_tools (- 4000) 0 [- 50, 0] 2
      (example_workspace\<lparr>ws_ptrp := (ws_ptrp example_workspace)\<lparr>reionization_parameters :=
          (reionization_parameters (ws_ptrp example_workspace))
            [index_reio_redshift (ws_ptrp example_workspace) := 23,
             index_reio_start (ws_ptrp example_workspace) := 27]\<rparr>\<rparr>))"
  define V2 where "V2 = projr (thermodynamics_reionization_get_tau stub_table_tools
      stub_shooting_tools class_constants
      (V1\<lparr>ws_tv := restore_initial_conditions (ws_tv example_workspace) (ws_tv V1)\<rparr>))"
  define W1 where "W1 = projr (generic_evolver stub_shooting_tools (- 4000) 0 [- 50, 0] 2
      (example_workspace\<lparr>ws_tv := restore_initial_conditions (ws_tv example_workspace)
                              (temporary_vector 0 (\<lambda>i. 0)),
         ws_ptrp := (ws_ptrp example_workspace)\<lparr>reionization_parameters :=
          (reionization_parameters (ws_ptrp example_workspace))
            [index_reio_redshift (ws_ptrp example_workspace) := 46,
             index_reio_start (ws_ptrp example_workspace) := 50]\<rparr>\<rparr>))"
  define W2 where "W2 = projr (thermodynamics_reionization_get_tau stub_table_tools
      stub_shooting_tools class_constants W1)"
  note th = reionization_bisection_terminates[where tt = stub_table_tools
      and st = stub_shooting_tools and k = class_constants and index_tv = 0
      and dy_alloc = "\<lambda>i. 0" and mz_ini = "- 4000" and mz_end = 0 and mz_out = "[- 50, 0]"
      and Nz = 2 and w = example_workspace and msg = "''the vector is not restored''"
      and ptvs = "ws_tv example_workspace" and ve = V1 and vt = V2 and we = W1 and wt = W2]
  note th_run = th[where ppr = coarse_precision and bs = capped_bisection]
  note th_cap = th_run
  note th_last = th[where ppr = coarse_precision and bs = "capped_bisection\<lparr>counter := 9999\<rparr>"]
  note th_done = th[where ppr = coarse_precision and bs = "capped_bisection\<lparr>tau_sup := 1\<rparr>"]
  note th_far = th[where ppr = coarse_precision and bs = "capped_bisection\<lparr>z_sup := 100\<rparr>"]
  note th_neg = th[where ppr = "coarse_precision\<lparr>reionization_z_start_max := 1\<rparr>"
      and bs = capped_bisection]
  have i: "index_reio_redshift (ws_ptrp example_workspace)
       < length (reionization_parameters (ws_ptrp example_workspace))"
    and d: "index_reio_redshift (ws_ptrp example_workspace)
       \<noteq> index_reio_start (ws_ptrp example_workspace)"
    and p: "0 \<le> tau_reio (ws_pth example_workspace)"
    and t3: "tau_reio (ws_pth example_workspace) = 3"
    by (simp_all add: example_workspace_def)
  from example_run obtain b where
    r: "thermodynamics_reionization_evolve_with_tau stub_table_tools stub_shooting_tools
          class_constants coarse_precision 0 (\<lambda>i. 0) (- 4000) 0 [- 50, 0] 2 example_workspace
        = Inr b"
    and v: "counter b = 4" "z_sup b = 23 / 4" "z_inf b = 23 / 8"
      "z_reio (ws_pth (ptw b)) = 23 / 8"
    and tr: "tau_reio (ws_pth (ptw b)) = 3"
    by blast
  from th_run have e1: "thermodynamics_reionization_evolve_with_tau stub_table_tools
          (restoring (ws_tv example_workspace) stub_shooting_tools)
          class_constants coarse_precision 0 (\<lambda>i. 0) (- 4000) 0 [- 50, 0] 2 example_workspace
        = Inr b"
    unfolding r by blast
  from th_run k(2) have e2: "thermodynamics_reionization_evolve_with_tau stub_table_tools
          (refusing ''the vector is not restored'' (ws_tv example_workspace)
             stub_shooting_tools)
          class_constants coarse_precision 0 (\<lambda>i. 0) (- 4000) 0 [- 50, 0] 2 example_workspace
        = Inr b"
    unfolding r by blast
  from th_run[THEN conjunct2, THEN conjunct2, THEN conjunct1] k i d p
  have c: "z_reio (ws_pth (ptw b)) = z_sup b \<or> z_reio (ws_pth (ptw b)) = z_inf b"
    "tau_sup b - tau_inf b
       \<le> tau_reio (ws_pth (ptw b)) * reionization_optical_depth_tol coarse_precision"
    "ws_tv (ptw b) = ws_tv example_workspace"
    "tau_inf b \<le> tau_reio (ws_pth example_workspace)"
    "tau_reio (ws_pth example_workspace) \<le> tau_sup b"
    unfolding r sum.case by blast+
  have part2: "\<exists>b. thermodynamics_reionization_evolve_with_tau stub_table_tools
          stub_shooting_tools class_constants coarse_precision 0 (\<lambda>i. 0) (- 4000) 0 [- 50, 0] 2 example_workspace
        = Inr b
      \<and> thermodynamics_reionization_evolve_with_tau stub_table_tools
          (restoring (ws_tv example_workspace) stub_shooting_tools)
          class_constants coarse_precision 0 (\<lambda>i. 0) (- 4000) 0 [- 50, 0] 2 example_workspace
        = Inr b
      \<and> thermodynamics_reionization_evolve_with_tau stub_table_tools
          (refusing ''the vector is not restored'' (ws_tv example_workspace)
             stub_shooting_tools)
          class_constants coarse_precision 0 (\<lambda>i. 0) (- 4000) 0 [- 50, 0] 2 example_workspace
        = Inr b
      \<and> counter b = 4 \<and> z_sup b = 23 / 4 \<and> z_inf b = 23 / 8
      \<and> z_reio (ws_pth (ptw b)) = 23 / 8
      \<and> (z_reio (ws_pth (ptw b)) = z_sup b \<or> z_reio (ws_pth (ptw b)) = z_inf b)
      \<and> tau_sup b - tau_inf b \<le> 3 * reionization_optical_depth_tol coarse_precision
      \<and> tau_inf b \<le> 3 \<and> 3 \<le> tau_sup b
      \<and> ws_tv (ptw b) = ws_tv example_workspace"
    using r e1 e2 v c[unfolded tr t3] by blast
  have g: "thermodynamics_reionization_evolve_with_tau stub_table_tools stub_shooting_tools
          class_constants coarse_precision 0 (\<lambda>i. 0) (- 4000) 0 [- 50, 0] 2 example_workspace
        = (case bisection_loop stub_table_tools stub_shooting_tools class_constants coarse_precision
          (ws_tv example_workspace) (- 4000) 0 [- 50, 0] 2
                  \<lparr>z_sup = 46, z_inf = 0, tau_sup = 46, tau_inf = 0, counter = 0,
                   ptw = W2\<lparr>ws_tv := restore_initial_conditions (ws_tv example_workspace)
                                        (ws_tv W2)\<rparr>\<rparr> of
             Inl e \<Rightarrow> Inl e
           | Inr b \<Rightarrow> Inr (b\<lparr>ptw := store_z_reio (ws_tv example_workspace) (ptw b)\<rparr>))"
    using th_run[THEN conjunct2, THEN conjunct2, THEN conjunct2, THEN conjunct2,
        THEN conjunct2, THEN conjunct2, THEN conjunct2]
    by (simp add: W1_def W2_def defs store_z_reio_def cong: sum.case_cong)
  have n: "thermodynamics_reionization_evolve_with_tau stub_table_tools stub_shooting_tools
        class_constants (coarse_precision\<lparr>reionization_z_start_max := 1\<rparr>) 0 (\<lambda>i. 0)
        (- 4000) 0 [- 50, 0] 2 example_workspace
      = Inl ''parameters are such that reionization cannot take place before today while starting after z_start_max; need to increase z_start_max''"
    using th_neg[THEN conjunct2, THEN conjunct2, THEN conjunct2, THEN conjunct2,
        THEN conjunct2, THEN conjunct2, THEN conjunct2]
    by (simp add: defs)
  have cap: "isl (bisection_loop stub_table_tools stub_shooting_tools class_constants coarse_precision
          (ws_tv example_workspace) (- 4000) 0 [- 50, 0] 2
      capped_bisection)"
    using th_cap[THEN conjunct2, THEN conjunct2, THEN conjunct2, THEN conjunct1]
    by (simp add: defs)
  have tc: "bisection_trial stub_table_tools stub_shooting_tools class_constants coarse_precision
          (ws_tv example_workspace) (- 4000) 0 [- 50, 0] 2 capped_bisection
      = Inl ''while searching for reionization_optical_depth, maximum number of iterations exceeded''"
    using th_cap[THEN conjunct2, THEN conjunct2, THEN conjunct2, THEN conjunct2,
        THEN conjunct2, THEN conjunct2, THEN conjunct1]
    by (simp add: V1_def V2_def defs)
  have lc: "bisection_loop stub_table_tools stub_shooting_tools class_constants coarse_precision
          (ws_tv example_workspace) (- 4000) 0 [- 50, 0] 2 capped_bisection
      = Inl ''while searching for reionization_optical_depth, maximum number of iterations exceeded''"
    using th_cap[THEN conjunct2, THEN conjunct2, THEN conjunct2, THEN conjunct2,
        THEN conjunct2, THEN conjunct1] tc
    by (simp add: capped_bisection_def example_workspace_def coarse_precision_def
        low_z_initial_precision_def)
  have tl: "\<exists>b'. bisection_trial stub_table_tools stub_shooting_tools class_constants coarse_precision
          (ws_tv example_workspace) (- 4000) 0 [- 50, 0] 2
               (capped_bisection\<lparr>counter := 9999\<rparr>) = Inr b'
         \<and> counter b' = 10000 \<and> z_sup b' = 23 \<and> z_inf b' = 0
         \<and> tau_sup b' = 23 \<and> tau_inf b' = 0"
    using th_last[THEN conjunct2, THEN conjunct2, THEN conjunct2, THEN conjunct2,
        THEN conjunct2, THEN conjunct2, THEN conjunct1]
    by (simp add: V1_def V2_def defs)
  have ld: "bisection_loop stub_table_tools stub_shooting_tools class_constants coarse_precision
          (ws_tv example_workspace) (- 4000) 0 [- 50, 0] 2
        (capped_bisection\<lparr>tau_sup := 1\<rparr>) = Inr (capped_bisection\<lparr>tau_sup := 1\<rparr>)"
    using th_done[THEN conjunct2, THEN conjunct2, THEN conjunct2, THEN conjunct2,
        THEN conjunct1]
    by (simp add: capped_bisection_def example_workspace_def coarse_precision_def
        low_z_initial_precision_def)
  have tf: "bisection_trial stub_table_tools stub_shooting_tools class_constants coarse_precision
          (ws_tv example_workspace) (- 4000) 0 [- 50, 0] 2
        (capped_bisection\<lparr>z_sup := 100\<rparr>)
      = Inl ''starting redshift for reionization > reionization_z_start_max = %e''"
    using th_far[THEN conjunct2, THEN conjunct2, THEN conjunct2, THEN conjunct2,
        THEN conjunct2, THEN conjunct2, THEN conjunct1]
    by (simp add: defs)
  show ?thesis
    using k part2 g n cap lc tc tl ld tf by blast
qed

end
